theory Spec2Isabelle
  imports Main "HOL-Library.Word" "HOL-Library.Signed_Division" "HOL-Library.AList"
begin

unbundle bit_operations_syntax

section \<open>JavaScript values used by the sources\<close>

text \<open>
  The sources are TypeScript. A string is modelled as a list of characters, one per code
  unit, and \<open>Date.now()\<close> as an integer number of milliseconds handed to the
  function that reads it. Arithmetic the sources perform on a value that may be
  \<open>undefined\<close> or not a number yields \<open>NaN\<close>; such numbers are values of
  \<open>jsnum\<close>. Every comparison with \<open>NaN\<close> is false.
\<close>

datatype jsnum = Num int | NaN

fun js_add :: "jsnum \<Rightarrow> jsnum \<Rightarrow> jsnum" where
  "js_add (Num a) (Num b) = Num (a + b)"
| "js_add _ _ = NaN"

fun js_sub :: "jsnum \<Rightarrow> jsnum \<Rightarrow> jsnum" where
  "js_sub (Num a) (Num b) = Num (a - b)"
| "js_sub _ _ = NaN"

fun js_mul :: "jsnum \<Rightarrow> jsnum \<Rightarrow> jsnum" where
  "js_mul (Num a) (Num b) = Num (a * b)"
| "js_mul _ _ = NaN"

text \<open>The remainder operator \<open>%\<close> truncates towards zero; a zero divisor gives \<open>NaN\<close>.\<close>

fun js_rem :: "jsnum \<Rightarrow> jsnum \<Rightarrow> jsnum" where
  "js_rem (Num a) (Num b) = (if b = 0 then NaN else Num (a smod b))"
| "js_rem _ _ = NaN"

fun js_lt :: "jsnum \<Rightarrow> jsnum \<Rightarrow> bool" where
  "js_lt (Num a) (Num b) = (a < b)"
| "js_lt _ _ = False"

fun js_gt :: "jsnum \<Rightarrow> jsnum \<Rightarrow> bool" where
  "js_gt (Num a) (Num b) = (a > b)"
| "js_gt _ _ = False"

fun js_ge :: "jsnum \<Rightarrow> jsnum \<Rightarrow> bool" where
  "js_ge (Num a) (Num b) = (a \<ge> b)"
| "js_ge _ _ = False"

text \<open>Strict equality \<open>===\<close> of two numbers.\<close>

fun js_eq :: "jsnum \<Rightarrow> jsnum \<Rightarrow> bool" where
  "js_eq (Num a) (Num b) = (a = b)"
| "js_eq _ _ = False"

text \<open>\<open>Math.ceil(x / 1000)\<close> for an integral \<open>x\<close>.\<close>

definition ceil_div_1000 :: "int \<Rightarrow> int" where
  "ceil_div_1000 x = - ((- x) div 1000)"

text \<open>Decimal rendering of a number inside a template literal or by \<open>toString()\<close>.\<close>

definition digit_char :: "nat \<Rightarrow> char" where
  "digit_char d = char_of (48 + d)"

fun show_nat :: "nat \<Rightarrow> string" where
  "show_nat n = (if n < 10 then [digit_char n] else show_nat (n div 10) @ [digit_char (n mod 10)])"

declare show_nat.simps [simp del]

definition show_int :: "int \<Rightarrow> string" where
  "show_int i = (if i < 0 then CHR ''-'' # show_nat (nat (- i)) else show_nat (nat i))"

fun show_jsnum :: "jsnum \<Rightarrow> string" where
  "show_jsnum (Num i) = show_int i"
| "show_jsnum NaN = ''NaN''"

text \<open>\<open>s.startsWith(p)\<close> and \<open>s.includes(sub)\<close>.\<close>

definition startsWith :: "string \<Rightarrow> string \<Rightarrow> bool" where
  "startsWith s p = (take (length p) s = p)"

fun includes_str :: "string \<Rightarrow> string \<Rightarrow> bool" where
  "includes_str [] sub = (sub = [])"
| "includes_str (c # cs) sub = (startsWith (c # cs) sub \<or> includes_str cs sub)"

text \<open>
  \<open>s.trim()\<close> removes white space at both ends: tab, line feed, vertical tab, form feed,
  carriage return, space and no-break space among the characters modelled.
\<close>

definition is_space :: "char \<Rightarrow> bool" where
  "is_space c = (c \<in> set [CHR 0x09, CHR 0x0A, CHR 0x0B, CHR 0x0C, CHR 0x0D, CHR 0x20, CHR 0xA0])"

definition trim :: "string \<Rightarrow> string" where
  "trim s = rev (dropWhile is_space (rev (dropWhile is_space s)))"

text \<open>\<open>s.split(",")[0]\<close>: the text before the first comma.\<close>

definition before_comma :: "string \<Rightarrow> string" where
  "before_comma s = takeWhile (\<lambda>c. c \<noteq> CHR '','') s"

text \<open>
  A regular expression \<open>/word/i\<close> with a lower-case ASCII \<open>word\<close> matches when the
  subject contains the word in any mix of upper and lower case.
\<close>

definition ascii_lower :: "char \<Rightarrow> char" where
  "ascii_lower c =
     (if 65 \<le> (of_char c :: nat) \<and> (of_char c :: nat) \<le> 90 then char_of (of_char c + (32::nat)) else c)"

definition test_i :: "string \<Rightarrow> string \<Rightarrow> bool" where
  "test_i word subject = includes_str (map ascii_lower subject) word"

text \<open>\<open>parts.join(sep)\<close> on an array of strings.\<close>

fun join :: "string \<Rightarrow> string list \<Rightarrow> string" where
  "join sep [] = []"
| "join sep [x] = x"
| "join sep (x # y # ys) = x @ sep @ join sep (y # ys)"

text \<open>A word between single quotes.\<close>

definition quoted :: "string \<Rightarrow> string" where
  "quoted s = CHR 0x27 # s @ [CHR 0x27]"

text \<open>
  The names every object inherits from \<open>Object.prototype\<close>. Indexing an object
  literal with one of them finds the inherited member, not \<open>undefined\<close>.
\<close>

definition object_prototype_members :: "string list" where
  "object_prototype_members =
     [''constructor'', ''__defineGetter__'', ''__defineSetter__'', ''hasOwnProperty'',
      ''__lookupGetter__'', ''__lookupSetter__'', ''isPrototypeOf'', ''propertyIsEnumerable'',
      ''toString'', ''valueOf'', ''__proto__'', ''toLocaleString'']"

section \<open>CNPJ check digits (src/lib/auto-fill.ts)\<close>

definition is_digit :: "char \<Rightarrow> bool" where
  "is_digit c = (48 \<le> (of_char c :: int) \<and> (of_char c :: int) \<le> 57)"

text \<open>\<open>Number.parseInt\<close> of a one-character string: the digit, or \<open>NaN\<close>.\<close>

definition parseInt_char :: "char \<Rightarrow> jsnum" where
  "parseInt_char c = (if is_digit c then Num (of_char c - 48) else NaN)"

text \<open>
  The loop \<^verbatim>\<open>for (let i = 0; i < n; i++) { sum += Number.parseInt(cnpj[i]) * weight;
  weight = weight === 2 ? 9 : weight - 1 }\<close>, entered with \<open>i\<close>, \<open>sum\<close>
  and \<open>weight\<close>.
\<close>

function check_sum :: "string \<Rightarrow> nat \<Rightarrow> nat \<Rightarrow> jsnum \<Rightarrow> int \<Rightarrow> jsnum" where
  "check_sum cnpj i n sm weight =
     (if i < n
      then check_sum cnpj (i + 1) n
             (js_add sm (js_mul (parseInt_char (cnpj ! i)) (Num weight)))
             (if weight = 2 then 9 else weight - 1)
      else sm)"
  by pat_completeness auto
termination
  by (relation "measure (\<lambda>(cnpj, i, n, sm, weight). n - i)") auto

declare check_sum.simps [simp del]

text \<open>\<^verbatim>\<open>sum % 11 < 2 ? 0 : 11 - (sum % 11)\<close>\<close>

definition check_digit :: "jsnum \<Rightarrow> jsnum" where
  "check_digit sm =
     (if js_lt (js_rem sm (Num 11)) (Num 2) then Num 0
      else js_sub (Num 11) (js_rem sm (Num 11)))"

text \<open>The regular-expression test for one repeated digit: a digit followed by thirteen copies of itself.\<close>

definition repeated_digit :: "string \<Rightarrow> bool" where
  "repeated_digit s =
     (case s of [] \<Rightarrow> False
      | c # cs \<Rightarrow> is_digit c \<and> length cs = 13 \<and> list_all (\<lambda>x. x = c) cs)"

text \<open>
  \<open>validateCNPJ\<close> reads \<open>cnpj[i]\<close> only for \<open>i < 14\<close>, after the length test, so
  every index is in range.
\<close>

definition validateCNPJ :: "string \<Rightarrow> bool" where
  "validateCNPJ cnpj =
     (if length cnpj \<noteq> 14 then False
      else if repeated_digit cnpj then False
      else
        let digit1 = check_digit (check_sum cnpj 0 12 (Num 0) 5);
            digit2 = check_digit (check_sum cnpj 0 13 (Num 0) 6)
        in js_eq (parseInt_char (cnpj ! 12)) digit1 \<and> js_eq (parseInt_char (cnpj ! 13)) digit2)"

text \<open>
  The property as the specification words it: fourteen decimal digits, not one digit
  repeated, whose last two digits are the check digits of the digits before them.
\<close>

definition weights1 :: "int list" where
  "weights1 = [5, 4, 3, 2, 9, 8, 7, 6, 5, 4, 3, 2]"

definition weights2 :: "int list" where
  "weights2 = [6, 5, 4, 3, 2, 9, 8, 7, 6, 5, 4, 3, 2]"

definition digit_val :: "char \<Rightarrow> int" where
  "digit_val c = of_char c - 48"

definition weighted_sum :: "int list \<Rightarrow> string \<Rightarrow> int" where
  "weighted_sum ws s = sum_list (map (\<lambda>(w, c). digit_val c * w) (zip ws s))"

definition mod11_check :: "int \<Rightarrow> int" where
  "mod11_check s = (if s mod 11 < 2 then 0 else 11 - s mod 11)"

definition cnpj_spec :: "string \<Rightarrow> bool" where
  "cnpj_spec s \<longleftrightarrow>
     length s = 14 \<and> list_all is_digit s \<and> \<not> (\<exists>d. s = replicate 14 d) \<and>
     digit_val (s ! 12) = mod11_check (weighted_sum weights1 s) \<and>
     digit_val (s ! 13) = mod11_check (weighted_sum weights2 s)"

section \<open>Rate limiting\<close>

subsection \<open>The middleware's limiter (src/middleware.ts, checkRateLimit)\<close>

text \<open>
  \<open>rateLimitMap\<close> is a \<open>Map\<close> from the key \<open>ip:endpoint\<close> to an entry. The function
  reads the clock once; \<open>now\<close> is that reading. It returns its result together with
  the map it leaves behind.
\<close>

record mw_entry =
  mw_count :: int
  mw_resetTime :: int

type_synonym rateLimitMap = "string \<rightharpoonup> mw_entry"

record mw_limit_result =
  mw_allowed :: bool
  mw_result_resetTime :: "int option"
  mw_message :: "string option"

definition rate_key :: "string \<Rightarrow> string \<Rightarrow> string" where
  "rate_key ip endpoint = ip @ '':'' @ endpoint"

definition mw_limit :: "string \<Rightarrow> int" where
  "mw_limit endpoint = (if includes_str endpoint ''/auth/'' then 3 else 10)"

definition mw_window :: int where
  "mw_window = 60000"

definition retry_message :: "jsnum \<Rightarrow> string" where
  "retry_message seconds =
     ''Rate limit exceeded. Try again in '' @ show_jsnum seconds @ '' seconds.''"

definition checkRateLimit ::
  "string \<Rightarrow> string \<Rightarrow> int \<Rightarrow> rateLimitMap \<Rightarrow> mw_limit_result \<times> rateLimitMap" where
  "checkRateLimit ip endpoint now m =
     (let key = rate_key ip endpoint;
          limit = mw_limit endpoint;
          fresh = (\<lparr>mw_allowed = True, mw_result_resetTime = None, mw_message = None\<rparr>,
                   m(key \<mapsto> \<lparr>mw_count = 1, mw_resetTime = now + mw_window\<rparr>))
      in case m key of
           None \<Rightarrow> fresh
         | Some entry \<Rightarrow>
             if now \<ge> mw_resetTime entry then fresh
             else
               let entry' = entry\<lparr>mw_count := mw_count entry + 1\<rparr>;
                   m' = m(key \<mapsto> entry')
               in if mw_count entry' > limit
                  then (\<lparr>mw_allowed = False,
                         mw_result_resetTime = Some (mw_resetTime entry'),
                         mw_message = Some (retry_message
                           (Num (ceil_div_1000 (mw_resetTime entry' - now))))\<rparr>, m')
                  else (\<lparr>mw_allowed = True, mw_result_resetTime = None, mw_message = None\<rparr>, m'))"

subsection \<open>The RateLimiter class (src/unnamed/part_002, checkLimit)\<close>

text \<open>
  \<open>configs\<close> is an object literal with five own properties. The expression
  \<open>this.configs[endpoint] || this.configs.default\<close> finds an own property, else a
  member inherited from \<open>Object.prototype\<close> (a function or object, which is truthy and
  has neither \<open>requests\<close> nor \<open>window\<close>), else the default. Reading a missing
  field gives \<open>undefined\<close>, which the additions, subtractions and comparisons of
  \<open>checkLimit\<close> treat as \<open>NaN\<close>; the fields of such a member are \<open>NaN\<close> here.
\<close>

record limit_config =
  requests :: jsnum
  window :: jsnum

definition default_config :: limit_config where
  "default_config = \<lparr>requests = Num 100, window = Num 60000\<rparr>"

definition configs :: "string \<rightharpoonup> limit_config" where
  "configs =
     [''/api/submissions'' \<mapsto> \<lparr>requests = Num 5, window = Num 60000\<rparr>,
      ''/api/auth/login'' \<mapsto> \<lparr>requests = Num 3, window = Num 900000\<rparr>,
      ''/api/auth/register'' \<mapsto> \<lparr>requests = Num 2, window = Num 3600000\<rparr>,
      ''/api/forms'' \<mapsto> \<lparr>requests = Num 10, window = Num 60000\<rparr>,
      ''default'' \<mapsto> default_config]"

definition config_of :: "string \<Rightarrow> limit_config" where
  "config_of endpoint =
     (case configs endpoint of
        Some c \<Rightarrow> c
      | None \<Rightarrow>
          if endpoint \<in> set object_prototype_members
          then \<lparr>requests = NaN, window = NaN\<rparr>
          else default_config)"

record RateLimitEntry =
  count :: int
  resetTime :: jsnum
  blocked :: bool

type_synonym limits = "string \<rightharpoonup> RateLimitEntry"

record limit_result =
  allowed :: bool
  remaining :: jsnum
  result_resetTime :: "jsnum option"
  message :: "string option"

text \<open>\<open>Math.ceil((entry.resetTime - now) / 1000)\<close>\<close>

fun js_ceil_div_1000 :: "jsnum \<Rightarrow> jsnum" where
  "js_ceil_div_1000 (Num x) = Num (ceil_div_1000 x)"
| "js_ceil_div_1000 NaN = NaN"

definition checkLimit ::
  "string \<Rightarrow> string \<Rightarrow> int \<Rightarrow> limits \<Rightarrow> limit_result \<times> limits" where
  "checkLimit ip endpoint now m =
     (let key = rate_key ip endpoint;
          config = config_of endpoint;
          fresh = (\<lparr>allowed = True, remaining = js_sub (requests config) (Num 1),
                     result_resetTime = None, message = None\<rparr>,
                   m(key \<mapsto> \<lparr>count = 1, resetTime = js_add (Num now) (window config),
                               blocked = False\<rparr>))
      in case m key of
           None \<Rightarrow> fresh
         | Some entry \<Rightarrow>
             if js_ge (Num now) (resetTime entry) then fresh
             else
               let entry' = entry\<lparr>count := count entry + 1\<rparr>
               in if js_gt (Num (count entry')) (requests config)
                  then (\<lparr>allowed = False, remaining = Num 0,
                         result_resetTime = Some (resetTime entry'),
                         message = Some (retry_message
                           (js_ceil_div_1000 (js_sub (resetTime entry') (Num now))))\<rparr>,
                        m(key \<mapsto> entry'\<lparr>blocked := True\<rparr>))
                  else (\<lparr>allowed = True,
                         remaining = js_sub (requests config) (Num (count entry')),
                         result_resetTime = Some (resetTime entry'), message = None\<rparr>,
                        m(key \<mapsto> entry')))"

section \<open>CSRF tokens\<close>

subsection \<open>The CSRFProtection class (src/unnamed/part_002)\<close>

text \<open>
  \<open>tokens\<close> is a \<open>Map\<close> from the key \<open>sessionId:token\<close> to an entry. A \<open>Map\<close>
  iterates in insertion order and \<open>generateToken\<close> sorts what it iterates, so the map
  is an association list in insertion order: \<open>set\<close> replaces the value of a key that
  is present and appends a new key, \<open>delete\<close> removes the key.
\<close>

record csrf_entry =
  token :: string
  expires :: int
  used :: bool

type_synonym token_store = "(string \<times> csrf_entry) list"

definition TOKEN_EXPIRY :: int where
  "TOKEN_EXPIRY = 3600000"

definition MAX_TOKENS_PER_SESSION :: nat where
  "MAX_TOKENS_PER_SESSION = 5"

definition csrf_key :: "string \<Rightarrow> string \<Rightarrow> string" where
  "csrf_key sessionId tok = sessionId @ '':'' @ tok"

text \<open>A parameter \<open>sessionId = "anonymous"\<close>: the default stands in for an absent argument.\<close>

definition session_or_default :: "string option \<Rightarrow> string" where
  "session_or_default sessionId = (case sessionId of None \<Rightarrow> ''anonymous'' | Some s \<Rightarrow> s)"

text \<open>
  \<open>constantTimeCompare\<close>: after the length test the loop folds the exclusive or of the
  character codes of each position into \<open>result\<close> with \<open>|=\<close>, on 32-bit integers.
\<close>

function compare_loop :: "string \<Rightarrow> string \<Rightarrow> nat \<Rightarrow> 32 word \<Rightarrow> 32 word" where
  "compare_loop a b i result =
     (if i < length a
      then compare_loop a b (i + 1) (result OR (of_char (a ! i) XOR of_char (b ! i)))
      else result)"
  by pat_completeness auto
termination
  by (relation "measure (\<lambda>(a, b, i, result). length a - i)") auto

declare compare_loop.simps [simp del]

definition constantTimeCompare :: "string \<Rightarrow> string \<Rightarrow> bool" where
  "constantTimeCompare a b =
     (if length a \<noteq> length b then False else compare_loop a b 0 0 = 0)"

text \<open>
  The same comparison with what an observer of its running can see: the outcome of each
  test that decides the control flow (\<open>a.length !== b.length\<close>, \<open>i < a.length\<close>) and
  the index of each pair of characters read, in the order of execution. The values of
  the characters and of \<open>result\<close> are not part of it; \<open>result\<close> is tested once, for
  the value returned.
\<close>

datatype event = Length_test bool | Loop_test bool | Char_codes nat




text \<open>
  \<open>cleanupExpiredTokens(sessionId?)\<close>: with a non-empty session id only that session's
  keys are considered; an absent or empty one is falsy and every key is.
\<close>

definition cleanupExpiredTokens :: "string option \<Rightarrow> int \<Rightarrow> token_store \<Rightarrow> token_store" where
  "cleanupExpiredTokens sessionId now tokens =
     filter (\<lambda>(key, v).
        let shouldClean = (now > expires v \<or> used v)
        in \<not> (case sessionId of
                 Some sid \<Rightarrow>
                   if sid \<noteq> [] then startsWith key (sid @ '':'') \<and> shouldClean
                   else shouldClean
               | None \<Rightarrow> shouldClean))
       tokens"

text \<open>\<open>crypto.randomBytes(32).toString("hex")\<close>: two lower-case hex digits per byte.\<close>

definition hex_digit :: "nat \<Rightarrow> char" where
  "hex_digit d = ''0123456789abcdef'' ! d"

definition hex_byte :: "8 word \<Rightarrow> string" where
  "hex_byte b = [hex_digit (unat b div 16), hex_digit (unat b mod 16)]"

definition to_hex :: "8 word list \<Rightarrow> string" where
  "to_hex bytes = concat (map hex_byte bytes)"

text \<open>
  \<open>generateToken\<close> reads the clock twice, in \<open>cleanupExpiredTokens\<close> and for the
  expiry; \<open>random\<close> is what \<open>crypto.randomBytes(32)\<close> returns. When the session
  holds five tokens or more after the clean-up, the one that a stable ascending sort by
  expiry puts first is deleted.
\<close>

definition generateToken ::
  "string option \<Rightarrow> int \<Rightarrow> int \<Rightarrow> 8 word list \<Rightarrow> token_store \<Rightarrow> string \<times> token_store" where
  "generateToken sessionId now_cleanup now random tokens =
     (let sid = session_or_default sessionId;
          tokens1 = cleanupExpiredTokens (Some sid) now_cleanup tokens;
          sessionTokens = filter (\<lambda>(key, v). startsWith key (sid @ '':'')) tokens1;
          tokens2 =
            (if length sessionTokens \<ge> MAX_TOKENS_PER_SESSION
             then AList.delete (fst (hd (sort_key (\<lambda>(key, v). expires v) sessionTokens))) tokens1
             else tokens1);
          tok = to_hex random;
          key = csrf_key sid tok
      in (tok, AList.update key \<lparr>token = tok, expires = now + TOKEN_EXPIRY, used = False\<rparr> tokens2))"

text \<open>
  \<open>validateToken\<close> reads the clock only after it has found the entry. Marking the
  entry used writes to the object held by the map.
\<close>

definition validateToken ::
  "string \<Rightarrow> string option \<Rightarrow> int \<Rightarrow> token_store \<Rightarrow> bool \<times> token_store" where
  "validateToken tok sessionId now tokens =
     (if tok = [] \<or> length tok \<noteq> 64 then (False, tokens)
      else
        let key = csrf_key (session_or_default sessionId) tok
        in case map_of tokens key of
             None \<Rightarrow> (False, tokens)
           | Some storedToken \<Rightarrow>
               if now > expires storedToken then (False, AList.delete key tokens)
               else if used storedToken then (False, tokens)
               else
                 let tokens' = AList.update key (storedToken\<lparr>used := True\<rparr>) tokens;
                     isValid = constantTimeCompare tok (token storedToken)
                 in (isValid, tokens'))"

definition revokeSessionTokens :: "string \<Rightarrow> token_store \<Rightarrow> token_store" where
  "revokeSessionTokens sessionId tokens =
     filter (\<lambda>(key, v). \<not> startsWith key (sessionId @ '':'')) tokens"

text \<open>\<open>cleanup()\<close> calls \<open>cleanupExpiredTokens\<close> without a session.\<close>

definition csrf_cleanup :: "int \<Rightarrow> token_store \<Rightarrow> token_store" where
  "csrf_cleanup now tokens = cleanupExpiredTokens None now tokens"

text \<open>The operations of the class, and a run of them in sequence.\<close>

datatype csrf_op =
    Generate "string option" int int "8 word list"
  | Validate string "string option" int
  | Revoke string
  | Cleanup int

fun csrf_step :: "csrf_op \<Rightarrow> token_store \<Rightarrow> token_store" where
  "csrf_step (Generate sessionId now_cleanup now random) tokens =
     snd (generateToken sessionId now_cleanup now random tokens)"
| "csrf_step (Validate tok sessionId now) tokens = snd (validateToken tok sessionId now tokens)"
| "csrf_step (Revoke sessionId) tokens = revokeSessionTokens sessionId tokens"
| "csrf_step (Cleanup now) tokens = csrf_cleanup now tokens"

definition csrf_run :: "csrf_op list \<Rightarrow> token_store \<Rightarrow> token_store" where
  "csrf_run ops tokens = foldl (\<lambda>s operation. csrf_step operation s) tokens ops"

subsection \<open>The middleware's validator (src/middleware.ts, validateCSRFToken)\<close>

record mw_csrf_entry =
  mw_token :: string
  mw_expires :: int

type_synonym csrfTokens = "string \<rightharpoonup> mw_csrf_entry"

definition validateCSRFToken ::
  "string \<Rightarrow> string \<Rightarrow> int \<Rightarrow> csrfTokens \<Rightarrow> bool \<times> csrfTokens" where
  "validateCSRFToken tok sessionId now m =
     (if tok = [] then (False, m)
      else
        let key = csrf_key sessionId tok
        in case m key of
             None \<Rightarrow> (False, m(key := None))
           | Some entry \<Rightarrow>
               if now > mw_expires entry then (False, m(key := None))
               else (True, m))"

text \<open>Whether an operation stores a token under the key \<open>k\<close>.\<close>

fun generates_key :: "string \<Rightarrow> csrf_op \<Rightarrow> bool" where
  "generates_key k (Generate sessionId now_cleanup now random) =
     (csrf_key (session_or_default sessionId) (to_hex random) = k)"
| "generates_key k _ = False"

text \<open>A key is spent in a store that has no entry for it or an entry marked used.\<close>

definition spent :: "string \<Rightarrow> token_store \<Rightarrow> bool" where
  "spent k tokens = (case map_of tokens k of None \<Rightarrow> True | Some e \<Rightarrow> used e)"

section \<open>The request middleware (src/middleware.ts)\<close>

text \<open>
  A request as the middleware reads it: method, path, headers (looked up by lower-case
  name; an absent header is \<open>null\<close>), cookies and the connection's address.
\<close>

record request =
  req_method :: string
  pathname :: string
  req_headers :: "string \<rightharpoonup> string"
  req_cookies :: "string \<rightharpoonup> string"
  req_ip :: "string option"

text \<open>A string or \<open>null\<close> used as a condition is true when present and not empty.\<close>

definition present :: "string option \<Rightarrow> bool" where
  "present v = (case v of None \<Rightarrow> False | Some s \<Rightarrow> s \<noteq> [])"

definition getClientIP :: "request \<Rightarrow> string" where
  "getClientIP request =
     (let forwardedFor = req_headers request ''x-forwarded-for'';
          realIP = req_headers request ''x-real-ip'';
          cfConnectingIP = req_headers request ''cf-connecting-ip''
      in if present cfConnectingIP then trim (before_comma (the cfConnectingIP))
         else if present forwardedFor then trim (before_comma (the forwardedFor))
         else if present realIP then the realIP
         else if present (req_ip request) then the (req_ip request)
         else ''unknown'')"

definition isIPBlocked :: "string \<Rightarrow> bool" where
  "isIPBlocked ip = (ip \<in> set [''0.0.0.0''] \<or> ip = ''unknown'' \<or> ip = [])"

definition suspiciousPatterns :: "string list" where
  "suspiciousPatterns = [''bot'', ''crawler'', ''spider'', ''scraper'', ''curl'', ''wget'']"

definition detectSuspiciousActivity :: "request \<Rightarrow> bool" where
  "detectSuspiciousActivity request =
     (let userAgent = (if present (req_headers request ''user-agent'')
                       then the (req_headers request ''user-agent'') else [])
      in if userAgent = [] \<or> length userAgent < 10 then True
         else list_ex (\<lambda>pattern. test_i pattern userAgent) suspiciousPatterns)"

definition PROTECTED_ROUTES :: "string list" where
  "PROTECTED_ROUTES = [''/api/forms'', ''/api/dashboard'', ''/api/export'']"

definition CSRF_PROTECTED_ROUTES :: "string list" where
  "CSRF_PROTECTED_ROUTES =
     [''/api/forms'', ''/api/submissions'', ''/api/auth/login'', ''/api/auth/register'']"

definition RATE_LIMITED_ROUTES :: "string list" where
  "RATE_LIMITED_ROUTES =
     [''/api/submissions'', ''/api/forms'', ''/api/auth/login'', ''/api/auth/register'']"

text \<open>\<open>routes.some((route) => pathname.startsWith(route))\<close>\<close>

definition on_route :: "string list \<Rightarrow> string \<Rightarrow> bool" where
  "on_route routes path = list_ex (\<lambda>route. startsWith path route) routes"

text \<open>
  A response is either \<open>NextResponse.json(body, {status, headers})\<close> or
  \<open>NextResponse.next()\<close> with the headers set on it, in the order they are set.
\<close>

datatype body_value = Text string | Number int

datatype response =
    JsonResponse nat "(string \<times> body_value) list" "(string \<times> string) list"
  | NextResponse "(string \<times> string) list"

fun status_of :: "response \<Rightarrow> nat option" where
  "status_of (JsonResponse code body hs) = Some code"
| "status_of (NextResponse hs) = None"

text \<open>
  \<open>jwt.verify(token, JWT_SECRET)\<close> belongs to the jsonwebtoken library: it returns the
  decoded payload or throws. It is a parameter of the model, \<open>None\<close> when it throws,
  and so is whether the process runs in production.
\<close>

record decoded =
  userId :: string
  email :: string
  role :: string

record mw_env =
  jwt_verify :: "string \<Rightarrow> decoded option"
  production :: bool

text \<open>The two module-level maps, and the three clock readings one invocation can make.\<close>

record mw_state =
  rateLimitMap :: rateLimitMap
  csrfTokens :: csrfTokens

record mw_clock =
  now_limit :: int
  now_retry :: int
  now_csrf :: int

definition csp :: string where
  "csp = join ''; ''
     [''default-src '' @ quoted ''self'',
      ''script-src '' @ quoted ''self'' @ '' '' @ quoted ''unsafe-inline'' @ '' '' @ quoted ''unsafe-eval'',
      ''style-src '' @ quoted ''self'' @ '' '' @ quoted ''unsafe-inline'',
      ''img-src '' @ quoted ''self'' @ '' data: https:'',
      ''font-src '' @ quoted ''self'',
      ''connect-src '' @ quoted ''self'' @ '' https://viacep.com.br https://www.receitaws.com.br'',
      ''frame-ancestors '' @ quoted ''none'']"

definition security_headers :: "bool \<Rightarrow> (string \<times> string) list" where
  "security_headers is_production =
     [(''X-Content-Type-Options'', ''nosniff''),
      (''X-Frame-Options'', ''DENY''),
      (''X-XSS-Protection'', ''1; mode=block''),
      (''Referrer-Policy'', ''strict-origin-when-cross-origin''),
      (''Permissions-Policy'', ''camera=(), microphone=(), geolocation=()''),
      (''Content-Security-Policy'', csp)] @
     (if is_production then [(''Strict-Transport-Security'', ''max-age=31536000; includeSubDomains'')]
      else [])"

definition mutating :: "string \<Rightarrow> bool" where
  "mutating m = (m = ''POST'' \<or> m = ''PUT'' \<or> m = ''DELETE'')"

text \<open>Step 5 and 6: authentication on a protected route, else the security headers.\<close>

definition authenticate :: "mw_env \<Rightarrow> request \<Rightarrow> response" where
  "authenticate env request =
     (if on_route PROTECTED_ROUTES (pathname request)
      then
        let tok = req_cookies request ''auth-token''
        in if \<not> present tok
           then JsonResponse 401 [(''error'', Text ''Authentication required'')] []
           else
             (case jwt_verify env (the tok) of
                Some d \<Rightarrow>
                  NextResponse [(''x-user-id'', userId d), (''x-user-email'', email d),
                                (''x-user-role'', role d)]
              | None \<Rightarrow> JsonResponse 401 [(''error'', Text ''Invalid token'')] [])
      else NextResponse (security_headers (production env)))"

text \<open>Step 4 onwards: the CSRF check for a mutating method on a CSRF-protected route.\<close>

definition csrf_then_authenticate ::
  "mw_env \<Rightarrow> request \<Rightarrow> string \<Rightarrow> mw_clock \<Rightarrow> mw_state \<Rightarrow> response \<times> mw_state" where
  "csrf_then_authenticate env request clientIP clock st =
     (if mutating (req_method request) \<and> on_route CSRF_PROTECTED_ROUTES (pathname request)
      then
        let csrfToken = req_headers request ''x-csrf-token''
        in if \<not> present csrfToken
           then (JsonResponse 403 [(''error'', Text ''CSRF token required'')] [], st)
           else
             let (valid, tokens') =
                   validateCSRFToken (the csrfToken) clientIP (now_csrf clock) (csrfTokens st);
                 st' = st\<lparr>csrfTokens := tokens'\<rparr>
             in if \<not> valid
                then (JsonResponse 403 [(''error'', Text ''Invalid CSRF token'')] [], st')
                else (authenticate env request, st')
      else (authenticate env request, st))"

definition middleware ::
  "mw_env \<Rightarrow> request \<Rightarrow> mw_clock \<Rightarrow> mw_state \<Rightarrow> response \<times> mw_state" where
  "middleware env request clock st =
     (let clientIP = getClientIP request
      in if isIPBlocked clientIP
         then (JsonResponse 403 [(''error'', Text ''Access denied'')] [], st)
         else if detectSuspiciousActivity request
         then (JsonResponse 403 [(''error'', Text ''Suspicious activity detected'')] [], st)
         else if on_route RATE_LIMITED_ROUTES (pathname request)
         then
           let (limitCheck, limits') =
                 checkRateLimit clientIP (pathname request) (now_limit clock) (rateLimitMap st);
               st' = st\<lparr>rateLimitMap := limits'\<rparr>
           in if \<not> mw_allowed limitCheck
              then
                let reset = (case mw_result_resetTime limitCheck of Some t \<Rightarrow> t | None \<Rightarrow> 0)
                in (JsonResponse 429
                      [(''error'', Text (case mw_message limitCheck of Some s \<Rightarrow> s | None \<Rightarrow> [])),
                       (''resetTime'', Number reset)]
                      [(''Retry-After'', show_int (ceil_div_1000 (reset - now_retry clock)))],
                    st')
              else csrf_then_authenticate env request clientIP clock st'
         else csrf_then_authenticate env request clientIP clock st)"

text \<open>
  An example: a browser's \<open>GET /api/forms/7\<close> through a proxy, carrying the given
  cookies, and a verifier that accepts only the token \<open>good\<close>.
\<close>

definition example_request :: "(string \<rightharpoonup> string) \<Rightarrow> request" where
  "example_request cookies =
     \<lparr>req_method = ''GET'', pathname = ''/api/forms/7'',
      req_headers = [''user-agent'' \<mapsto> ''Mozilla/5.0'', ''x-forwarded-for'' \<mapsto> ''198.51.100.1''],
      req_cookies = cookies, req_ip = None\<rparr>"

definition example_env :: mw_env where
  "example_env =
     \<lparr>jwt_verify = (\<lambda>t. if t = ''good''
                          then Some \<lparr>userId = ''7'', email = ''ana@example.org'', role = ''user''\<rparr>
                          else None),
      production = False\<rparr>"

definition example_state :: mw_state where
  "example_state = \<lparr>rateLimitMap = Map.empty, csrfTokens = Map.empty\<rparr>"

definition example_clock :: mw_clock where
  "example_clock = \<lparr>now_limit = 1000, now_retry = 1000, now_csrf = 1000\<rparr>"

section \<open>JSON values\<close>

text \<open>
  A value as \<open>JSON.parse\<close> returns it and as \<open>JSON.stringify\<close> takes it. An object
  lists its own properties in insertion order. The numbers met here are integers; of
  a number the sources observe only its text and whether it is zero.
\<close>

datatype json =
    JNull
  | JBool bool
  | JNumber int
  | JString string
  | JArray "json list"
  | JObject "(string \<times> json) list"

text \<open>
  \<open>JSON.stringify\<close> quotes a string: the quote and the backslash are escaped, as are
  the control characters, five by a letter and the others as \<open>u00XX\<close>.
\<close>

definition backslash :: char where
  "backslash = CHR 0x5C"

definition json_escape_char :: "char \<Rightarrow> string" where
  "json_escape_char c =
     (if c = CHR 0x22 then [backslash, CHR 0x22]
      else if c = backslash then [backslash, backslash]
      else if c = CHR 0x08 then [backslash, CHR ''b'']
      else if c = CHR 0x0C then [backslash, CHR ''f'']
      else if c = CHR 0x0A then [backslash, CHR ''n'']
      else if c = CHR 0x0D then [backslash, CHR ''r'']
      else if c = CHR 0x09 then [backslash, CHR ''t'']
      else if (of_char c :: nat) < 32
        then [backslash, CHR ''u'', CHR ''0'', CHR ''0'',
              hex_digit (of_char c div 16), hex_digit (of_char c mod 16)]
      else [c])"

definition json_quote :: "string \<Rightarrow> string" where
  "json_quote s = CHR 0x22 # concat (map json_escape_char s) @ [CHR 0x22]"

text \<open>
  \<open>JSON.stringify(value, null, gap)\<close>: \<open>gap\<close> is empty for the compact form and two
  spaces for the indented one; \<open>indent\<close> is the indentation of the enclosing value.
\<close>

fun stringify :: "string \<Rightarrow> string \<Rightarrow> json \<Rightarrow> string" where
  "stringify gap indent JNull = ''null''"
| "stringify gap indent (JBool b) = (if b then ''true'' else ''false'')"
| "stringify gap indent (JNumber n) = show_int n"
| "stringify gap indent (JString s) = json_quote s"
| "stringify gap indent (JArray xs) =
     (let inner = indent @ gap;
          partial = map (stringify gap inner) xs
      in if partial = [] then ''[]''
         else if gap = [] then ''['' @ join '','' partial @ '']''
         else ''['' @ [CHR 0x0A] @ inner @ join ('','' @ [CHR 0x0A] @ inner) partial @
              [CHR 0x0A] @ indent @ '']'')"
| "stringify gap indent (JObject kvs) =
     (let inner = indent @ gap;
          partial = map (\<lambda>kv. json_quote (fst kv) @ '':'' @ (if gap = [] then [] else '' '') @
                               stringify gap inner (snd kv)) kvs
      in if partial = [] then ''{}''
         else if gap = [] then ''{'' @ join '','' partial @ ''}''
         else ''{'' @ [CHR 0x0A] @ inner @ join ('','' @ [CHR 0x0A] @ inner) partial @
              [CHR 0x0A] @ indent @ ''}'')"

definition JSON_stringify :: "bool \<Rightarrow> json \<Rightarrow> string" where
  "JSON_stringify pretty v = stringify (if pretty then ''  '' else []) [] v"

text \<open>The value of a lower-case hexadecimal digit.\<close>

definition unhex :: "char \<Rightarrow> nat" where
  "unhex c = (if (of_char c :: nat) < 58 then of_char c - 48 else of_char c - 87)"

section \<open>The form exporter (src/lib/form-exporter.ts)\<close>

record FormField =
  field_id :: string
  field_type :: string
  field_label :: string
  field_placeholder :: "string option"
  field_required :: bool
  field_options :: "string list option"

record Form =
  fm_id :: string
  fm_title :: string
  fm_description :: string
  fm_fields :: "FormField list"
  fm_status :: string
  fm_created_at :: string
  fm_updated_at :: string

text \<open>
  The options of the two exports; every property is optional and the destructuring in
  \<open>exportAsHTML\<close> and \<open>exportAsJSON\<close> supplies the defaults.
\<close>

record HTMLExportOptions =
  includeValidation :: "bool option"
  includeAutoFill :: "bool option"
  includeCSS :: "bool option"
  includeBootstrap :: "bool option"
  submitUrl :: "string option"
  theme :: "string option"

record JSONExportOptions =
  json_includeMetadata :: "bool option"
  json_includeValidation :: "bool option"
  json_minify :: "bool option"
  json_version :: "string option"

text \<open>The HTML options once the defaults are in place.\<close>

record html_options =
  opt_includeValidation :: bool
  opt_includeAutoFill :: bool
  opt_includeCSS :: bool
  opt_includeBootstrap :: bool
  opt_submitUrl :: string
  opt_theme :: string

text \<open>
  What the exporter takes from its surroundings: \<open>escapeHtml\<close> asks the document for
  the markup of a text node (\<open>div.textContent = text; return div.innerHTML\<close>), and
  \<open>exportAsJSON\<close> reads the clock with \<open>new Date().toISOString()\<close>.
\<close>

record environment =
  text_markup :: "string \<Rightarrow> string"
  now_iso :: string

text \<open>
  A browser serialises a text node by replacing \<open>&\<close>, \<open><\<close>, \<open>>\<close> and the
  no-break space by character entities.
\<close>

definition escape_char :: "char \<Rightarrow> string" where
  "escape_char c =
     (if c = CHR ''&'' then ''&amp;''
      else if c = CHR ''<'' then ''&lt;''
      else if c = CHR ''>'' then ''&gt;''
      else if c = CHR 0xA0 then ''&nbsp;''
      else [c])"

definition dom_escape :: "string \<Rightarrow> string" where
  "dom_escape s = concat (map escape_char s)"

definition browser :: "string \<Rightarrow> environment" where
  "browser clock = \<lparr>text_markup = dom_escape, now_iso = clock\<rparr>"

definition escapeHtml :: "environment \<Rightarrow> string \<Rightarrow> string" where
  "escapeHtml env s = text_markup env s"

text \<open>
  The style sheet, the dark theme and the validation and auto-fill scripts are fixed
  texts of several hundred lines that take nothing from the form or the options. They
  are parameters here, so every statement below holds whatever they contain.
\<close>

record static_text =
  baseCSS :: string
  darkThemeCSS :: string
  validationJS :: string
  autoFillJS :: string

text \<open>\<open>value || fallback\<close> for an optional string: absent and empty are both falsy.\<close>

definition or_else :: "string option \<Rightarrow> string \<Rightarrow> string" where
  "or_else v fallback = (if present v then the v else fallback)"

definition requiredAttr :: "FormField \<Rightarrow> string" where
  "requiredAttr field = (if field_required field then ''required'' else [])"

definition requiredLabel :: "FormField \<Rightarrow> string" where
  \<open>requiredLabel field = (if field_required field then ''<span class="required">*</span>'' else [])\<close>

definition fieldId :: "FormField \<Rightarrow> string" where
  "fieldId field = ''field_'' @ field_id field"

text \<open>The branches of the \<open>switch\<close> on the field type in \<open>generateFieldHTML\<close>.\<close>

definition inputFieldHTML :: "environment \<Rightarrow> FormField \<Rightarrow> string" where
  \<open>inputFieldHTML env field =
       ''<div class="form-group" data-field-type="'' @ field_type field @ ''">\<newline>'' @
       ''            <label for="'' @ fieldId field @ ''" class="form-label">\<newline>'' @
       ''                '' @ escapeHtml env (field_label field) @ requiredLabel field @ ''\<newline>'' @
       ''            </label>\<newline>'' @
       ''            <input \<newline>'' @
       ''                type="'' @ (if field_type field = ''phone'' then ''tel'' else field_type field) @ ''" \<newline>'' @
       ''                id="'' @ fieldId field @ ''" \<newline>'' @
       ''                name="'' @ field_id field @ ''"\<newline>'' @
       ''                class="form-control" \<newline>'' @
       ''                placeholder="'' @ escapeHtml env (or_else (field_placeholder field) []) @ ''"\<newline>'' @
       ''                '' @ requiredAttr field @ ''\<newline>'' @
       ''                data-validation="'' @ field_type field @ ''"\<newline>'' @
       ''            >\<newline>'' @
       ''            <div class="field-error" id="'' @ fieldId field @ ''_error"></div>\<newline>'' @
       ''        </div>''\<close>

definition cepFieldHTML :: "environment \<Rightarrow> FormField \<Rightarrow> string" where
  \<open>cepFieldHTML env field =
       ''<div class="form-group" data-field-type="cep">\<newline>'' @
       ''            <label for="'' @ fieldId field @ ''" class="form-label">\<newline>'' @
       ''                '' @ escapeHtml env (field_label field) @ requiredLabel field @ ''\<newline>'' @
       ''                <span class="auto-fill-indicator" id="'' @ fieldId field @ ''_indicator"></span>\<newline>'' @
       ''            </label>\<newline>'' @
       ''            <input \<newline>'' @
       ''                type="text" \<newline>'' @
       ''                id="'' @ fieldId field @ ''" \<newline>'' @
       ''                name="'' @ field_id field @ ''"\<newline>'' @
       ''                class="form-control" \<newline>'' @
       ''                placeholder="'' @ escapeHtml env (or_else (field_placeholder field) ''Ex: 12345-678'') @ ''"\<newline>'' @
       ''                '' @ requiredAttr field @ ''\<newline>'' @
       ''                data-validation="cep"\<newline>'' @
       ''                maxlength="9"\<newline>'' @
       ''            >\<newline>'' @
       ''            <div class="field-error" id="'' @ fieldId field @ ''_error"></div>\<newline>'' @
       ''        </div>''\<close>

definition cnpjFieldHTML :: "environment \<Rightarrow> FormField \<Rightarrow> string" where
  \<open>cnpjFieldHTML env field =
       ''<div class="form-group" data-field-type="cnpj">\<newline>'' @
       ''            <label for="'' @ fieldId field @ ''" class="form-label">\<newline>'' @
       ''                '' @ escapeHtml env (field_label field) @ requiredLabel field @ ''\<newline>'' @
       ''                <span class="auto-fill-indicator" id="'' @ fieldId field @ ''_indicator"></span>\<newline>'' @
       ''            </label>\<newline>'' @
       ''            <input \<newline>'' @
       ''                type="text" \<newline>'' @
       ''                id="'' @ fieldId field @ ''" \<newline>'' @
       ''                name="'' @ field_id field @ ''"\<newline>'' @
       ''                class="form-control" \<newline>'' @
       ''                placeholder="'' @ escapeHtml env (or_else (field_placeholder field) ''Ex: 12.345.678/0001-90'') @ ''"\<newline>'' @
       ''                '' @ requiredAttr field @ ''\<newline>'' @
       ''                data-validation="cnpj"\<newline>'' @
       ''                maxlength="18"\<newline>'' @
       ''            >\<newline>'' @
       ''            <div class="field-error" id="'' @ fieldId field @ ''_error"></div>\<newline>'' @
       ''        </div>''\<close>

definition textareaFieldHTML :: "environment \<Rightarrow> FormField \<Rightarrow> string" where
  \<open>textareaFieldHTML env field =
       ''<div class="form-group" data-field-type="textarea">\<newline>'' @
       ''            <label for="'' @ fieldId field @ ''" class="form-label">\<newline>'' @
       ''                '' @ escapeHtml env (field_label field) @ requiredLabel field @ ''\<newline>'' @
       ''            </label>\<newline>'' @
       ''            <textarea \<newline>'' @
       ''                id="'' @ fieldId field @ ''" \<newline>'' @
       ''                name="'' @ field_id field @ ''"\<newline>'' @
       ''                class="form-control" \<newline>'' @
       ''                placeholder="'' @ escapeHtml env (or_else (field_placeholder field) []) @ ''"\<newline>'' @
       ''                '' @ requiredAttr field @ ''\<newline>'' @
       ''                rows="4"\<newline>'' @
       ''            ></textarea>\<newline>'' @
       ''            <div class="field-error" id="'' @ fieldId field @ ''_error"></div>\<newline>'' @
       ''        </div>''\<close>

definition selectOptions :: "environment \<Rightarrow> FormField \<Rightarrow> string" where
  \<open>selectOptions env field =
     (case field_options field of
        None \<Rightarrow> []
      | Some options \<Rightarrow>
          join [] (map (\<lambda>option.
               ''<option value="'' @ escapeHtml env option @ ''">'' @ escapeHtml env option @ ''</option>'') options))\<close>

definition selectFieldHTML :: "environment \<Rightarrow> FormField \<Rightarrow> string" where
  \<open>selectFieldHTML env field =
       ''<div class="form-group" data-field-type="select">\<newline>'' @
       ''            <label for="'' @ fieldId field @ ''" class="form-label">\<newline>'' @
       ''                '' @ escapeHtml env (field_label field) @ requiredLabel field @ ''\<newline>'' @
       ''            </label>\<newline>'' @
       ''            <select \<newline>'' @
       ''                id="'' @ fieldId field @ ''" \<newline>'' @
       ''                name="'' @ field_id field @ ''"\<newline>'' @
       ''                class="form-control" \<newline>'' @
       ''                '' @ requiredAttr field @ ''\<newline>'' @
       ''            >\<newline>'' @
       ''                <option value="">Select an option</option>\<newline>'' @
       ''                '' @ selectOptions env field @ ''\<newline>'' @
       ''            </select>\<newline>'' @
       ''            <div class="field-error" id="'' @ fieldId field @ ''_error"></div>\<newline>'' @
       ''        </div>''\<close>

definition radioOptions :: "environment \<Rightarrow> FormField \<Rightarrow> string" where
  \<open>radioOptions env field =
     (case field_options field of
        None \<Rightarrow> []
      | Some options \<Rightarrow>
          join [] (map (\<lambda>(index, option).
               ''<div class="radio-option">\<newline>'' @
               ''                <input \<newline>'' @
               ''                    type="radio" \<newline>'' @
               ''                    id="'' @ fieldId field @ ''_'' @ show_nat index @ ''" \<newline>'' @
               ''                    name="'' @ field_id field @ ''"\<newline>'' @
               ''                    value="'' @ escapeHtml env option @ ''"\<newline>'' @
               ''                    '' @ requiredAttr field @ ''\<newline>'' @
               ''                >\<newline>'' @
               ''                <label for="'' @ fieldId field @ ''_'' @ show_nat index @ ''">'' @ escapeHtml env option @ ''</label>\<newline>'' @
               ''            </div>'') (enumerate 0 options)))\<close>

definition radioFieldHTML :: "environment \<Rightarrow> FormField \<Rightarrow> string" where
  \<open>radioFieldHTML env field =
       ''<div class="form-group" data-field-type="radio">\<newline>'' @
       ''            <fieldset>\<newline>'' @
       ''                <legend class="form-label">\<newline>'' @
       ''                    '' @ escapeHtml env (field_label field) @ requiredLabel field @ ''\<newline>'' @
       ''                </legend>\<newline>'' @
       ''                <div class="radio-group">\<newline>'' @
       ''                    '' @ radioOptions env field @ ''\<newline>'' @
       ''                </div>\<newline>'' @
       ''            </fieldset>\<newline>'' @
       ''            <div class="field-error" id="'' @ fieldId field @ ''_error"></div>\<newline>'' @
       ''        </div>''\<close>

definition checkboxFieldHTML :: "environment \<Rightarrow> FormField \<Rightarrow> string" where
  \<open>checkboxFieldHTML env field =
       ''<div class="form-group" data-field-type="checkbox">\<newline>'' @
       ''            <div class="checkbox-wrapper">\<newline>'' @
       ''                <input \<newline>'' @
       ''                    type="checkbox" \<newline>'' @
       ''                    id="'' @ fieldId field @ ''" \<newline>'' @
       ''                    name="'' @ field_id field @ ''"\<newline>'' @
       ''                    value="true"\<newline>'' @
       ''                    '' @ requiredAttr field @ ''\<newline>'' @
       ''                >\<newline>'' @
       ''                <label for="'' @ fieldId field @ ''" class="checkbox-label">\<newline>'' @
       ''                    '' @ escapeHtml env (field_label field) @ requiredLabel field @ ''\<newline>'' @
       ''                </label>\<newline>'' @
       ''            </div>\<newline>'' @
       ''            <div class="field-error" id="'' @ fieldId field @ ''_error"></div>\<newline>'' @
       ''        </div>''\<close>

definition dateFieldHTML :: "environment \<Rightarrow> FormField \<Rightarrow> string" where
  \<open>dateFieldHTML env field =
       ''<div class="form-group" data-field-type="date">\<newline>'' @
       ''            <label for="'' @ fieldId field @ ''" class="form-label">\<newline>'' @
       ''                '' @ escapeHtml env (field_label field) @ requiredLabel field @ ''\<newline>'' @
       ''            </label>\<newline>'' @
       ''            <input \<newline>'' @
       ''                type="date" \<newline>'' @
       ''                id="'' @ fieldId field @ ''" \<newline>'' @
       ''                name="'' @ field_id field @ ''"\<newline>'' @
       ''                class="form-control" \<newline>'' @
       ''                '' @ requiredAttr field @ ''\<newline>'' @
       ''            >\<newline>'' @
       ''            <div class="field-error" id="'' @ fieldId field @ ''_error"></div>\<newline>'' @
       ''        </div>''\<close>

definition unsupportedFieldHTML :: "FormField \<Rightarrow> string" where
  \<open>unsupportedFieldHTML field =
       ''<!-- Unsupported field type: '' @ field_type field @ '' -->''\<close>

definition generateFieldHTML :: "environment \<Rightarrow> FormField \<Rightarrow> string" where
  "generateFieldHTML env field =
     (if field_type field = ''text'' \<or> field_type field = ''email'' \<or> field_type field = ''phone''
        then inputFieldHTML env field
      else if field_type field = ''cep'' then cepFieldHTML env field
      else if field_type field = ''cnpj'' then cnpjFieldHTML env field
      else if field_type field = ''textarea'' then textareaFieldHTML env field
      else if field_type field = ''select'' then selectFieldHTML env field
      else if field_type field = ''radio'' then radioFieldHTML env field
      else if field_type field = ''checkbox'' then checkboxFieldHTML env field
      else if field_type field = ''date'' then dateFieldHTML env field
      else unsupportedFieldHTML field)"

definition generateFormHTML :: "environment \<Rightarrow> Form \<Rightarrow> string" where
  \<open>generateFormHTML env form =
       ''<form id="exported-form" class="form" novalidate>\<newline>'' @
       ''        '' @ join [CHR 0x0A] (map (generateFieldHTML env) (fm_fields form)) @ ''\<newline>'' @
       ''        <div class="form-group submit-group">\<newline>'' @
       ''            <button type="submit" class="btn btn-primary" id="submit-btn">\<newline>'' @
       ''                <span class="btn-text">Submit Form</span>\<newline>'' @
       ''                <span class="btn-loading" style="display: none;">\<newline>'' @
       ''                    <span class="spinner"></span>\<newline>'' @
       ''                    Submitting...\<newline>'' @
       ''                </span>\<newline>'' @
       ''            </button>\<newline>'' @
       ''        </div>\<newline>'' @
       ''        <div id="form-messages" class="form-messages"></div>\<newline>'' @
       ''    </form>''\<close>

definition generateCSS :: "static_text \<Rightarrow> string \<Rightarrow> string" where
  "generateCSS txt theme_name =
     baseCSS txt @ (if theme_name = ''dark'' then darkThemeCSS txt else [])"

definition getBootstrapCSS :: string where
  \<open>getBootstrapCSS =
       ''<link href="https://cdn.jsdelivr.net/npm/bootstrap@5.3.0/dist/css/bootstrap.min.css" rel="stylesheet">''\<close>

definition getSubmitJS :: "string \<Rightarrow> string" where
  \<open>getSubmitJS url =
       ''\<newline>'' @
       ''// Form submission\<newline>'' @
       ''async function handleSubmit(event) {\<newline>'' @
       ''    event.preventDefault();\<newline>'' @
       ''    \<newline>'' @
       ''    const form = event.target;\<newline>'' @
       ''    const submitBtn = document.getElementById('submit-btn');\<newline>'' @
       ''    const btnText = submitBtn.querySelector('.btn-text');\<newline>'' @
       ''    const btnLoading = submitBtn.querySelector('.btn-loading');\<newline>'' @
       ''    \<newline>'' @
       ''    // Validate form if validation is enabled\<newline>'' @
       ''    '' @ (if url \<noteq> [] then
          ''\<newline>'' @
          ''    if (typeof validateForm === 'function' && !validateForm()) {\<newline>'' @
          ''        showMessage('Please fix the errors above', 'error');\<newline>'' @
          ''        return;\<newline>'' @
          ''    }\<newline>'' @
          ''    ''
        else []) @ ''\<newline>'' @
       ''    \<newline>'' @
       ''    // Show loading state\<newline>'' @
       ''    submitBtn.disabled = true;\<newline>'' @
       ''    btnText.style.display = 'none';\<newline>'' @
       ''    btnLoading.style.display = 'flex';\<newline>'' @
       ''    \<newline>'' @
       ''    try {\<newline>'' @
       ''        const formData = new FormData(form);\<newline>'' @
       ''        const data = Object.fromEntries(formData.entries());\<newline>'' @
       ''        \<newline>'' @
       ''        '' @ (if url \<noteq> [] then
          ''\<newline>'' @
          ''        const response = await fetch('' @ [CHR 0x27] @ url @ [CHR 0x27] @ '', {\<newline>'' @
          ''            method: 'POST',\<newline>'' @
          ''            headers: {\<newline>'' @
          ''                'Content-Type': 'application/json',\<newline>'' @
          ''            },\<newline>'' @
          ''            body: JSON.stringify(data)\<newline>'' @
          ''        });\<newline>'' @
          ''        \<newline>'' @
          ''        if (response.ok) {\<newline>'' @
          ''            showMessage('Form submitted successfully!', 'success');\<newline>'' @
          ''            form.reset();\<newline>'' @
          ''        } else {\<newline>'' @
          ''            throw new Error('Submission failed');\<newline>'' @
          ''        }\<newline>'' @
          ''        ''
        else
          ''\<newline>'' @
          ''        // Log form data (replace with actual submission logic)\<newline>'' @
          ''        console.log('Form data:', data);\<newline>'' @
          ''        showMessage('Form data logged to console (configure submitUrl for actual submission)', 'success');\<newline>'' @
          ''        '') @ ''\<newline>'' @
       ''        \<newline>'' @
       ''    } catch (error) {\<newline>'' @
       ''        console.error('Submission error:', error);\<newline>'' @
       ''        showMessage('Failed to submit form. Please try again.', 'error');\<newline>'' @
       ''    } finally {\<newline>'' @
       ''        // Reset button state\<newline>'' @
       ''        submitBtn.disabled = false;\<newline>'' @
       ''        btnText.style.display = 'inline';\<newline>'' @
       ''        btnLoading.style.display = 'none';\<newline>'' @
       ''    }\<newline>'' @
       ''}\<newline>'' @
       ''\<newline>'' @
       ''function showMessage(text, type) {\<newline>'' @
       ''    const messagesContainer = document.getElementById('form-messages');\<newline>'' @
       ''    const message = document.createElement('div');\<newline>'' @
       ''    message.className = `message ${type}`;\<newline>'' @
       ''    message.textContent = text;\<newline>'' @
       ''    \<newline>'' @
       ''    messagesContainer.innerHTML = '' @ [CHR 0x27, CHR 0x27] @ '';\<newline>'' @
       ''    messagesContainer.appendChild(message);\<newline>'' @
       ''    \<newline>'' @
       ''    // Auto-hide success messages\<newline>'' @
       ''    if (type === 'success') {\<newline>'' @
       ''        setTimeout(() => {\<newline>'' @
       ''            message.remove();\<newline>'' @
       ''        }, 5000);\<newline>'' @
       ''    }\<newline>'' @
       ''}\<newline>''\<close>

definition generateJavaScript :: "static_text \<Rightarrow> Form \<Rightarrow> html_options \<Rightarrow> string" where
  \<open>generateJavaScript txt form options =
       ''<script>\<newline>'' @
       (if opt_includeValidation options then validationJS txt else []) @ ''\<newline>'' @
       (if opt_includeAutoFill options then autoFillJS txt else []) @ ''\<newline>'' @
       getSubmitJS (opt_submitUrl options) @ ''\<newline>'' @
       ''\<newline>'' @
       ''// Initialize form\<newline>'' @
       ''document.addEventListener('DOMContentLoaded', function() {\<newline>'' @
       ''    initializeForm();\<newline>'' @
       ''});\<newline>'' @
       ''\<newline>'' @
       ''function initializeForm() {\<newline>'' @
       ''    const form = document.getElementById('exported-form');\<newline>'' @
       ''    if (!form) return;\<newline>'' @
       ''\<newline>'' @
       ''    // Add event listeners\<newline>'' @
       ''    form.addEventListener('submit', handleSubmit);\<newline>'' @
       ''    \<newline>'' @
       ''    '' @ (if opt_includeValidation options then ''initializeValidation();'' else []) @ ''\<newline>'' @
       ''    '' @ (if opt_includeAutoFill options then ''initializeAutoFill();'' else []) @ ''\<newline>'' @
       ''}\<newline>'' @
       ''</script>''\<close>

definition generateHTMLTemplate :: "environment \<Rightarrow> static_text \<Rightarrow> Form \<Rightarrow> html_options \<Rightarrow> string" where
  \<open>generateHTMLTemplate env txt form options =
       ''<!DOCTYPE html>\<newline>'' @
       ''<html lang="en">\<newline>'' @
       ''<head>\<newline>'' @
       ''    <meta charset="UTF-8">\<newline>'' @
       ''    <meta name="viewport" content="width=device-width, initial-scale=1.0">\<newline>'' @
       ''    <title>'' @ escapeHtml env (fm_title form) @ ''</title>\<newline>'' @
       ''    '' @ (if opt_includeBootstrap options then getBootstrapCSS else []) @ ''\<newline>'' @
       ''    '' @ (let css = (if opt_includeCSS options then generateCSS txt (opt_theme options) else [])
         in if css \<noteq> [] then ''<style>'' @ css @ ''</style>'' else []) @ ''\<newline>'' @
       ''</head>\<newline>'' @
       ''<body>\<newline>'' @
       ''    <div class="container">\<newline>'' @
       ''        <div class="form-container">\<newline>'' @
       ''            <div class="form-header">\<newline>'' @
       ''                <h1>'' @ escapeHtml env (fm_title form) @ ''</h1>\<newline>'' @
       ''                '' @ (if fm_description form \<noteq> [] then
          ''<p class="form-description">'' @ escapeHtml env (fm_description form) @ ''</p>''
        else []) @ ''\<newline>'' @
       ''            </div>\<newline>'' @
       ''            '' @ generateFormHTML env form @ ''\<newline>'' @
       ''        </div>\<newline>'' @
       ''    </div>\<newline>'' @
       ''    '' @ generateJavaScript txt form options @ ''\<newline>'' @
       ''</body>\<newline>'' @
       ''</html>''\<close>

text \<open>A destructuring default: the property's value, or the default when it is absent.\<close>

definition default_to :: "'a \<Rightarrow> 'a option \<Rightarrow> 'a" where
  "default_to d v = (case v of None \<Rightarrow> d | Some x \<Rightarrow> x)"

definition exportAsHTML ::
  "environment \<Rightarrow> static_text \<Rightarrow> Form \<Rightarrow> HTMLExportOptions \<Rightarrow> string" where
  "exportAsHTML env txt form options =
     generateHTMLTemplate env txt form
       \<lparr>opt_includeValidation = default_to True (includeValidation options),
        opt_includeAutoFill = default_to True (includeAutoFill options),
        opt_includeCSS = default_to True (includeCSS options),
        opt_includeBootstrap = default_to False (includeBootstrap options),
        opt_submitUrl = default_to [] (submitUrl options),
        opt_theme = default_to ''default'' (theme options)\<rparr>"

text \<open>
  \<open>getFieldValidation\<close>: the rule object of a field; the properties after
  \<open>required\<close> depend on the field type.
\<close>

definition getFieldValidation :: "FormField \<Rightarrow> json" where
  \<open>getFieldValidation field =
     JObject
       ((''required'', JBool (field_required field)) #
        (if field_type field = ''email'' then
           [(''pattern'', JString (''^[^'' @ [backslash] @ ''s@]+@[^'' @ [backslash] @ ''s@]+'' @ [backslash] @ ''.[^'' @ [backslash] @ ''s@]+$'')),
            (''message'', JString ''Please enter a valid email address'')]
         else if field_type field = ''phone'' then
           [(''pattern'', JString (''^('' @ [backslash] @ ''+55'' @ [backslash] @ ''s?)?($$?'' @ [backslash] @ ''d{2}$$?'' @ [backslash] @ ''s?)?'' @ [backslash] @ ''d{4,5}-?'' @ [backslash] @ ''d{4}$'')),
            (''message'', JString ''Please enter a valid phone number'')]
         else if field_type field = ''cep'' then
           [(''pattern'', JString (''^'' @ [backslash] @ ''d{5}-?'' @ [backslash] @ ''d{3}$'')),
            (''message'', JString ''Please enter a valid CEP''),
            (''autoFill'', JBool True)]
         else if field_type field = ''cnpj'' then
           [(''pattern'', JString (''^'' @ [backslash] @ ''d{2}'' @ [backslash] @ ''.?'' @ [backslash] @ ''d{3}'' @ [backslash] @ ''.?'' @ [backslash] @ ''d{3}'' @ [backslash] @ ''/?'' @ [backslash] @ ''d{4}-?'' @ [backslash] @ ''d{2}$'')),
            (''message'', JString ''Please enter a valid CNPJ''),
            (''autoFill'', JBool True)]
         else []))\<close>

text \<open>
  \<open>exportAsJSON\<close>. A property whose value is \<open>undefined\<close> (the validation rules
  when they are not included) is left out by \<open>JSON.stringify\<close>, and
  \<open>exportData.metadata\<close> is added after the other properties when it is included.
\<close>

definition exportField :: "bool \<Rightarrow> FormField \<Rightarrow> json" where
  "exportField with_validation field =
     JObject
       ([(''id'', JString (field_id field)),
         (''type'', JString (field_type field)),
         (''label'', JString (field_label field)),
         (''placeholder'', JString (or_else (field_placeholder field) [])),
         (''required'', JBool (field_required field)),
         (''options'', JArray (map JString (default_to [] (field_options field))))] @
        (if with_validation then [(''validation'', getFieldValidation field)] else []))"

definition exportAsJSON :: "environment \<Rightarrow> Form \<Rightarrow> JSONExportOptions \<Rightarrow> string" where
  "exportAsJSON env form options =
     (let includeMetadata = default_to True (json_includeMetadata options);
          with_validation = default_to True (json_includeValidation options);
          minify = default_to False (json_minify options);
          version = default_to ''1.0'' (json_version options);
          exportData =
            JObject
              ([(''version'', JString version),
                (''exportedAt'', JString (now_iso env)),
                (''form'', JObject
                   [(''id'', JString (fm_id form)),
                    (''title'', JString (fm_title form)),
                    (''description'', JString (fm_description form)),
                    (''fields'', JArray (map (exportField with_validation) (fm_fields form)))])] @
               (if includeMetadata then
                  [(''metadata'', JObject
                      [(''status'', JString (fm_status form)),
                       (''createdAt'', JString (fm_created_at form)),
                       (''updatedAt'', JString (fm_updated_at form)),
                       (''fieldCount'', JNumber (int (length (fm_fields form)))),
                       (''requiredFields'',
                          JNumber (int (length (filter field_required (fm_fields form)))))])]
                else []))
      in JSON_stringify (\<not> minify) exportData)"

text \<open>
  For the statement about escaping: the form whose title, description, labels,
  placeholders and option values have been replaced by their escaped forms, and an
  environment whose \<open>text_markup\<close> returns its argument unchanged, so that the
  templates insert what they are given.
\<close>

definition escape_field :: "FormField \<Rightarrow> FormField" where
  "escape_field field =
     field\<lparr>field_label := dom_escape (field_label field),
           field_placeholder := map_option dom_escape (field_placeholder field),
           field_options := map_option (map dom_escape) (field_options field)\<rparr>"

definition escape_form :: "Form \<Rightarrow> Form" where
  "escape_form form =
     form\<lparr>fm_title := dom_escape (fm_title form),
          fm_description := dom_escape (fm_description form),
          fm_fields := map escape_field (fm_fields form)\<rparr>"

definition verbatim :: "string \<Rightarrow> environment" where
  "verbatim clock = \<lparr>text_markup = (\<lambda>s. s), now_iso = clock\<rparr>"

text \<open>An example form, with markup characters in its title, a label and an option.\<close>

definition example_form :: Form where
  "example_form =
     \<lparr>fm_id = ''7'', fm_title = ''Q&A <b>'', fm_description = ''Ask > answer'',
      fm_fields =
        [\<lparr>field_id = ''f1'', field_type = ''email'', field_label = ''E-mail <you>'',
          field_placeholder = Some ''a&b'', field_required = True, field_options = None\<rparr>,
         \<lparr>field_id = ''f2'', field_type = ''radio'', field_label = ''Pick'',
          field_placeholder = None, field_required = False,
          field_options = Some [''x<y'', ''z'']\<rparr>],
      fm_status = ''active'', fm_created_at = ''2024-01-01 00:00:00'',
      fm_updated_at = ''2024-01-02 00:00:00''\<rparr>"

definition example_text :: static_text where
  "example_text =
     \<lparr>baseCSS = ''body { margin: 0 }'', darkThemeCSS = ''body { color: white }'',
      validationJS = ''function initializeValidation() {}'',
      autoFillJS = ''function initializeAutoFill() {}''\<rparr>"

definition no_html_options :: HTMLExportOptions where
  "no_html_options =
     \<lparr>includeValidation = None, includeAutoFill = None, includeCSS = None,
      includeBootstrap = None, submitUrl = None, theme = None\<rparr>"

definition no_json_options :: JSONExportOptions where
  "no_json_options =
     \<lparr>json_includeMetadata = None, json_includeValidation = None, json_minify = None,
      json_version = None\<rparr>"

section \<open>The submissions handler (src/unnamed/part_008, POST)\<close>

subsection \<open>What the handler does with JSON values\<close>

datatype js_error = TypeError | SyntaxError

text \<open>A value used as a condition: \<open>null\<close>, \<open>false\<close>, 0 and the empty string are falsy.\<close>

fun truthy :: "json \<Rightarrow> bool" where
  "truthy JNull = False"
| "truthy (JBool b) = b"
| "truthy (JNumber n) = (n \<noteq> 0)"
| "truthy (JString s) = (s \<noteq> [])"
| "truthy (JArray xs) = True"
| "truthy (JObject kvs) = True"

text \<open>
  The text of a value, as \<open>toString()\<close> and the conversion to a property key give it.
  An array joins the texts of its elements with commas, \<open>null\<close> counting as empty. An
  object gives \<open>[object Object]\<close>, unless it has a \<open>toString\<close> property of its own:
  that property came from JSON, is not a function, and the conversion throws.
\<close>

fun all_texts :: "string option list \<Rightarrow> string list option" where
  "all_texts [] = Some []"
| "all_texts (None # ts) = None"
| "all_texts (Some t # ts) = (case all_texts ts of None \<Rightarrow> None | Some rest \<Rightarrow> Some (t # rest))"

fun to_text :: "json \<Rightarrow> string option" where
  "to_text JNull = Some ''null''"
| "to_text (JBool b) = Some (if b then ''true'' else ''false'')"
| "to_text (JNumber n) = Some (show_int n)"
| "to_text (JString s) = Some s"
| "to_text (JArray xs) =
     (case all_texts (map (\<lambda>x. if x = JNull then Some [] else to_text x) xs) of
        None \<Rightarrow> None
      | Some ts \<Rightarrow> Some (join '','' ts))"
| "to_text (JObject kvs) =
     (if ''toString'' \<in> set (map fst kvs) then None else Some ''[object Object]'')"

text \<open>The text of \<open>field.id\<close> as a property key; an absent id is \<open>undefined\<close>.\<close>

definition key_text :: "json option \<Rightarrow> js_error + string" where
  "key_text v =
     (case v of
        None \<Rightarrow> Inr ''undefined''
      | Some x \<Rightarrow> (case to_text x of None \<Rightarrow> Inl TypeError | Some t \<Rightarrow> Inr t))"

text \<open>
  Reading the property \<open>required\<close>, \<open>id\<close> or \<open>label\<close> of a parsed value:
  \<open>null\<close> throws, an object gives its own property, every other value gives
  \<open>undefined\<close> (none of the three names is inherited).
\<close>

definition read_property :: "json \<Rightarrow> string \<Rightarrow> js_error + json option" where
  "read_property v name =
     (case v of
        JNull \<Rightarrow> Inl TypeError
      | JObject kvs \<Rightarrow> Inr (map_of kvs name)
      | _ \<Rightarrow> Inr None)"

text \<open>
  \<open>data[key]\<close> on the submitted record: an own property, else a member inherited from
  \<open>Object.prototype\<close>, else \<open>undefined\<close>. An inherited member is a function or an
  object: it is truthy and its text is not blank.
\<close>

datatype lookup = Own json | Inherited | Undefined

definition get_property :: "(string \<times> json) list \<Rightarrow> string \<Rightarrow> lookup" where
  "get_property obj key =
     (case map_of obj key of
        Some v \<Rightarrow> Own v
      | None \<Rightarrow> if key \<in> set object_prototype_members then Inherited else Undefined)"

text \<open>\<open>!data[field.id] || data[field.id].toString().trim() === ""\<close>\<close>

definition is_missing :: "(string \<times> json) list \<Rightarrow> json \<Rightarrow> js_error + bool" where
  "is_missing submitted field =
     (case read_property field ''id'' of
        Inl e \<Rightarrow> Inl e
      | Inr fid \<Rightarrow>
          (case key_text fid of
             Inl e \<Rightarrow> Inl e
           | Inr key \<Rightarrow>
               (case get_property submitted key of
                  Undefined \<Rightarrow> Inr True
                | Inherited \<Rightarrow> Inr False
                | Own v \<Rightarrow>
                    if \<not> truthy v then Inr True
                    else (case to_text v of
                            None \<Rightarrow> Inl TypeError
                          | Some t \<Rightarrow> Inr (trim t = [])))))"

text \<open>
  \<open>xs.filter(p)\<close> with a predicate that may throw: the first exception ends the
  filter.
\<close>

fun filter_throwing :: "('a \<Rightarrow> js_error + bool) \<Rightarrow> 'a list \<Rightarrow> js_error + 'a list" where
  "filter_throwing p [] = Inr []"
| "filter_throwing p (x # xs) =
     (case p x of
        Inl e \<Rightarrow> Inl e
      | Inr keep \<Rightarrow>
          (case filter_throwing p xs of
             Inl e \<Rightarrow> Inl e
           | Inr rest \<Rightarrow> Inr (if keep then x # rest else rest)))"

definition is_required :: "json \<Rightarrow> js_error + bool" where
  "is_required field =
     (case read_property field ''required'' of
        Inl e \<Rightarrow> Inl e
      | Inr None \<Rightarrow> Inr False
      | Inr (Some v) \<Rightarrow> Inr (truthy v))"

text \<open>
  \<open>submissionSchema.safeParse(body)\<close>: the body must be an object whose \<open>formId\<close>
  is a non-empty string and whose \<open>data\<close> is an object.
\<close>

definition safeParse :: "json \<Rightarrow> (string \<times> (string \<times> json) list) option" where
  "safeParse body =
     (case body of
        JObject kvs \<Rightarrow>
          (case (map_of kvs ''formId'', map_of kvs ''data'') of
             (Some (JString formId), Some (JObject submitted)) \<Rightarrow>
               if length formId \<ge> 1 then Some (formId, submitted) else None
           | _ \<Rightarrow> None)
      | _ \<Rightarrow> None)"

subsection \<open>The database and the handler\<close>

text \<open>
  The two tables the handler touches. Times are in seconds, the resolution of
  \<open>CURRENT_TIMESTAMP\<close>. The \<open>data\<close> column holds \<open>JSON.stringify(data)\<close>; the model
  keeps the value. \<open>next_id\<close> is the key the next inserted submission gets.
\<close>

record form_row =
  row_id :: int
  row_fields :: string
  row_status :: string

record submission_row =
  sub_id :: int
  sub_form_id :: int
  sub_data :: "(string \<times> json) list"
  sub_integration_results :: "string option"
  sub_ip_address :: string
  sub_user_agent :: string
  sub_created_at :: int

record database =
  forms :: "form_row list"
  submissions :: "submission_row list"
  next_id :: int

text \<open>
  What the handler takes from the platform: \<open>JSON.parse\<close> on the text of the fields
  column (\<open>None\<close> when it throws), and SQLite's comparison of the bound text
  \<open>formId\<close> with the integer key of a form.
\<close>

record platform =
  JSON_parse :: "string \<Rightarrow> json option"
  id_matches :: "string \<Rightarrow> int \<Rightarrow> bool"

text \<open>
  The object \<open>initDatabase()\<close> returns (src/lib/database.ts) is a better-sqlite3
  \<open>Database\<close>: \<open>new Database(dbPath)\<close>. These are the members of that class;
  database.ts itself queries with \<open>db.prepare(...).get()\<close> and
  \<open>db.prepare(...).run(...)\<close>. Reading any other member off the object gives what
  \<open>Object.prototype\<close> has under that name, else \<open>undefined\<close>, and calling
  \<open>undefined\<close> throws a \<open>TypeError\<close>.
\<close>

definition Database_members :: "string list" where
  "Database_members =
     [''prepare'', ''transaction'', ''pragma'', ''backup'', ''serialize'', ''function'',
      ''aggregate'', ''table'', ''loadExtension'', ''exec'', ''close'',
      ''defaultSafeIntegers'', ''unsafeMode'',
      ''open'', ''inTransaction'', ''name'', ''memory'', ''readonly'']"

definition db_member :: "string \<Rightarrow> bool" where
  "db_member member =
     (member \<in> set Database_members \<or> member \<in> set object_prototype_members)"

record post_request =
  post_headers :: "string \<rightharpoonup> string"
  post_body :: "json option"

text \<open>
  Every \<open>return\<close> of the handler, the \<open>catch\<close> included, with the status it sends;
  the message texts are left out.
\<close>

datatype post_response =
    CsrfRequired
  | CsrfInvalid
  | InvalidData
  | FormNotFound
  | MissingFields "json option list"
  | TooManySubmissions
  | Created int
  | InternalError

fun status_code :: "post_response \<Rightarrow> nat" where
  "status_code CsrfRequired = 403"
| "status_code CsrfInvalid = 403"
| "status_code InvalidData = 400"
| "status_code FormNotFound = 404"
| "status_code (MissingFields labels) = 400"
| "status_code TooManySubmissions = 429"
| "status_code (Created i) = 201"
| "status_code InternalError = 500"

text \<open>
  The rows that \<open>SELECT * FROM forms WHERE id = ? AND status = 'active'\<close> selects,
  the first of them being what a \<open>get\<close> of the query would return.
\<close>

definition active_form :: "platform \<Rightarrow> database \<Rightarrow> string \<Rightarrow> form_row option" where
  "active_form pf db formId =
     find (\<lambda>row. id_matches pf formId (row_id row) \<and> row_status row = ''active'') (forms db)"

text \<open>The count of the submissions of an address in the last hour.\<close>

definition recent_count :: "database \<Rightarrow> string \<Rightarrow> int \<Rightarrow> nat" where
  "recent_count db ip now =
     length (filter (\<lambda>s. sub_ip_address s = ip \<and> sub_created_at s > now - 3600) (submissions db))"

definition integration_results_text :: string where
  \<open>integration_results_text =
     ''{"success":true,"integrations":{"crm":{"success":true,"id":"mock-crm-id"},'' @
     ''"mailchimp":{"success":true,"id":"mock-mailchimp-id"}}}''\<close>

text \<open>The insert, followed by the update of the new row's integration results.\<close>

definition insert_submission ::
  "database \<Rightarrow> int \<Rightarrow> (string \<times> json) list \<Rightarrow> string \<Rightarrow> string \<Rightarrow> int \<Rightarrow> database" where
  "insert_submission db form_key submitted ip agent now =
     db\<lparr>submissions := submissions db @
            [\<lparr>sub_id = next_id db, sub_form_id = form_key, sub_data = submitted,
              sub_integration_results = Some integration_results_text,
              sub_ip_address = ip, sub_user_agent = agent, sub_created_at = now\<rparr>],
        next_id := next_id db + 1\<rparr>"

text \<open>
  The part of the handler after the active form has been found: the required-field
  check, the hourly limit (\<open>db.get\<close>) and the insert (\<open>db.run\<close>). Each call of a
  method of \<open>db\<close> first reads the member; a member the object does not have cannot
  be called, and the exception reaches the \<open>catch\<close> of the handler.
\<close>

definition check_and_store ::
  "platform \<Rightarrow> post_request \<Rightarrow> int \<Rightarrow> database \<Rightarrow> form_row \<Rightarrow> (string \<times> json) list \<Rightarrow>
   post_response \<times> database" where
  "check_and_store pf request now db form submitted =
     (case JSON_parse pf (row_fields form) of
        None \<Rightarrow> (InternalError, db)
      | Some (JArray fieldList) \<Rightarrow>
          (case filter_throwing is_required fieldList of
             Inl e \<Rightarrow> (InternalError, db)
           | Inr requiredFields \<Rightarrow>
               (case filter_throwing (is_missing submitted) requiredFields of
                  Inl e \<Rightarrow> (InternalError, db)
                | Inr missingFields \<Rightarrow>
                    if length missingFields > 0
                    then (MissingFields
                            (map (\<lambda>f. case read_property f ''label'' of Inr l \<Rightarrow> l | Inl e \<Rightarrow> None)
                               missingFields), db)
                    else
                      let clientIP = or_else (post_headers request ''x-forwarded-for'') ''unknown''
                      in if \<not> db_member ''get'' then (InternalError, db)
                         else if recent_count db clientIP now \<ge> 10
                         then (TooManySubmissions, db)
                         else if \<not> db_member ''run'' then (InternalError, db)
                         else (Created (next_id db),
                               insert_submission db (row_id form) submitted clientIP
                                 (or_else (post_headers request ''user-agent'') ''unknown'') now)))
      | Some other \<Rightarrow> (InternalError, db))"

definition POST :: "platform \<Rightarrow> post_request \<Rightarrow> int \<Rightarrow> database \<Rightarrow> post_response \<times> database" where
  "POST pf request now db =
     (let csrfToken = post_headers request ''x-csrf-token''
      in if \<not> present csrfToken then (CsrfRequired, db)
         else if length (the csrfToken) < 10 then (CsrfInvalid, db)
         else
           (case post_body request of
              None \<Rightarrow> (InternalError, db)
            | Some body \<Rightarrow>
                (case safeParse body of
                   None \<Rightarrow> (InvalidData, db)
                 | Some (formId, submitted) \<Rightarrow>
                     if \<not> db_member ''get'' then (InternalError, db)
                     else
                       (case active_form pf db formId of
                          None \<Rightarrow> (FormNotFound, db)
                        | Some form \<Rightarrow> check_and_store pf request now db form submitted))))"

text \<open>
  A field as the forms handler stores it, after validation against the field schema:
  \<open>placeholder\<close> and \<open>options\<close> are present only when given.
\<close>

definition field_to_json :: "FormField \<Rightarrow> json" where
  "field_to_json field =
     JObject
       ([(''id'', JString (field_id field)),
         (''type'', JString (field_type field)),
         (''label'', JString (field_label field))] @
        (case field_placeholder field of None \<Rightarrow> [] | Some p \<Rightarrow> [(''placeholder'', JString p)]) @
        [(''required'', JBool (field_required field))] @
        (case field_options field of None \<Rightarrow> [] | Some os \<Rightarrow> [(''options'', JArray (map JString os))]))"

text \<open>
  An example: a database with an active form 1, whose only field is the required text
  field \<open>name\<close>, and a draft form 2; a platform that parses the stored field text and
  compares a bound text with the decimal text of the key; and a request built from an
  optional CSRF token, a form id and the submitted data.
\<close>

definition name_field :: FormField where
  "name_field =
     \<lparr>field_id = ''name'', field_type = ''text'', field_label = ''Name'',
      field_placeholder = None, field_required = True, field_options = None\<rparr>"

definition name_field_text :: string where
  \<open>name_field_text = ''[{"id":"name","type":"text","label":"Name","required":true}]''\<close>

definition example_platform :: platform where
  "example_platform =
     \<lparr>JSON_parse = (\<lambda>s. if s = name_field_text then Some (JArray [field_to_json name_field])
                          else None),
      id_matches = (\<lambda>t i. t = show_int i)\<rparr>"

definition example_db :: database where
  "example_db =
     \<lparr>forms = [\<lparr>row_id = 1, row_fields = name_field_text, row_status = ''active''\<rparr>,
               \<lparr>row_id = 2, row_fields = name_field_text, row_status = ''draft''\<rparr>],
      submissions = [], next_id = 1\<rparr>"

definition example_post :: "string option \<Rightarrow> string \<Rightarrow> (string \<times> json) list \<Rightarrow> post_request" where
  "example_post csrf formId submitted =
     \<lparr>post_headers = (\<lambda>name. if name = ''x-csrf-token'' then csrf
                             else if name = ''x-forwarded-for'' then Some ''198.51.100.1''
                             else None),
      post_body = Some (JObject [(''formId'', JString formId), (''data'', JObject submitted)])\<rparr>"

section \<open>Properties of the CNPJ check\<close>

lemma length14:
  assumes "length s = 14"
  obtains c0 c1 c2 c3 c4 c5 c6 c7 c8 c9 c10 c11 c12 c13
  where "s = [c0, c1, c2, c3, c4, c5, c6, c7, c8, c9, c10, c11, c12, c13]"
  using assms by (auto simp: length_Suc_conv numeral_eq_Suc)

lemma digit_val_nonneg: "is_digit c \<Longrightarrow> 0 \<le> digit_val c"
  by (simp add: is_digit_def digit_val_def)

lemma check_digit_Num: "0 \<le> a \<Longrightarrow> check_digit (Num a) = Num (mod11_check a)"
  by (simp add: check_digit_def mod11_check_def smod_int_alt_def sgn_if)

lemma check_digit_NaN: "check_digit NaN = NaN"
  by (simp add: check_digit_def)

lemma parseInt_digit: "is_digit c \<Longrightarrow> parseInt_char c = Num (digit_val c)"
  by (simp add: parseInt_char_def digit_val_def)

lemma parseInt_nondigit: "\<not> is_digit c \<Longrightarrow> parseInt_char c = NaN"
  by (simp add: parseInt_char_def)

lemma js_add_NaN [simp]: "js_add x NaN = NaN" "js_add NaN x = NaN"
  by (cases x; simp)+

lemma js_mul_NaN [simp]: "js_mul NaN x = NaN"
  by (cases x; simp)

lemma js_eq_NaN [simp]: "js_eq x NaN = False" "js_eq NaN x = False"
  by (cases x; simp)+

text \<open>The two loops, unrolled on a string of fourteen characters.\<close>

lemma unroll12:
  "check_sum [c0, c1, c2, c3, c4, c5, c6, c7, c8, c9, c10, c11, c12, c13] 0 12 (Num 0) 5 =
   foldl js_add (Num 0) (map (\<lambda>(w, c). js_mul (parseInt_char c) (Num w))
     (zip weights1 [c0, c1, c2, c3, c4, c5, c6, c7, c8, c9, c10, c11, c12, c13]))"
  by (simp add: check_sum.simps weights1_def)

lemma unroll13:
  "check_sum [c0, c1, c2, c3, c4, c5, c6, c7, c8, c9, c10, c11, c12, c13] 0 13 (Num 0) 6 =
   foldl js_add (Num 0) (map (\<lambda>(w, c). js_mul (parseInt_char c) (Num w))
     (zip weights2 [c0, c1, c2, c3, c4, c5, c6, c7, c8, c9, c10, c11, c12, c13]))"
  by (simp add: check_sum.simps weights2_def)

lemma foldl_NaN: "foldl js_add NaN xs = NaN"
  by (induction xs) simp_all

lemma foldl_digits:
  "\<forall>c \<in> set (map snd ps). is_digit c \<Longrightarrow>
   foldl js_add (Num a) (map (\<lambda>(w, c). js_mul (parseInt_char c) (Num w)) ps) =
   Num (a + sum_list (map (\<lambda>(w, c). digit_val c * w) ps))"
  by (induction ps arbitrary: a) (auto simp: parseInt_digit)

lemma foldl_nondigit:
  "\<exists>c \<in> set (map snd ps). \<not> is_digit c \<Longrightarrow>
   foldl js_add x (map (\<lambda>(w, c). js_mul (parseInt_char c) (Num w)) ps) = NaN"
  by (induction ps arbitrary: x) (auto simp: parseInt_nondigit foldl_NaN)

lemma weighted_sum_nonneg:
  "\<forall>c \<in> set s. is_digit c \<Longrightarrow> \<forall>w \<in> set ws. 0 \<le> w \<Longrightarrow> 0 \<le> weighted_sum ws s"
  unfolding weighted_sum_def
proof (rule sum_list_nonneg)
  fix x
  assume d: "\<forall>c \<in> set s. is_digit c" and w: "\<forall>w \<in> set ws. 0 \<le> w"
    and x: "x \<in> set (map (\<lambda>(w, c). digit_val c * w) (zip ws s))"
  from x obtain a b where ab: "(a, b) \<in> set (zip ws s)" and xe: "x = digit_val b * a"
    by auto
  from ab have "a \<in> set ws" "b \<in> set s"
    by (auto dest: set_zip_leftD set_zip_rightD)
  with d w have "0 \<le> a" "0 \<le> digit_val b"
    by (auto simp: digit_val_nonneg)
  then show "0 \<le> x" by (simp add: xe)
qed

lemma repeated_digit_iff:
  "length s = 14 \<Longrightarrow> \<forall>c \<in> set s. is_digit c \<Longrightarrow> repeated_digit s = (\<exists>d. s = replicate 14 d)"
  by (erule length14) (auto simp: repeated_digit_def numeral_eq_Suc)

text \<open>
  Claim C9. \<open>validateCNPJ\<close> returns true exactly when its argument is a string of
  fourteen decimal digits that is not one digit repeated fourteen times and whose
  thirteenth and fourteenth characters are the two check digits computed from the
  digits before them: the weighted sums use the weights 5,4,3,2,9,8,7,6,5,4,3,2 and
  6,5,4,3,2,9,8,7,6,5,4,3,2, and a sum \<open>s\<close> gives 0 if \<open>s mod 11 < 2\<close> and
  \<open>11 - s mod 11\<close> otherwise. On every other string, a string with a character that
  is not a digit included, it returns false.
\<close>

theorem validateCNPJ_spec: "validateCNPJ s = cnpj_spec s"
proof (cases "length s = 14")
  case False
  then show ?thesis by (simp add: validateCNPJ_def cnpj_spec_def)
next
  case len: True
  then obtain c0 c1 c2 c3 c4 c5 c6 c7 c8 c9 c10 c11 c12 c13
    where s: "s = [c0, c1, c2, c3, c4, c5, c6, c7, c8, c9, c10, c11, c12, c13]"
    by (rule length14)
  show ?thesis
  proof (cases "\<forall>c \<in> set s. is_digit c")
    case True
    have z1: "\<forall>c \<in> set (map snd (zip weights1 s)). is_digit c"
      using True by (auto dest: set_zip_rightD)
    have z2: "\<forall>c \<in> set (map snd (zip weights2 s)). is_digit c"
      using True by (auto dest: set_zip_rightD)
    have s1: "check_sum s 0 12 (Num 0) 5 = Num (weighted_sum weights1 s)"
      unfolding s unroll12 using foldl_digits[OF z1, of 0] by (simp add: weighted_sum_def s)
    have s2: "check_sum s 0 13 (Num 0) 6 = Num (weighted_sum weights2 s)"
      unfolding s unroll13 using foldl_digits[OF z2, of 0] by (simp add: weighted_sum_def s)
    have n1: "0 \<le> weighted_sum weights1 s"
      using True by (rule weighted_sum_nonneg) (simp add: weights1_def)
    have n2: "0 \<le> weighted_sum weights2 s"
      using True by (rule weighted_sum_nonneg) (simp add: weights2_def)
    have p12: "parseInt_char (s ! 12) = Num (digit_val (s ! 12))"
      using True by (intro parseInt_digit) (simp add: s)
    have p13: "parseInt_char (s ! 13) = Num (digit_val (s ! 13))"
      using True by (intro parseInt_digit) (simp add: s)
    show ?thesis
      using len True
      by (simp add: validateCNPJ_def cnpj_spec_def Let_def s1 s2 p12 p13 list_all_iff
            check_digit_Num[OF n1] check_digit_Num[OF n2] repeated_digit_iff)
  next
    case False
    then have nd: "\<not> is_digit c0 \<or> \<not> is_digit c1 \<or> \<not> is_digit c2 \<or> \<not> is_digit c3 \<or>
        \<not> is_digit c4 \<or> \<not> is_digit c5 \<or> \<not> is_digit c6 \<or> \<not> is_digit c7 \<or> \<not> is_digit c8 \<or>
        \<not> is_digit c9 \<or> \<not> is_digit c10 \<or> \<not> is_digit c11 \<or> \<not> is_digit c12 \<or> \<not> is_digit c13"
      by (auto simp: s)
    have "\<not> validateCNPJ s"
    proof (cases "is_digit c13")
      case False
      then show ?thesis
        by (simp add: validateCNPJ_def Let_def s parseInt_nondigit)
    next
      case True
      with nd have "\<exists>c \<in> set (map snd (zip weights2 s)). \<not> is_digit c"
        by (auto simp: s weights2_def)
      then have "check_sum s 0 13 (Num 0) 6 = NaN"
        unfolding s unroll13 by (rule foldl_nondigit)
      then show ?thesis
        by (simp add: validateCNPJ_def Let_def check_digit_NaN)
    qed
    with False show ?thesis by (simp add: cnpj_spec_def list_all_iff)
  qed
qed

text \<open>The number 11.222.333/0001-81 passes the check, so it meets the specification.\<close>

theorem validateCNPJ_spec_witness:
  "validateCNPJ ''11222333000181'' \<and> cnpj_spec ''11222333000181''"
proof -
  have "validateCNPJ ''11222333000181''"
    by code_simp
  then show ?thesis
    using validateCNPJ_spec [of "''11222333000181''"] by simp
qed

section \<open>Properties of the rate limiters\<close>

lemma checkRateLimit_fresh:
  assumes "m (rate_key ip endpoint) = None \<or>
           (\<exists>entry. m (rate_key ip endpoint) = Some entry \<and> now \<ge> mw_resetTime entry)"
  shows "checkRateLimit ip endpoint now m =
           (\<lparr>mw_allowed = True, mw_result_resetTime = None, mw_message = None\<rparr>,
            m(rate_key ip endpoint \<mapsto> \<lparr>mw_count = 1, mw_resetTime = now + 60000\<rparr>))"
  using assms by (auto simp: checkRateLimit_def Let_def mw_window_def)

lemma checkRateLimit_within:
  assumes "m (rate_key ip endpoint) = Some entry" and "now < mw_resetTime entry"
  shows "mw_allowed (fst (checkRateLimit ip endpoint now m)) =
           (\<not> mw_count entry + 1 > mw_limit endpoint) \<and>
         snd (checkRateLimit ip endpoint now m) =
           m(rate_key ip endpoint \<mapsto> entry\<lparr>mw_count := mw_count entry + 1\<rparr>)"
  using assms by (auto simp: checkRateLimit_def Let_def)

lemma config_of_own:
  "endpoint \<notin> set object_prototype_members \<Longrightarrow>
   \<exists>r w. config_of endpoint = \<lparr>requests = Num r, window = Num w\<rparr> \<and> 0 < w"
  by (auto simp: config_of_def configs_def default_config_def split: option.splits if_splits)

lemma config_of_inherited:
  "endpoint \<in> set object_prototype_members \<Longrightarrow>
   config_of endpoint = \<lparr>requests = NaN, window = NaN\<rparr>"
  by (auto simp: config_of_def configs_def object_prototype_members_def)

lemma checkLimit_fresh:
  assumes "m (rate_key ip endpoint) = None \<or>
           (\<exists>entry. m (rate_key ip endpoint) = Some entry \<and> js_ge (Num now) (resetTime entry))"
  shows "allowed (fst (checkLimit ip endpoint now m)) \<and>
         snd (checkLimit ip endpoint now m) =
           m(rate_key ip endpoint \<mapsto>
              \<lparr>count = 1, resetTime = js_add (Num now) (window (config_of endpoint)),
               blocked = False\<rparr>)"
  using assms by (auto simp: checkLimit_def Let_def)

lemma checkLimit_within:
  assumes "m (rate_key ip endpoint) = Some entry" and "\<not> js_ge (Num now) (resetTime entry)"
  shows "allowed (fst (checkLimit ip endpoint now m)) =
           (\<not> js_gt (Num (count entry + 1)) (requests (config_of endpoint))) \<and>
         snd (checkLimit ip endpoint now m) =
           m(rate_key ip endpoint \<mapsto>
              entry\<lparr>count := count entry + 1,
                    blocked := (js_gt (Num (count entry + 1)) (requests (config_of endpoint))
                                \<or> blocked entry)\<rparr>)"
  using assms by (auto simp: checkLimit_def Let_def)

lemma checkRateLimit_frame:
  "k \<noteq> rate_key ip endpoint \<Longrightarrow> snd (checkRateLimit ip endpoint now m) k = m k"
  by (auto simp: checkRateLimit_def Let_def split: option.splits)

lemma checkLimit_frame:
  "k \<noteq> rate_key ip endpoint \<Longrightarrow> snd (checkLimit ip endpoint now m) k = m k"
  by (auto simp: checkLimit_def Let_def split: option.splits)

lemma checkRateLimit_depends:
  "m1 (rate_key ip endpoint) = m2 (rate_key ip endpoint) \<Longrightarrow>
   fst (checkRateLimit ip endpoint now m1) = fst (checkRateLimit ip endpoint now m2)"
  by (auto simp: checkRateLimit_def Let_def split: option.splits)

lemma checkLimit_depends:
  "m1 (rate_key ip endpoint) = m2 (rate_key ip endpoint) \<Longrightarrow>
   fst (checkLimit ip endpoint now m1) = fst (checkLimit ip endpoint now m2)"
  by (auto simp: checkLimit_def Let_def split: option.splits)

lemma rate_key_inj:
  assumes "CHR '':'' \<notin> set ip" and "CHR '':'' \<notin> set ip'"
    and "rate_key ip endpoint = rate_key ip' endpoint'"
  shows "ip = ip' \<and> endpoint = endpoint'"
proof -
  have "takeWhile (\<lambda>c. c \<noteq> CHR '':'') (ip @ CHR '':'' # endpoint) = ip"
    using assms(1) by (subst takeWhile_append2) auto
  moreover have "takeWhile (\<lambda>c. c \<noteq> CHR '':'') (ip' @ CHR '':'' # endpoint') = ip'"
    using assms(2) by (subst takeWhile_append2) auto
  ultimately have "ip = ip'" using assms(3) by (simp add: rate_key_def)
  with assms(3) show ?thesis by (simp add: rate_key_def)
qed

text \<open>
  The fixed window, for the middleware's limiter on every endpoint and for the class on
  every endpoint that is not the name of a member inherited from
  \<open>Object.prototype\<close>: without an entry, or at or after the stored reset time, the
  request is allowed and a window of fixed length starts with the counter at 1; inside
  the window the counter goes up by one and the request is rejected exactly when the
  counter exceeds the endpoint's limit.
\<close>

lemma rate_limit_fixed_window:
  "(m (rate_key ip endpoint) = None \<or>
      (\<exists>entry. m (rate_key ip endpoint) = Some entry \<and> now \<ge> mw_resetTime entry) \<longrightarrow>
      mw_allowed (fst (checkRateLimit ip endpoint now m)) \<and>
      snd (checkRateLimit ip endpoint now m) =
        m(rate_key ip endpoint \<mapsto> \<lparr>mw_count = 1, mw_resetTime = now + 60000\<rparr>)) \<and>
   (m (rate_key ip endpoint) = Some e \<and> now < mw_resetTime e \<longrightarrow>
      mw_allowed (fst (checkRateLimit ip endpoint now m)) = (\<not> mw_count e + 1 > mw_limit endpoint) \<and>
      snd (checkRateLimit ip endpoint now m) =
        m(rate_key ip endpoint \<mapsto> e\<lparr>mw_count := mw_count e + 1\<rparr>)) \<and>
   (endpoint \<notin> set object_prototype_members \<longrightarrow>
      (\<exists>r w. config_of endpoint = \<lparr>requests = Num r, window = Num w\<rparr> \<and> 0 < w \<and>
         (l (rate_key ip endpoint) = None \<or>
            (\<exists>entry. l (rate_key ip endpoint) = Some entry \<and> js_ge (Num now) (resetTime entry)) \<longrightarrow>
            allowed (fst (checkLimit ip endpoint now l)) \<and>
            snd (checkLimit ip endpoint now l) =
              l(rate_key ip endpoint \<mapsto> \<lparr>count = 1, resetTime = Num (now + w), blocked = False\<rparr>)) \<and>
         (l (rate_key ip endpoint) = Some le \<and> \<not> js_ge (Num now) (resetTime le) \<longrightarrow>
            allowed (fst (checkLimit ip endpoint now l)) = (\<not> count le + 1 > r) \<and>
            snd (checkLimit ip endpoint now l) =
              l(rate_key ip endpoint \<mapsto>
                 le\<lparr>count := count le + 1, blocked := (count le + 1 > r \<or> blocked le)\<rparr>))))"
proof (intro conjI impI)
  assume "m (rate_key ip endpoint) = None \<or>
      (\<exists>entry. m (rate_key ip endpoint) = Some entry \<and> now \<ge> mw_resetTime entry)"
  then have "checkRateLimit ip endpoint now m =
           (\<lparr>mw_allowed = True, mw_result_resetTime = None, mw_message = None\<rparr>,
            m(rate_key ip endpoint \<mapsto> \<lparr>mw_count = 1, mw_resetTime = now + 60000\<rparr>))"
    by (rule checkRateLimit_fresh [where m = m and ip = ip and endpoint = endpoint and now = now])
  then show "mw_allowed (fst (checkRateLimit ip endpoint now m))"
    and "snd (checkRateLimit ip endpoint now m) =
        m(rate_key ip endpoint \<mapsto> \<lparr>mw_count = 1, mw_resetTime = now + 60000\<rparr>)"
    by simp_all
next
  assume "m (rate_key ip endpoint) = Some e \<and> now < mw_resetTime e"
  then have h: "m (rate_key ip endpoint) = Some e" "now < mw_resetTime e" by simp_all
  from checkRateLimit_within [where m = m and ip = ip and endpoint = endpoint and entry = e and now = now, OF h]
  show "mw_allowed (fst (checkRateLimit ip endpoint now m)) = (\<not> mw_count e + 1 > mw_limit endpoint)"
    and "snd (checkRateLimit ip endpoint now m) =
        m(rate_key ip endpoint \<mapsto> e\<lparr>mw_count := mw_count e + 1\<rparr>)"
    by simp_all
next
  assume "endpoint \<notin> set object_prototype_members"
  then obtain r w where c: "config_of endpoint = \<lparr>requests = Num r, window = Num w\<rparr>" and w: "0 < w"
    using config_of_own by blast
  show "\<exists>r w. config_of endpoint = \<lparr>requests = Num r, window = Num w\<rparr> \<and> 0 < w \<and>
         (l (rate_key ip endpoint) = None \<or>
            (\<exists>entry. l (rate_key ip endpoint) = Some entry \<and> js_ge (Num now) (resetTime entry)) \<longrightarrow>
            allowed (fst (checkLimit ip endpoint now l)) \<and>
            snd (checkLimit ip endpoint now l) =
              l(rate_key ip endpoint \<mapsto> \<lparr>count = 1, resetTime = Num (now + w), blocked = False\<rparr>)) \<and>
         (l (rate_key ip endpoint) = Some le \<and> \<not> js_ge (Num now) (resetTime le) \<longrightarrow>
            allowed (fst (checkLimit ip endpoint now l)) = (\<not> count le + 1 > r) \<and>
            snd (checkLimit ip endpoint now l) =
              l(rate_key ip endpoint \<mapsto>
                 le\<lparr>count := count le + 1, blocked := (count le + 1 > r \<or> blocked le)\<rparr>))"
  proof (intro exI conjI impI)
    show "config_of endpoint = \<lparr>requests = Num r, window = Num w\<rparr>" by (rule c)
    show "0 < w" by (rule w)
  next
    assume "l (rate_key ip endpoint) = None \<or>
            (\<exists>entry. l (rate_key ip endpoint) = Some entry \<and> js_ge (Num now) (resetTime entry))"
    from checkLimit_fresh [where m = l and ip = ip and endpoint = endpoint and now = now, OF this]
    show "allowed (fst (checkLimit ip endpoint now l))"
      and "snd (checkLimit ip endpoint now l) =
              l(rate_key ip endpoint \<mapsto> \<lparr>count = 1, resetTime = Num (now + w), blocked = False\<rparr>)"
      by (simp_all add: c)
  next
    assume "l (rate_key ip endpoint) = Some le \<and> \<not> js_ge (Num now) (resetTime le)"
    then have h: "l (rate_key ip endpoint) = Some le" "\<not> js_ge (Num now) (resetTime le)"
      by simp_all
    from checkLimit_within [where m = l and ip = ip and endpoint = endpoint and entry = le and now = now, OF h]
    show "allowed (fst (checkLimit ip endpoint now l)) = (\<not> count le + 1 > r)"
      and "snd (checkLimit ip endpoint now l) =
              l(rate_key ip endpoint \<mapsto>
                 le\<lparr>count := count le + 1, blocked := (count le + 1 > r \<or> blocked le)\<rparr>)"
      by (simp_all add: c)
  qed
qed

text \<open>
  Claim C1. Rate limiting is a fixed-window counter keyed by IP and endpoint: for every
  IP and endpoint a request with no stored entry, or at or after the stored reset time,
  is allowed and starts a fresh window of fixed length with the counter at 1; later
  requests inside the window increment the counter and are rejected exactly when the
  counter exceeds the endpoint's configured limit. The middleware's \<open>checkRateLimit\<close>
  does so on every input (\<open>rate_limit_fixed_window\<close>). \<open>RateLimiter.checkLimit\<close>
  does not at the endpoint \<open>constructor\<close>: \<open>configs[endpoint]\<close> finds the member
  inherited from \<open>Object.prototype\<close> instead of falling back to the default, the
  first request stores the reset time \<open>NaN\<close>, the window never ends, and a request
  with the counter at 1001 is allowed, while at an unlisted path the default limit of
  100 rejects the request that brings the counter to 101.
\<close>

theorem checkLimit_constructor_unlimited:
  "snd (checkLimit ''203.0.113.7'' ''constructor'' 0 Map.empty)
       (rate_key ''203.0.113.7'' ''constructor'') =
     Some \<lparr>count = 1, resetTime = NaN, blocked = False\<rparr> \<and>
   allowed (fst (checkLimit ''203.0.113.7'' ''constructor'' 86400000
     [rate_key ''203.0.113.7'' ''constructor'' \<mapsto>
        \<lparr>count = 1000, resetTime = NaN, blocked = False\<rparr>])) \<and>
   snd (checkLimit ''203.0.113.7'' ''constructor'' 86400000
     [rate_key ''203.0.113.7'' ''constructor'' \<mapsto>
        \<lparr>count = 1000, resetTime = NaN, blocked = False\<rparr>])
       (rate_key ''203.0.113.7'' ''constructor'') =
     Some \<lparr>count = 1001, resetTime = NaN, blocked = False\<rparr> \<and>
   \<not> allowed (fst (checkLimit ''203.0.113.7'' ''/unlisted'' 1
     [rate_key ''203.0.113.7'' ''/unlisted'' \<mapsto>
        \<lparr>count = 100, resetTime = Num 60000, blocked = False\<rparr>]))"
proof -
  have c: "config_of ''constructor'' = \<lparr>requests = NaN, window = NaN\<rparr>"
    by (rule config_of_inherited) (simp add: object_prototype_members_def)
  have u: "config_of ''/unlisted'' = default_config"
    by (simp add: config_of_def configs_def object_prototype_members_def)
  show ?thesis
    by (simp add: checkLimit_def Let_def c u default_config_def)
qed

text \<open>
  Claim C4, as stated, asks that a call for a pair (ip, endpoint) leave the entry of
  every other pair unchanged. The key is the text \<open>ip:endpoint\<close>, and two different
  pairs can spell the same key: a call for the address \<open>1.1.1.1\<close> at the path
  \<open>/api/forms:/api/forms\<close> creates the entry that the pair of the address text
  \<open>1.1.1.1:/api/forms\<close> and the path \<open>/api/forms\<close> reads.
\<close>

theorem rate_limit_frame_counterexample:
  "(''1.1.1.1'', ''/api/forms:/api/forms'') \<noteq> (''1.1.1.1:/api/forms'', ''/api/forms'') \<and>
   snd (checkRateLimit ''1.1.1.1'' ''/api/forms:/api/forms'' 0 Map.empty)
       (rate_key ''1.1.1.1:/api/forms'' ''/api/forms'') \<noteq>
     Map.empty (rate_key ''1.1.1.1:/api/forms'' ''/api/forms'') \<and>
   snd (checkLimit ''1.1.1.1'' ''/api/forms:/api/forms'' 0 Map.empty)
       (rate_key ''1.1.1.1:/api/forms'' ''/api/forms'') \<noteq>
     Map.empty (rate_key ''1.1.1.1:/api/forms'' ''/api/forms'')"
  by (simp add: checkRateLimit_def checkLimit_def Let_def rate_key_def)

text \<open>
  Claim C4, amended. A call to the rate-limit check for a pair (ip, endpoint) changes at
  most the map entry under the key \<open>ip:endpoint\<close>: every other key keeps its entry,
  and so does every other pair when neither address contains a colon. The result of
  the call depends only on the entry under that key, the endpoint's configuration and
  the current time.
\<close>

theorem rate_limit_frame:
  "(k \<noteq> rate_key ip endpoint \<longrightarrow>
      snd (checkRateLimit ip endpoint now m) k = m k \<and>
      snd (checkLimit ip endpoint now l) k = l k) \<and>
   (CHR '':'' \<notin> set ip \<and> CHR '':'' \<notin> set ip' \<and> (ip', endpoint') \<noteq> (ip, endpoint) \<longrightarrow>
      snd (checkRateLimit ip endpoint now m) (rate_key ip' endpoint') = m (rate_key ip' endpoint') \<and>
      snd (checkLimit ip endpoint now l) (rate_key ip' endpoint') = l (rate_key ip' endpoint')) \<and>
   (m1 (rate_key ip1 endpoint1) = m2 (rate_key ip2 endpoint2) \<and>
      mw_limit endpoint1 = mw_limit endpoint2 \<longrightarrow>
      fst (checkRateLimit ip1 endpoint1 now m1) = fst (checkRateLimit ip2 endpoint2 now m2)) \<and>
   (l1 (rate_key ip1 endpoint1) = l2 (rate_key ip2 endpoint2) \<and>
      config_of endpoint1 = config_of endpoint2 \<longrightarrow>
      fst (checkLimit ip1 endpoint1 now l1) = fst (checkLimit ip2 endpoint2 now l2))"
proof (intro conjI impI)
  assume "k \<noteq> rate_key ip endpoint"
  then show "snd (checkRateLimit ip endpoint now m) k = m k"
    and "snd (checkLimit ip endpoint now l) k = l k"
    by (simp_all add: checkRateLimit_frame checkLimit_frame)
next
  assume h: "CHR '':'' \<notin> set ip \<and> CHR '':'' \<notin> set ip' \<and> (ip', endpoint') \<noteq> (ip, endpoint)"
  then have "rate_key ip' endpoint' \<noteq> rate_key ip endpoint"
    using rate_key_inj [of ip' ip endpoint' endpoint] by auto
  then show "snd (checkRateLimit ip endpoint now m) (rate_key ip' endpoint') = m (rate_key ip' endpoint')"
    and "snd (checkLimit ip endpoint now l) (rate_key ip' endpoint') = l (rate_key ip' endpoint')"
    by (simp_all add: checkRateLimit_frame checkLimit_frame)
next
  assume "m1 (rate_key ip1 endpoint1) = m2 (rate_key ip2 endpoint2) \<and>
      mw_limit endpoint1 = mw_limit endpoint2"
  then show "fst (checkRateLimit ip1 endpoint1 now m1) = fst (checkRateLimit ip2 endpoint2 now m2)"
    by (auto simp: checkRateLimit_def Let_def split: option.splits)
next
  assume "l1 (rate_key ip1 endpoint1) = l2 (rate_key ip2 endpoint2) \<and>
      config_of endpoint1 = config_of endpoint2"
  then show "fst (checkLimit ip1 endpoint1 now l1) = fst (checkLimit ip2 endpoint2 now l2)"
    by (auto simp: checkLimit_def Let_def split: option.splits)
qed

text \<open>
  Two clients at \<open>/api/forms\<close>: a request of the first leaves the entry of the second
  as it was, and is judged as it would be with the second client's entry absent.
\<close>

theorem rate_limit_frame_witness:
  "rate_key ''198.51.100.2'' ''/api/forms'' \<noteq> rate_key ''198.51.100.1'' ''/api/forms'' \<and>
   snd (checkRateLimit ''198.51.100.1'' ''/api/forms'' 5
          [rate_key ''198.51.100.2'' ''/api/forms'' \<mapsto> \<lparr>mw_count = 10, mw_resetTime = 60000\<rparr>])
       (rate_key ''198.51.100.2'' ''/api/forms'') =
     Some \<lparr>mw_count = 10, mw_resetTime = 60000\<rparr> \<and>
   snd (checkLimit ''198.51.100.1'' ''/api/forms'' 5
          [rate_key ''198.51.100.2'' ''/api/forms'' \<mapsto>
             \<lparr>count = 10, resetTime = Num 60000, blocked = False\<rparr>])
       (rate_key ''198.51.100.2'' ''/api/forms'') =
     Some \<lparr>count = 10, resetTime = Num 60000, blocked = False\<rparr> \<and>
   fst (checkRateLimit ''198.51.100.1'' ''/api/forms'' 5
          [rate_key ''198.51.100.2'' ''/api/forms'' \<mapsto> \<lparr>mw_count = 10, mw_resetTime = 60000\<rparr>]) =
     fst (checkRateLimit ''198.51.100.1'' ''/api/forms'' 5 Map.empty) \<and>
   fst (checkLimit ''198.51.100.1'' ''/api/forms'' 5
          [rate_key ''198.51.100.2'' ''/api/forms'' \<mapsto>
             \<lparr>count = 10, resetTime = Num 60000, blocked = False\<rparr>]) =
     fst (checkLimit ''198.51.100.1'' ''/api/forms'' 5 Map.empty)"
proof -
  let ?k1 = "rate_key ''198.51.100.1'' ''/api/forms''"
  let ?k2 = "rate_key ''198.51.100.2'' ''/api/forms''"
  let ?m = "[?k2 \<mapsto> \<lparr>mw_count = 10, mw_resetTime = 60000\<rparr>]"
  let ?l = "[?k2 \<mapsto> \<lparr>count = 10, resetTime = Num 60000, blocked = False\<rparr>]"
  have ne: "?k2 \<noteq> ?k1" by (simp add: rate_key_def)
  have e1: "?m ?k1 = Map.empty ?k1" using ne by simp
  have e2: "?l ?k1 = Map.empty ?k1" using ne by simp
  note t = rate_limit_frame [of ?k2 "''198.51.100.1''" "''/api/forms''" 5 ?m ?l
      "''198.51.100.2''" "''/api/forms''" ?m "''198.51.100.1''" "''/api/forms''" Map.empty
      "''198.51.100.1''" "''/api/forms''" ?l Map.empty]
  from t ne e1 e2 show ?thesis by simp
qed

section \<open>Properties of the CSRF tokens\<close>

subsection \<open>The comparison\<close>

lemma xor_word_zero: "(x XOR y = (0 :: 32 word)) \<longleftrightarrow> x = y"
  by (simp add: bit_eq_iff bit_xor_iff) 

lemma of_char_word_inj: "((of_char a :: 32 word) = of_char b) = (a = b)"
proof -
  have lt: "\<And>c. (of_char c :: nat) < 2 ^ 32"
  proof -
    fix c :: char
    have "(of_char c :: nat) < 256" by (rule nat_of_char_less_256)
    also have "(256 :: nat) < 2 ^ 32" by simp
    finally show "(of_char c :: nat) < 2 ^ 32" .
  qed
  have "((of_char a :: 32 word) = of_char b) = ((of_nat (of_char a) :: 32 word) = of_nat (of_char b))"
    by (simp only: of_nat_of_char)
  also have "\<dots> = ((of_char a :: nat) = of_char b)"
    using lt[of a] lt[of b] by (simp add: word_of_nat_eq_iff take_bit_nat_eq_self)
  also have "\<dots> = (a = b)" by simp
  finally show ?thesis .
qed


lemma compare_loop_zero:
  "length a = length b \<Longrightarrow>
   (compare_loop a b i r = 0) = (r = 0 \<and> (\<forall>j. i \<le> j \<and> j < length a \<longrightarrow> a ! j = b ! j))"
proof (induction a b i r rule: compare_loop.induct)
  case (1 a b i r)
  show ?case
  proof (cases "i < length a")
    case True
    have split: "(\<forall>j. i \<le> j \<and> j < length a \<longrightarrow> a ! j = b ! j) =
          (a ! i = b ! i \<and> (\<forall>j. i + 1 \<le> j \<and> j < length a \<longrightarrow> a ! j = b ! j))"
    proof
      assume h: "\<forall>j. i \<le> j \<and> j < length a \<longrightarrow> a ! j = b ! j"
      show "a ! i = b ! i \<and> (\<forall>j. i + 1 \<le> j \<and> j < length a \<longrightarrow> a ! j = b ! j)"
        using h True by auto
    next
      assume h: "a ! i = b ! i \<and> (\<forall>j. i + 1 \<le> j \<and> j < length a \<longrightarrow> a ! j = b ! j)"
      show "\<forall>j. i \<le> j \<and> j < length a \<longrightarrow> a ! j = b ! j"
      proof (intro allI impI)
        fix j assume j: "i \<le> j \<and> j < length a"
        show "a ! j = b ! j"
        proof (cases "j = i")
          case True with h show ?thesis by simp
        next
          case False with j have "i + 1 \<le> j" by simp
          with h j show ?thesis by blast
        qed
      qed
    qed
    have "compare_loop a b i r =
          compare_loop a b (i + 1) (r OR (of_char (a ! i) XOR of_char (b ! i)))"
      using True by (subst compare_loop.simps) simp
    also have "(\<dots> = 0) = ((r OR (of_char (a ! i) XOR of_char (b ! i))) = 0 \<and>
          (\<forall>j. i + 1 \<le> j \<and> j < length a \<longrightarrow> a ! j = b ! j))"
      using "1.IH"[OF True "1.prems"] .
    finally show ?thesis
      by (simp add: split or_eq_0_iff xor_word_zero of_char_word_inj)
  next
    case False
    then show ?thesis
      by (subst compare_loop.simps) auto
  qed
qed

lemma constantTimeCompare_eq: "constantTimeCompare a b = (a = b)"
  by (auto simp: constantTimeCompare_def compare_loop_zero list_eq_iff_nth_eq)






subsection \<open>Validation and expiry\<close>

lemma validateToken_result:
  "fst (validateToken tok sessionId now tokens) \<longleftrightarrow>
     length tok = 64 \<and>
     (\<exists>storedToken. map_of tokens (csrf_key (session_or_default sessionId) tok) = Some storedToken \<and>
        \<not> now > expires storedToken \<and> \<not> used storedToken \<and>
        constantTimeCompare tok (token storedToken))"
  by (auto simp: validateToken_def Let_def split: option.splits)

lemma length_hex_byte: "length (hex_byte b) = 2"
  by (simp add: hex_byte_def)

lemma length_to_hex: "length (to_hex bytes) = 2 * length bytes"
  by (induction bytes) (simp_all add: to_hex_def length_hex_byte)

lemma generateToken_entry:
  "generateToken sessionId now_cleanup now random tokens = (tok, tokens') \<Longrightarrow>
   tok = to_hex random \<and>
   map_of tokens' (csrf_key (session_or_default sessionId) tok) =
     Some \<lparr>token = tok, expires = now + 3600000, used = False\<rparr>"
  by (auto simp: generateToken_def Let_def update_conv' TOKEN_EXPIRY_def)

lemma validateToken_expired:
  assumes "length tok = 64"
    and "map_of tokens (csrf_key (session_or_default sessionId) tok) = Some e"
    and "now > expires e"
  shows "validateToken tok sessionId now tokens =
           (False, AList.delete (csrf_key (session_or_default sessionId) tok) tokens)"
  using assms by (auto simp: validateToken_def Let_def)

lemma validateCSRFToken_expired:
  assumes "tok \<noteq> []" and "m (csrf_key sessionId tok) = Some e" and "now > mw_expires e"
  shows "validateCSRFToken tok sessionId now m = (False, m(csrf_key sessionId tok := None))"
  using assms by (simp add: validateCSRFToken_def Let_def)

lemma hex_byte_zero: "hex_byte 0 = ''00''"
  by (simp add: hex_byte_def hex_digit_def)

lemma hex_byte_one: "hex_byte 1 = ''01''"
  by (simp add: hex_byte_def hex_digit_def)

lemma to_hex_replicate_zero: "to_hex (replicate n 0) = replicate (2 * n) (CHR ''0'')"
  by (induction n) (simp_all add: to_hex_def hex_byte_zero)

lemma replicate_64:
  "replicate 64 c =
     [c,c,c,c,c,c,c,c, c,c,c,c,c,c,c,c, c,c,c,c,c,c,c,c, c,c,c,c,c,c,c,c,
      c,c,c,c,c,c,c,c, c,c,c,c,c,c,c,c, c,c,c,c,c,c,c,c, c,c,c,c,c,c,c,c]"
  by (simp add: numeral_eq_Suc)

lemma to_hex_zero: "to_hex (replicate 32 0) = ''0000000000000000000000000000000000000000000000000000000000000000''"
  by (simp add: to_hex_replicate_zero replicate_64)

lemma to_hex_ones_fresh: "to_hex (replicate 32 1) \<noteq> ''0000000000000000000000000000000000000000000000000000000000000000''"
proof -
  have "replicate 32 (1 :: 8 word) = 1 # replicate 31 1"
    by (simp add: numeral_eq_Suc)
  then have "to_hex (replicate 32 1) = ''01'' @ to_hex (replicate 31 1)"
    by (simp add: to_hex_def hex_byte_one)
  then show ?thesis by simp
qed

lemma generate_on_empty:
  "generateToken None 0 0 (replicate 32 0) [] =
     (''0000000000000000000000000000000000000000000000000000000000000000'', [(csrf_key ''anonymous'' ''0000000000000000000000000000000000000000000000000000000000000000'',
        \<lparr>token = ''0000000000000000000000000000000000000000000000000000000000000000'', expires = 3600000, used = False\<rparr>)])"
  by (simp add: generateToken_def cleanupExpiredTokens_def Let_def to_hex_zero
        session_or_default_def MAX_TOKENS_PER_SESSION_def TOKEN_EXPIRY_def)




text \<open>
  Claim C3. A generated CSRF token validates only up to its expiry time, one hour after
  it was generated. \<open>generateToken\<close> stores the token, 64 characters long, with the
  expiry \<open>now + 3600000\<close>. For every session and every token of that form with a stored
  entry, validation at a time strictly after the stored expiry returns false and
  removes the entry from the token store; a validation that succeeds found an entry
  whose expiry is not before the time of the call. The middleware's validator does the
  same for a non-empty token.
\<close>

theorem csrf_token_expiry:
  "(length random = 32 \<and>
      generateToken sessionId now_cleanup now0 random tokens = (tok0, tokens') \<longrightarrow>
        length tok0 = 64 \<and>
        map_of tokens' (csrf_key (session_or_default sessionId) tok0) =
          Some \<lparr>token = tok0, expires = now0 + 3600000, used = False\<rparr>) \<and>
   (length tok = 64 \<and>
      map_of store (csrf_key (session_or_default sessionId) tok) = Some e \<and> now > expires e \<longrightarrow>
        validateToken tok sessionId now store =
          (False, AList.delete (csrf_key (session_or_default sessionId) tok) store) \<and>
        map_of (snd (validateToken tok sessionId now store))
          (csrf_key (session_or_default sessionId) tok) = None) \<and>
   (fst (validateToken tok sessionId now store) \<longrightarrow>
      (\<exists>e'. map_of store (csrf_key (session_or_default sessionId) tok) = Some e' \<and>
            now \<le> expires e')) \<and>
   (tok \<noteq> [] \<and> m (csrf_key sid tok) = Some me \<and> now > mw_expires me \<longrightarrow>
      validateCSRFToken tok sid now m = (False, m(csrf_key sid tok := None)))"
proof (intro conjI impI)
  assume h: "length random = 32 \<and>
      generateToken sessionId now_cleanup now0 random tokens = (tok0, tokens')"
  then have "generateToken sessionId now_cleanup now0 random tokens = (tok0, tokens')"
    by (rule conjunct2)
  then have g: "tok0 = to_hex random \<and>
      map_of tokens' (csrf_key (session_or_default sessionId) tok0) =
        Some \<lparr>token = tok0, expires = now0 + 3600000, used = False\<rparr>"
    by (rule generateToken_entry)
  with h show "length tok0 = 64" by (simp add: length_to_hex)
  from g show "map_of tokens' (csrf_key (session_or_default sessionId) tok0) =
      Some \<lparr>token = tok0, expires = now0 + 3600000, used = False\<rparr>" by (rule conjunct2)
next
  assume h: "length tok = 64 \<and>
      map_of store (csrf_key (session_or_default sessionId) tok) = Some e \<and> now > expires e"
  then have h1: "length tok = 64"
    and h2: "map_of store (csrf_key (session_or_default sessionId) tok) = Some e"
    and h3: "now > expires e"
    by simp_all
  show v: "validateToken tok sessionId now store =
          (False, AList.delete (csrf_key (session_or_default sessionId) tok) store)"
    by (rule validateToken_expired [OF h1 h2 h3])
  show "map_of (snd (validateToken tok sessionId now store))
          (csrf_key (session_or_default sessionId) tok) = None"
    by (simp add: v delete_conv')
next
  assume "fst (validateToken tok sessionId now store)"
  then show "\<exists>e'. map_of store (csrf_key (session_or_default sessionId) tok) = Some e' \<and>
            now \<le> expires e'"
    by (auto simp: validateToken_result)
next
  assume "tok \<noteq> [] \<and> m (csrf_key sid tok) = Some me \<and> now > mw_expires me"
  then have h1: "tok \<noteq> []" and h2: "m (csrf_key sid tok) = Some me" and h3: "now > mw_expires me"
    by simp_all
  show "validateCSRFToken tok sid now m = (False, m(csrf_key sid tok := None))"
    using h1 h2 h3 by (rule validateCSRFToken_expired [of tok m sid me now])
qed

text \<open>
  A token generated at time 0 into an empty store: validation one millisecond after
  the hour fails and empties the store, validation at the hour succeeds; and the
  middleware's validator drops an entry that expired at time 10 when asked at time 11.
\<close>

theorem csrf_token_expiry_witness:
  "generateToken None 0 0 (replicate 32 0) [] =
     (''0000000000000000000000000000000000000000000000000000000000000000'', [(csrf_key ''anonymous'' ''0000000000000000000000000000000000000000000000000000000000000000'',
        \<lparr>token = ''0000000000000000000000000000000000000000000000000000000000000000'', expires = 3600000, used = False\<rparr>)]) \<and>
   validateToken ''0000000000000000000000000000000000000000000000000000000000000000'' None 3600001 (snd (generateToken None 0 0 (replicate 32 0) [])) = (False, []) \<and>
   fst (validateToken ''0000000000000000000000000000000000000000000000000000000000000000'' None 3600000 (snd (generateToken None 0 0 (replicate 32 0) []))) \<and>
   validateCSRFToken ''t'' ''s'' 11 [csrf_key ''s'' ''t'' \<mapsto> \<lparr>mw_token = ''t'', mw_expires = 10\<rparr>] =
     (False, Map.empty)"
proof -
  let ?store = "[(csrf_key ''anonymous'' ''0000000000000000000000000000000000000000000000000000000000000000'',
        \<lparr>token = ''0000000000000000000000000000000000000000000000000000000000000000'', expires = 3600000, used = False\<rparr>)]"
  have a: "validateToken ''0000000000000000000000000000000000000000000000000000000000000000'' None 3600001 ?store = (False, [])"
    using csrf_token_expiry [of "replicate 32 0" None 0 0 "[]" "''0000000000000000000000000000000000000000000000000000000000000000''" ?store "''0000000000000000000000000000000000000000000000000000000000000000''" ?store
        "\<lparr>token = ''0000000000000000000000000000000000000000000000000000000000000000'', expires = 3600000, used = False\<rparr>" 3600001]
    by (simp add: session_or_default_def)
  have b: "fst (validateToken ''0000000000000000000000000000000000000000000000000000000000000000'' None 3600000 ?store)"
    by (simp add: validateToken_result constantTimeCompare_eq session_or_default_def)
  have c: "validateCSRFToken ''t'' ''s'' 11 [csrf_key ''s'' ''t'' \<mapsto> \<lparr>mw_token = ''t'', mw_expires = 10\<rparr>] =
     (False, Map.empty)"
    using csrf_token_expiry [of "[]" None 0 0 "[]" "[]" "[]" "''t''" "[]"
        "\<lparr>token = [], expires = 0, used = False\<rparr>" 11
        "[csrf_key ''s'' ''t'' \<mapsto> \<lparr>mw_token = ''t'', mw_expires = 10\<rparr>]" "''s''"
        "\<lparr>mw_token = ''t'', mw_expires = 10\<rparr>"]
    by simp
  show ?thesis
    using a b c by (simp add: generate_on_empty)
qed

subsection \<open>Single use\<close>

lemma map_of_filter_distinct:
  "distinct (map fst al) \<Longrightarrow>
   map_of (filter P al) k =
     (case map_of al k of None \<Rightarrow> None | Some v \<Rightarrow> if P (k, v) then Some v else None)"
proof (induction al)
  case Nil
  then show ?case by simp
next
  case (Cons p al)
  obtain k' v' where p: "p = (k', v')" by (cases p)
  from Cons.prems have nin: "k' \<notin> fst ` set al" and d: "distinct (map fst al)"
    by (auto simp: p)
  have none: "map_of al k' = None"
    using nin by (simp add: map_of_eq_None_iff)
  show ?case
    using Cons.IH[OF d] none by (auto simp: p split: option.splits)
qed

lemma distinct_filter_fst: "distinct (map fst al) \<Longrightarrow> distinct (map fst (filter P al))"
  by (rule distinct_map_filter)

lemma distinct_cleanup:
  "distinct (map fst tokens) \<Longrightarrow> distinct (map fst (cleanupExpiredTokens s now tokens))"
  unfolding cleanupExpiredTokens_def by (rule distinct_map_filter)

lemma distinct_generateToken:
  "distinct (map fst tokens) \<Longrightarrow>
   distinct (map fst (snd (generateToken s tc t r tokens)))"
  by (simp add: generateToken_def Let_def distinct_update distinct_delete distinct_cleanup)

lemma distinct_validateToken:
  "distinct (map fst tokens) \<Longrightarrow> distinct (map fst (snd (validateToken tok s now tokens)))"
  by (auto simp: validateToken_def Let_def distinct_update distinct_delete split: option.splits)

lemma distinct_step:
  "distinct (map fst tokens) \<Longrightarrow> distinct (map fst (csrf_step operation tokens))"
  by (cases operation)
     (simp_all add: distinct_generateToken distinct_validateToken revokeSessionTokens_def
        csrf_cleanup_def distinct_cleanup distinct_map_filter)

lemma distinct_run:
  "distinct (map fst tokens) \<Longrightarrow> distinct (map fst (csrf_run ops tokens))"
  unfolding csrf_run_def by (induction ops arbitrary: tokens) (simp_all add: distinct_step)

lemma spent_filter:
  "distinct (map fst tokens) \<Longrightarrow> spent k tokens \<Longrightarrow> spent k (filter P tokens)"
  by (cases "map_of tokens k") (simp_all add: spent_def map_of_filter_distinct)

lemma spent_delete: "spent k tokens \<Longrightarrow> spent k (AList.delete k' tokens)"
  by (auto simp: spent_def delete_conv' split: option.splits)

lemma spent_update_other:
  "k' \<noteq> k \<Longrightarrow> spent k tokens \<Longrightarrow> spent k (AList.update k' v tokens)"
  by (auto simp: spent_def update_conv' split: option.splits)

lemma spent_update_used: "used v \<Longrightarrow> spent k tokens \<Longrightarrow> spent k (AList.update k' v tokens)"
  by (auto simp: spent_def update_conv' split: option.splits)

lemma spent_validateToken:
  "spent k tokens \<Longrightarrow> spent k (snd (validateToken tok s now tokens))"
  by (auto simp: validateToken_def Let_def spent_delete spent_update_used split: option.splits)

lemma spent_after_validateToken:
  "spent (csrf_key (session_or_default s) tok) (snd (validateToken tok s now tokens)) \<or>
   length tok \<noteq> 64"
  by (auto simp: validateToken_def Let_def spent_def delete_conv' update_conv' split: option.splits)

lemma spent_generateToken:
  assumes "distinct (map fst tokens)" and "spent k tokens"
    and "csrf_key (session_or_default s) (to_hex r) \<noteq> k"
  shows "spent k (snd (generateToken s tc t r tokens))"
proof -
  have d1: "distinct (map fst (cleanupExpiredTokens (Some (session_or_default s)) tc tokens))"
    using assms(1) by (rule distinct_cleanup)
  have s1: "spent k (cleanupExpiredTokens (Some (session_or_default s)) tc tokens)"
    unfolding cleanupExpiredTokens_def using assms(1,2) by (rule spent_filter)
  show ?thesis
    using assms(3) s1
    by (simp add: generateToken_def Let_def spent_update_other spent_delete)
qed

lemma spent_step:
  assumes "distinct (map fst tokens)" and "spent k tokens" and "\<not> generates_key k operation"
  shows "spent k (csrf_step operation tokens)"
  using assms
  by (cases operation)
     (simp_all add: spent_generateToken spent_validateToken revokeSessionTokens_def
        csrf_cleanup_def cleanupExpiredTokens_def spent_filter)

lemma spent_run:
  assumes "distinct (map fst tokens)" and "spent k tokens"
    and "\<forall>operation \<in> set ops. \<not> generates_key k operation"
  shows "spent k (csrf_run ops tokens)"
  using assms unfolding csrf_run_def
  by (induction ops arbitrary: tokens) (simp_all add: spent_step distinct_step)

lemma spent_rejects:
  "spent (csrf_key (session_or_default s) tok) tokens \<Longrightarrow> \<not> fst (validateToken tok s now tokens)"
  by (auto simp: validateToken_result spent_def)

lemma cleanup_leaves_fresh:
  "(k, e) \<in> set (csrf_cleanup now tokens) \<Longrightarrow> \<not> used e \<and> \<not> now > expires e"
  by (auto simp: csrf_cleanup_def cleanupExpiredTokens_def)

text \<open>
  Claim C8. A token managed by \<open>CSRFProtection\<close> never validates twice. Take any
  state the class reaches from the empty store, and any call of \<open>validateToken\<close> for a
  session and token, successful or not. Whatever operations of the class follow
  (validations, clean-ups, revocations, and generations of tokens other than this
  one), every later \<open>validateToken\<close> for the same session and token returns false:
  after the first call the key has no entry or an entry marked used, no operation
  undoes that, and \<open>cleanup\<close> leaves no used entry in the store.
\<close>

theorem csrf_single_use:
  assumes "\<forall>operation \<in> set later.
             \<not> generates_key (csrf_key (session_or_default sessionId) tok) operation"
  shows "\<not> fst (validateToken tok sessionId now2
           (csrf_run later (snd (validateToken tok sessionId now1 (csrf_run earlier []))))) \<and>
         list_all (\<lambda>(k, e). \<not> used e \<and> \<not> now3 > expires e) (csrf_cleanup now3 store)"
proof (cases "length tok = 64")
  case False
  then show ?thesis
    by (auto simp: validateToken_result list_all_iff dest: cleanup_leaves_fresh)
next
  case True
  let ?k = "csrf_key (session_or_default sessionId) tok"
  let ?s0 = "csrf_run earlier []"
  let ?s1 = "snd (validateToken tok sessionId now1 ?s0)"
  have d0: "distinct (map fst ?s0)" by (rule distinct_run) simp
  have d1: "distinct (map fst ?s1)" using d0 by (rule distinct_validateToken)
  have "spent ?k ?s1" using spent_after_validateToken[of sessionId tok now1 ?s0] True by simp
  then have "spent ?k (csrf_run later ?s1)" using d1 assms by (intro spent_run) auto
  then have "\<not> fst (validateToken tok sessionId now2 (csrf_run later ?s1))"
    by (rule spent_rejects)
  then show ?thesis
    by (auto simp: list_all_iff dest: cleanup_leaves_fresh)
qed

text \<open>
  A token is generated, validated once with success, the store is cleaned and another
  token is generated; the second validation of the first token fails.
\<close>

theorem csrf_single_use_witness:
  "list_all (\<lambda>operation. \<not> generates_key (csrf_key (session_or_default None) ''0000000000000000000000000000000000000000000000000000000000000000'') operation)
     [Cleanup 7, Generate None 8 8 (replicate 32 1)] \<and>
   fst (validateToken ''0000000000000000000000000000000000000000000000000000000000000000'' None 5 (csrf_run [Generate None 0 0 (replicate 32 0)] [])) \<and>
   \<not> fst (validateToken ''0000000000000000000000000000000000000000000000000000000000000000'' None 9
        (csrf_run [Cleanup 7, Generate None 8 8 (replicate 32 1)]
           (snd (validateToken ''0000000000000000000000000000000000000000000000000000000000000000'' None 5 (csrf_run [Generate None 0 0 (replicate 32 0)] [])))))"
proof -
  note fresh = to_hex_ones_fresh
  have a: "\<forall>operation \<in> set [Cleanup 7, Generate None 8 8 (replicate 32 1)].
      \<not> generates_key (csrf_key (session_or_default None) ''0000000000000000000000000000000000000000000000000000000000000000'') operation"
    using fresh by (simp add: csrf_key_def)
  have b: "fst (validateToken ''0000000000000000000000000000000000000000000000000000000000000000'' None 5 (csrf_run [Generate None 0 0 (replicate 32 0)] []))"
    by (simp add: csrf_run_def generate_on_empty validateToken_result constantTimeCompare_eq
          session_or_default_def)
  from csrf_single_use [OF a, of 9 5 "[Generate None 0 0 (replicate 32 0)]" 0 "[]"]
  show ?thesis using a b by (simp add: list_all_iff)
qed

section \<open>Properties of the middleware\<close>

lemma middleware_reaches_authenticate:
  assumes "\<not> isIPBlocked (getClientIP request)"
    and "\<not> detectSuspiciousActivity request"
    and "on_route RATE_LIMITED_ROUTES (pathname request) \<longrightarrow>
           mw_allowed (fst (checkRateLimit (getClientIP request) (pathname request)
             (now_limit clock) (rateLimitMap st)))"
    and "mutating (req_method request) \<and> on_route CSRF_PROTECTED_ROUTES (pathname request) \<longrightarrow>
           present (req_headers request ''x-csrf-token'') \<and>
           fst (validateCSRFToken (the (req_headers request ''x-csrf-token''))
             (getClientIP request) (now_csrf clock) (csrfTokens st))"
  shows "fst (middleware env request clock st) = authenticate env request"
  using assms
  by (auto simp: middleware_def csrf_then_authenticate_def Let_def split: prod.splits)

lemma authenticate_protected:
  assumes "on_route PROTECTED_ROUTES (pathname request)"
  shows "(\<not> present (req_cookies request ''auth-token'') \<longrightarrow>
            authenticate env request =
              JsonResponse 401 [(''error'', Text ''Authentication required'')] []) \<and>
         (present (req_cookies request ''auth-token'') \<and>
            jwt_verify env (the (req_cookies request ''auth-token'')) = None \<longrightarrow>
            authenticate env request = JsonResponse 401 [(''error'', Text ''Invalid token'')] []) \<and>
         (present (req_cookies request ''auth-token'') \<and>
            jwt_verify env (the (req_cookies request ''auth-token'')) = Some d \<longrightarrow>
            authenticate env request =
              NextResponse [(''x-user-id'', userId d), (''x-user-email'', email d),
                            (''x-user-role'', role d)])"
  using assms by (simp add: authenticate_def Let_def)

lemma example_request_passes:
  "on_route PROTECTED_ROUTES (pathname (example_request c))"
  "getClientIP (example_request c) = ''198.51.100.1''"
  "\<not> isIPBlocked (getClientIP (example_request c))"
  "\<not> detectSuspiciousActivity (example_request c)"
  "\<not> mutating (req_method (example_request c))"
  "mw_allowed (fst (checkRateLimit ''198.51.100.1'' (pathname (example_request c))
     (now_limit example_clock) (rateLimitMap example_state)))"
proof -
  show ip: "getClientIP (example_request c) = ''198.51.100.1''"
    by (simp add: example_request_def getClientIP_def present_def Let_def before_comma_def
          trim_def is_space_def)
  show "on_route PROTECTED_ROUTES (pathname (example_request c))"
    by (simp add: example_request_def on_route_def PROTECTED_ROUTES_def startsWith_def)
  show "\<not> isIPBlocked (getClientIP (example_request c))"
    by (simp add: ip isIPBlocked_def)
  show "\<not> detectSuspiciousActivity (example_request c)"
    by (simp add: example_request_def detectSuspiciousActivity_def present_def Let_def
          suspiciousPatterns_def test_i_def ascii_lower_def startsWith_def)
  show "\<not> mutating (req_method (example_request c))"
    by (simp add: example_request_def mutating_def)
  show "mw_allowed (fst (checkRateLimit ''198.51.100.1'' (pathname (example_request c))
     (now_limit example_clock) (rateLimitMap example_state)))"
    by (simp add: checkRateLimit_def Let_def example_state_def)
qed

text \<open>
  Claim C6. Authentication is by session cookie. For every request whose path starts
  with one of the protected routes \<open>/api/forms\<close>, \<open>/api/dashboard\<close>, \<open>/api/export\<close> and
  which passes the IP-block, suspicious-activity, rate-limit and CSRF checks, the
  middleware answers 401 when the request carries no \<open>auth-token\<close> cookie (or an
  empty one), answers 401 when the cookie's token fails JWT verification, and with a
  verifiable token forwards the request with the user's id, email and role set as the
  headers \<open>x-user-id\<close>, \<open>x-user-email\<close> and \<open>x-user-role\<close>.
\<close>

theorem middleware_authentication:
  assumes "on_route PROTECTED_ROUTES (pathname request)"
    and "\<not> isIPBlocked (getClientIP request)"
    and "\<not> detectSuspiciousActivity request"
    and "on_route RATE_LIMITED_ROUTES (pathname request) \<longrightarrow>
           mw_allowed (fst (checkRateLimit (getClientIP request) (pathname request)
             (now_limit clock) (rateLimitMap st)))"
    and "mutating (req_method request) \<and> on_route CSRF_PROTECTED_ROUTES (pathname request) \<longrightarrow>
           present (req_headers request ''x-csrf-token'') \<and>
           fst (validateCSRFToken (the (req_headers request ''x-csrf-token''))
             (getClientIP request) (now_csrf clock) (csrfTokens st))"
  shows "(\<not> present (req_cookies request ''auth-token'') \<longrightarrow>
            status_of (fst (middleware env request clock st)) = Some 401) \<and>
         (present (req_cookies request ''auth-token'') \<and>
            jwt_verify env (the (req_cookies request ''auth-token'')) = None \<longrightarrow>
            status_of (fst (middleware env request clock st)) = Some 401) \<and>
         (present (req_cookies request ''auth-token'') \<and>
            jwt_verify env (the (req_cookies request ''auth-token'')) = Some d \<longrightarrow>
            fst (middleware env request clock st) =
              NextResponse [(''x-user-id'', userId d), (''x-user-email'', email d),
                            (''x-user-role'', role d)])"
proof -
  have r: "fst (middleware env request clock st) = authenticate env request"
    using assms(2-5) by (rule middleware_reaches_authenticate)
  from authenticate_protected [OF assms(1), of env d] show ?thesis
    by (auto simp: r)
qed

text \<open>
  The example request is answered 401 without a cookie and with the cookie \<open>stale\<close>,
  and is forwarded with the three headers with the cookie \<open>good\<close>.
\<close>

theorem middleware_authentication_witness:
  "status_of (fst (middleware example_env (example_request Map.empty)
      example_clock example_state)) = Some 401 \<and>
   status_of (fst (middleware example_env (example_request [''auth-token'' \<mapsto> ''stale''])
      example_clock example_state)) = Some 401 \<and>
   fst (middleware example_env (example_request [''auth-token'' \<mapsto> ''good''])
      example_clock example_state) =
     NextResponse [(''x-user-id'', ''7''), (''x-user-email'', ''ana@example.org''),
                   (''x-user-role'', ''user'')]"
proof -
  have t: "\<And>c d.
    (\<not> present (req_cookies (example_request c) ''auth-token'') \<longrightarrow>
       status_of (fst (middleware example_env (example_request c) example_clock example_state)) =
         Some 401) \<and>
    (present (req_cookies (example_request c) ''auth-token'') \<and>
       jwt_verify example_env (the (req_cookies (example_request c) ''auth-token'')) = None \<longrightarrow>
       status_of (fst (middleware example_env (example_request c) example_clock example_state)) =
         Some 401) \<and>
    (present (req_cookies (example_request c) ''auth-token'') \<and>
       jwt_verify example_env (the (req_cookies (example_request c) ''auth-token'')) = Some d \<longrightarrow>
       fst (middleware example_env (example_request c) example_clock example_state) =
         NextResponse [(''x-user-id'', userId d), (''x-user-email'', email d),
                       (''x-user-role'', role d)])"
    by (rule middleware_authentication) (simp_all add: example_request_passes isIPBlocked_def)
  have a: "status_of (fst (middleware example_env (example_request Map.empty)
      example_clock example_state)) = Some 401"
    using t [of Map.empty] by (simp add: example_request_def present_def)
  have b: "status_of (fst (middleware example_env (example_request [''auth-token'' \<mapsto> ''stale''])
      example_clock example_state)) = Some 401"
    using t [of "[''auth-token'' \<mapsto> ''stale'']"]
    by (simp add: example_request_def present_def example_env_def)
  have c: "fst (middleware example_env (example_request [''auth-token'' \<mapsto> ''good''])
      example_clock example_state) =
     NextResponse [(''x-user-id'', ''7''), (''x-user-email'', ''ana@example.org''),
                   (''x-user-role'', ''user'')]"
    using t [of "[''auth-token'' \<mapsto> ''good'']"
        "\<lparr>userId = ''7'', email = ''ana@example.org'', role = ''user''\<rparr>"]
    by (simp add: example_request_def present_def example_env_def)
  show ?thesis using a b c by blast
qed

section \<open>Properties of the form exporter\<close>

subsection \<open>Escaping\<close>

lemma escapeHtml_browser [simp]: "escapeHtml (browser c) s = dom_escape s"
  by (simp add: escapeHtml_def browser_def)

lemma escapeHtml_verbatim [simp]: "escapeHtml (verbatim c) s = s"
  by (simp add: escapeHtml_def verbatim_def)

lemma escape_char_nonempty: "escape_char c \<noteq> []"
  by (simp add: escape_char_def)

lemma dom_escape_Nil [simp]: "dom_escape [] = []"
  by (simp add: dom_escape_def)

lemma dom_escape_Cons: "dom_escape (c # s) = escape_char c @ dom_escape s"
  by (simp add: dom_escape_def)

lemma dom_escape_empty_iff [simp]: "(dom_escape s = []) = (s = [])"
  by (cases s) (simp_all add: dom_escape_Cons escape_char_nonempty)

lemma dom_escape_no_angle: "CHR ''<'' \<notin> set (dom_escape s) \<and> CHR ''>'' \<notin> set (dom_escape s)"
  by (induction s) (auto simp: dom_escape_Cons escape_char_def)

lemma present_map_escape [simp]: "present (map_option dom_escape p) = present p"
  by (cases p) (simp_all add: present_def)

lemma or_else_escape:
  "dom_escape d = d \<Longrightarrow>
   dom_escape (or_else p d) = or_else (map_option dom_escape p) d"
  by (cases p) (simp_all add: or_else_def present_def)

lemma dom_escape_cep: "dom_escape ''Ex: 12345-678'' = ''Ex: 12345-678''"
  by (simp add: dom_escape_def escape_char_def)

lemma dom_escape_cnpj: "dom_escape ''Ex: 12.345.678/0001-90'' = ''Ex: 12.345.678/0001-90''"
  by (simp add: dom_escape_def escape_char_def)

lemma escape_field_sel [simp]:
  "field_id (escape_field f) = field_id f"
  "field_type (escape_field f) = field_type f"
  "field_required (escape_field f) = field_required f"
  "field_label (escape_field f) = dom_escape (field_label f)"
  "field_placeholder (escape_field f) = map_option dom_escape (field_placeholder f)"
  "field_options (escape_field f) = map_option (map dom_escape) (field_options f)"
  by (simp_all add: escape_field_def)

lemma fieldId_escape [simp]: "fieldId (escape_field f) = fieldId f"
  by (simp add: fieldId_def)

lemma requiredAttr_escape [simp]: "requiredAttr (escape_field f) = requiredAttr f"
  by (simp add: requiredAttr_def)

lemma requiredLabel_escape [simp]: "requiredLabel (escape_field f) = requiredLabel f"
  by (simp add: requiredLabel_def)

lemma inputField_escape:
  "inputFieldHTML (browser c) f = inputFieldHTML (verbatim c) (escape_field f)"
  by (simp add: inputFieldHTML_def or_else_escape)

lemma cepField_escape:
  "cepFieldHTML (browser c) f = cepFieldHTML (verbatim c) (escape_field f)"
  by (simp add: cepFieldHTML_def or_else_escape dom_escape_cep)

lemma cnpjField_escape:
  "cnpjFieldHTML (browser c) f = cnpjFieldHTML (verbatim c) (escape_field f)"
  by (simp add: cnpjFieldHTML_def or_else_escape dom_escape_cnpj)

lemma textareaField_escape:
  "textareaFieldHTML (browser c) f = textareaFieldHTML (verbatim c) (escape_field f)"
  by (simp add: textareaFieldHTML_def or_else_escape)

lemma selectOptions_escape:
  "selectOptions (browser c) f = selectOptions (verbatim c) (escape_field f)"
  by (cases "field_options f") (simp_all add: selectOptions_def comp_def)

lemma selectField_escape:
  "selectFieldHTML (browser c) f = selectFieldHTML (verbatim c) (escape_field f)"
  by (simp add: selectFieldHTML_def selectOptions_escape)

lemma enumerate_map: "enumerate n (map g xs) = map (\<lambda>(i, x). (i, g x)) (enumerate n xs)"
  by (induction xs arbitrary: n) simp_all

lemma radioOptions_escape:
  "radioOptions (browser c) f = radioOptions (verbatim c) (escape_field f)"
  by (cases "field_options f")
     (simp_all add: radioOptions_def enumerate_map comp_def case_prod_unfold)

lemma radioField_escape:
  "radioFieldHTML (browser c) f = radioFieldHTML (verbatim c) (escape_field f)"
  by (simp add: radioFieldHTML_def radioOptions_escape)

lemma checkboxField_escape:
  "checkboxFieldHTML (browser c) f = checkboxFieldHTML (verbatim c) (escape_field f)"
  by (simp add: checkboxFieldHTML_def)

lemma dateField_escape:
  "dateFieldHTML (browser c) f = dateFieldHTML (verbatim c) (escape_field f)"
  by (simp add: dateFieldHTML_def)

lemma unsupportedField_escape:
  "unsupportedFieldHTML f = unsupportedFieldHTML (escape_field f)"
  by (simp add: unsupportedFieldHTML_def)

lemma generateFieldHTML_escape:
  "generateFieldHTML (browser c) f = generateFieldHTML (verbatim c) (escape_field f)"
  unfolding generateFieldHTML_def
  using inputField_escape cepField_escape cnpjField_escape textareaField_escape
    selectField_escape radioField_escape checkboxField_escape dateField_escape
    unsupportedField_escape [of f]
  by simp

lemma generateFormHTML_escape:
  "generateFormHTML (browser c) form = generateFormHTML (verbatim c) (escape_form form)"
proof -
  have "generateFieldHTML (browser c) = (\<lambda>x. generateFieldHTML (verbatim c) (escape_field x))"
    by (rule ext) (rule generateFieldHTML_escape)
  then show ?thesis
    by (simp add: generateFormHTML_def escape_form_def comp_def)
qed

lemma generateJavaScript_escape:
  "generateJavaScript txt form options = generateJavaScript txt (escape_form form) options"
  by (simp add: generateJavaScript_def)

lemma generateHTMLTemplate_escape:
  "generateHTMLTemplate (browser c) txt form options =
   generateHTMLTemplate (verbatim c) txt (escape_form form) options"
proof -
  have sel: "fm_title (escape_form form) = dom_escape (fm_title form)"
    "fm_description (escape_form form) = dom_escape (fm_description form)"
    by (simp_all add: escape_form_def)
  show ?thesis
    unfolding generateHTMLTemplate_def
    by (simp add: sel generateFormHTML_escape generateJavaScript_escape [symmetric])
qed

subsection \<open>Where the contents of a form occur in the page\<close>

text \<open>\<open>s.includes(x)\<close> holds exactly when \<open>x\<close> occurs in \<open>s\<close>.\<close>

lemma startsWith_iff: "startsWith s p \<longleftrightarrow> (\<exists>post. s = p @ post)"
proof
  assume "startsWith s p"
  then have "s = p @ drop (length p) s"
    by (metis startsWith_def append_take_drop_id)
  then show "\<exists>post. s = p @ post" ..
next
  assume "\<exists>post. s = p @ post"
  then show "startsWith s p" by (auto simp: startsWith_def)
qed

lemma includes_str_iff: "includes_str s x \<longleftrightarrow> (\<exists>pre post. s = pre @ x @ post)"
proof (induction s)
  case Nil
  show ?case by simp
next
  case (Cons c cs)
  show ?case
  proof
    assume "includes_str (c # cs) x"
    then consider "startsWith (c # cs) x" | "includes_str cs x" by auto
    then show "\<exists>pre post. c # cs = pre @ x @ post"
    proof cases
      case 1
      then obtain post where "c # cs = x @ post" by (auto simp: startsWith_iff)
      then have "c # cs = [] @ x @ post" by simp
      then show ?thesis by blast
    next
      case 2
      with Cons obtain pre post where "cs = pre @ x @ post" by auto
      then have "c # cs = (c # pre) @ x @ post" by simp
      then show ?thesis by blast
    qed
  next
    assume "\<exists>pre post. c # cs = pre @ x @ post"
    then obtain pre post where e: "c # cs = pre @ x @ post" by auto
    show "includes_str (c # cs) x"
    proof (cases pre)
      case Nil
      with e have "startsWith (c # cs) x" by (auto simp: startsWith_iff)
      then show ?thesis by simp
    next
      case (Cons d pre')
      with e have "cs = pre' @ x @ post" by simp
      with Cons.IH have "includes_str cs x" by blast
      then show ?thesis by simp
    qed
  qed
qed

lemma inc_here: "includes_str (x @ rest) x"
  unfolding includes_str_iff by (rule exI [of _ "[]"]) simp

lemma inc_end: "includes_str x x"
  unfolding includes_str_iff by (rule exI [of _ "[]"], rule exI [of _ "[]"]) simp

lemma inc_here2: "includes_str (a @ b @ rest) (a @ b)"
  unfolding includes_str_iff by (rule exI [of _ "[]"]) simp

lemma inc_here3: "includes_str (a @ b @ c @ rest) (a @ b @ c)"
  unfolding includes_str_iff by (rule exI [of _ "[]"]) simp

lemma inc_here5: "includes_str (a @ b @ c @ d @ e @ rest) (a @ b @ c @ d @ e)"
  unfolding includes_str_iff by (rule exI [of _ "[]"]) simp

lemma inc_skip: "includes_str ys x \<Longrightarrow> includes_str (p @ ys) x"
  unfolding includes_str_iff
proof -
  assume "\<exists>pre post. ys = pre @ x @ post"
  then obtain pre post where "ys = pre @ x @ post" by auto
  then have "p @ ys = (p @ pre) @ x @ post" by simp
  then show "\<exists>pre post. p @ ys = pre @ x @ post" by blast
qed

lemma inc_first: "includes_str ys x \<Longrightarrow> includes_str (ys @ q) x"
  unfolding includes_str_iff
proof -
  assume "\<exists>pre post. ys = pre @ x @ post"
  then obtain pre post where "ys = pre @ x @ post" by auto
  then have "ys @ q = pre @ x @ (post @ q)" by simp
  then show "\<exists>pre post. ys @ q = pre @ x @ post" by blast
qed

lemma inc_trans: "includes_str y x \<Longrightarrow> includes_str z y \<Longrightarrow> includes_str z x"
  unfolding includes_str_iff
proof -
  assume "\<exists>pre post. y = pre @ x @ post" "\<exists>pre post. z = pre @ y @ post"
  then obtain p1 q1 p2 q2 where "y = p1 @ x @ q1" "z = p2 @ y @ q2" by auto
  then have "z = (p2 @ p1) @ x @ (q1 @ q2)" by simp
  then show "\<exists>pre post. z = pre @ x @ post" by blast
qed

lemma inc_shrink: "includes_str s (p @ x @ q) \<Longrightarrow> includes_str s x"
  by (rule inc_trans [of "p @ x @ q"]) (rule inc_skip, rule inc_here)

lemma inc_if: "includes_str s (if c then x else y) \<Longrightarrow> c \<Longrightarrow> includes_str s x"
  by simp

lemma join_occurs: "x \<in> set xs \<Longrightarrow> includes_str (join sep (map g xs)) (g x)"
proof (induction xs)
  case Nil
  then show ?case by simp
next
  case (Cons a xs)
  show ?case
  proof (cases xs)
    case Nil
    with Cons.prems show ?thesis by (simp add: inc_end)
  next
    case (Cons b ys)
    then have j: "join sep (map g (a # xs)) = g a @ sep @ join sep (map g xs)" by simp
    show ?thesis
    proof (cases "x = a")
      case True
      then show ?thesis unfolding j by (simp add: inc_here)
    next
      case False
      with Cons.prems Cons.IH have "includes_str (join sep (map g xs)) (g x)" by simp
      then show ?thesis unfolding j by (intro inc_skip)
    qed
  qed
qed

text \<open>The title, the heading, the description and every field are part of the page.\<close>

lemma page_title:
  \<open>includes_str (generateHTMLTemplate env txt form options)
     (''<title>'' @ escapeHtml env (fm_title form) @ ''</title>'')\<close>
proof -
  have \<open>includes_str (generateHTMLTemplate env txt form options)
     (''    <title>'' @ escapeHtml env (fm_title form) @ ''</title>\<newline>'')\<close>
    unfolding generateHTMLTemplate_def by ((rule inc_here3 | rule inc_skip)+)
  moreover have \<open>''    <title>'' @ escapeHtml env (fm_title form) @ ''</title>\<newline>'' =
     ''    '' @ (''<title>'' @ escapeHtml env (fm_title form) @ ''</title>'') @ ''\<newline>''\<close>
    by simp
  ultimately show ?thesis by (metis inc_shrink)
qed

lemma page_heading:
  \<open>includes_str (generateHTMLTemplate env txt form options)
     (''<h1>'' @ escapeHtml env (fm_title form) @ ''</h1>'')\<close>
proof -
  have \<open>includes_str (generateHTMLTemplate env txt form options)
     (''                <h1>'' @ escapeHtml env (fm_title form) @ ''</h1>\<newline>'')\<close>
    unfolding generateHTMLTemplate_def by ((rule inc_here3 | rule inc_skip)+)
  moreover have \<open>''                <h1>'' @ escapeHtml env (fm_title form) @ ''</h1>\<newline>'' =
     ''                '' @ (''<h1>'' @ escapeHtml env (fm_title form) @ ''</h1>'') @ ''\<newline>''\<close>
    by simp
  ultimately show ?thesis by (metis inc_shrink)
qed

lemma page_description:
  assumes "fm_description form \<noteq> []"
  shows \<open>includes_str (generateHTMLTemplate env txt form options)
     (''<p class="form-description">'' @ escapeHtml env (fm_description form) @ ''</p>'')\<close>
proof -
  have \<open>includes_str (generateHTMLTemplate env txt form options)
     (if fm_description form \<noteq> [] then
          ''<p class="form-description">'' @ escapeHtml env (fm_description form) @ ''</p>''
        else [])\<close>
    unfolding generateHTMLTemplate_def by ((rule inc_here | rule inc_skip)+)
  then show ?thesis using assms by (rule inc_if)
qed

lemma page_field:
  assumes "f \<in> set (fm_fields form)"
  shows "includes_str (generateHTMLTemplate env txt form options) (generateFieldHTML env f)"
proof -
  have a: "includes_str (generateHTMLTemplate env txt form options) (generateFormHTML env form)"
    unfolding generateHTMLTemplate_def by ((rule inc_here | rule inc_skip)+)
  have b: "includes_str (generateFormHTML env form)
      (join [CHR 0x0A] (map (generateFieldHTML env) (fm_fields form)))"
    unfolding generateFormHTML_def by ((rule inc_here | rule inc_skip)+)
  have c: "includes_str (join [CHR 0x0A] (map (generateFieldHTML env) (fm_fields form)))
      (generateFieldHTML env f)"
    using assms by (rule join_occurs)
  from c b have "includes_str (generateFormHTML env form) (generateFieldHTML env f)"
    by (rule inc_trans)
  then show ?thesis using a by (rule inc_trans)
qed

lemma generateFieldHTML_type:
  "field_type f \<in> set [''text'', ''email'', ''phone''] \<Longrightarrow>
     generateFieldHTML env f = inputFieldHTML env f"
  "field_type f = ''cep'' \<Longrightarrow> generateFieldHTML env f = cepFieldHTML env f"
  "field_type f = ''cnpj'' \<Longrightarrow> generateFieldHTML env f = cnpjFieldHTML env f"
  "field_type f = ''textarea'' \<Longrightarrow> generateFieldHTML env f = textareaFieldHTML env f"
  "field_type f = ''select'' \<Longrightarrow> generateFieldHTML env f = selectFieldHTML env f"
  "field_type f = ''radio'' \<Longrightarrow> generateFieldHTML env f = radioFieldHTML env f"
  "field_type f = ''checkbox'' \<Longrightarrow> generateFieldHTML env f = checkboxFieldHTML env f"
  "field_type f = ''date'' \<Longrightarrow> generateFieldHTML env f = dateFieldHTML env f"
  by (auto simp: generateFieldHTML_def)

text \<open>The label, the placeholder and the options are part of the markup of a field.\<close>

lemma label_occurs:
  "includes_str (inputFieldHTML env f) (escapeHtml env (field_label f) @ requiredLabel f)"
  "includes_str (cepFieldHTML env f) (escapeHtml env (field_label f) @ requiredLabel f)"
  "includes_str (cnpjFieldHTML env f) (escapeHtml env (field_label f) @ requiredLabel f)"
  "includes_str (textareaFieldHTML env f) (escapeHtml env (field_label f) @ requiredLabel f)"
  "includes_str (selectFieldHTML env f) (escapeHtml env (field_label f) @ requiredLabel f)"
  "includes_str (radioFieldHTML env f) (escapeHtml env (field_label f) @ requiredLabel f)"
  "includes_str (checkboxFieldHTML env f) (escapeHtml env (field_label f) @ requiredLabel f)"
  "includes_str (dateFieldHTML env f) (escapeHtml env (field_label f) @ requiredLabel f)"
  unfolding inputFieldHTML_def cepFieldHTML_def cnpjFieldHTML_def textareaFieldHTML_def
    selectFieldHTML_def radioFieldHTML_def checkboxFieldHTML_def dateFieldHTML_def
  by ((rule inc_here2 | rule inc_skip)+)

lemma field_label_occurs:
  assumes "field_type f \<in> set [''text'', ''email'', ''phone'', ''cep'', ''cnpj'', ''textarea'',
      ''select'', ''radio'', ''checkbox'', ''date'']"
  shows "includes_str (generateFieldHTML env f) (escapeHtml env (field_label f) @ requiredLabel f)"
  using assms unfolding generateFieldHTML_def
  by (auto simp: label_occurs)

lemma placeholder_shrink:
  assumes \<open>includes_str s (''                placeholder="'' @ x @ ''"\<newline>'')\<close>
  shows \<open>includes_str s (''placeholder="'' @ x @ ''"'')\<close>
proof -
  have \<open>''                placeholder="'' @ x @ ''"\<newline>'' =
      ''                '' @ (''placeholder="'' @ x @ ''"'') @ ''\<newline>''\<close>
    by simp
  with assms show ?thesis by (metis inc_shrink)
qed

lemma placeholder_input:
  \<open>includes_str (inputFieldHTML env f)
     (''placeholder="'' @ escapeHtml env (or_else (field_placeholder f) []) @ ''"'')\<close>
  unfolding inputFieldHTML_def
  by (rule placeholder_shrink) ((rule inc_here3 | rule inc_skip)+)

lemma placeholder_textarea:
  \<open>includes_str (textareaFieldHTML env f)
     (''placeholder="'' @ escapeHtml env (or_else (field_placeholder f) []) @ ''"'')\<close>
  unfolding textareaFieldHTML_def
  by (rule placeholder_shrink) ((rule inc_here3 | rule inc_skip)+)

lemma placeholder_cep:
  \<open>includes_str (cepFieldHTML env f)
     (''placeholder="'' @ escapeHtml env (or_else (field_placeholder f) ''Ex: 12345-678'') @ ''"'')\<close>
  unfolding cepFieldHTML_def
  by (rule placeholder_shrink) ((rule inc_here3 | rule inc_skip)+)

lemma placeholder_cnpj:
  \<open>includes_str (cnpjFieldHTML env f)
     (''placeholder="'' @ escapeHtml env (or_else (field_placeholder f) ''Ex: 12.345.678/0001-90'') @ ''"'')\<close>
  unfolding cnpjFieldHTML_def
  by (rule placeholder_shrink) ((rule inc_here3 | rule inc_skip)+)

lemma field_placeholder_occurs:
  assumes "field_type f \<in> set [''text'', ''email'', ''phone'', ''textarea'']"
  shows \<open>includes_str (generateFieldHTML env f)
     (''placeholder="'' @ escapeHtml env (or_else (field_placeholder f) []) @ ''"'')\<close>
proof (cases "field_type f = ''textarea''")
  case True
  then have "generateFieldHTML env f = textareaFieldHTML env f"
    by (rule generateFieldHTML_type)
  then show ?thesis by (simp only: placeholder_textarea)
next
  case False
  with assms have "field_type f \<in> set [''text'', ''email'', ''phone'']" by auto
  then have "generateFieldHTML env f = inputFieldHTML env f"
    by (rule generateFieldHTML_type)
  then show ?thesis by (simp only: placeholder_input)
qed

lemma field_placeholder_cep:
  assumes "field_type f = ''cep''"
  shows \<open>includes_str (generateFieldHTML env f)
     (''placeholder="'' @ escapeHtml env (or_else (field_placeholder f) ''Ex: 12345-678'') @ ''"'')\<close>
proof -
  from assms have "generateFieldHTML env f = cepFieldHTML env f"
    by (rule generateFieldHTML_type)
  then show ?thesis by (simp only: placeholder_cep)
qed

lemma field_placeholder_cnpj:
  assumes "field_type f = ''cnpj''"
  shows \<open>includes_str (generateFieldHTML env f)
     (''placeholder="'' @ escapeHtml env (or_else (field_placeholder f) ''Ex: 12.345.678/0001-90'') @ ''"'')\<close>
proof -
  from assms have "generateFieldHTML env f = cnpjFieldHTML env f"
    by (rule generateFieldHTML_type)
  then show ?thesis by (simp only: placeholder_cnpj)
qed

lemma select_option_occurs:
  assumes "field_type f = ''select''" "field_options f = Some os" "x \<in> set os"
  shows \<open>includes_str (generateFieldHTML env f)
     (''<option value="'' @ escapeHtml env x @ ''">'' @ escapeHtml env x @ ''</option>'')\<close>
proof -
  have a: "includes_str (selectFieldHTML env f) (selectOptions env f)"
    unfolding selectFieldHTML_def by ((rule inc_here | rule inc_skip)+)
  have \<open>includes_str
      (join [] (map (\<lambda>option.
               ''<option value="'' @ escapeHtml env option @ ''">'' @ escapeHtml env option @ ''</option>'') os))
      ((\<lambda>option.
               ''<option value="'' @ escapeHtml env option @ ''">'' @ escapeHtml env option @ ''</option>'') x)\<close>
    using assms(3) by (rule join_occurs)
  then have \<open>includes_str (selectOptions env f)
     (''<option value="'' @ escapeHtml env x @ ''">'' @ escapeHtml env x @ ''</option>'')\<close>
    unfolding selectOptions_def assms(2) by simp
  then have \<open>includes_str (selectFieldHTML env f)
     (''<option value="'' @ escapeHtml env x @ ''">'' @ escapeHtml env x @ ''</option>'')\<close>
    using a by (rule inc_trans)
  moreover from assms(1) have "generateFieldHTML env f = selectFieldHTML env f"
    by (rule generateFieldHTML_type)
  ultimately show ?thesis by (simp only:)
qed

lemma value_shrink:
  assumes \<open>includes_str s (''                    value="'' @ x @ ''"\<newline>'')\<close>
  shows \<open>includes_str s (''value="'' @ x @ ''"'')\<close>
proof -
  have \<open>''                    value="'' @ x @ ''"\<newline>'' =
      ''                    '' @ (''value="'' @ x @ ''"'') @ ''\<newline>''\<close>
    by simp
  with assms show ?thesis by (metis inc_shrink)
qed

lemma radio_label_shrink:
  assumes \<open>includes_str s (''">'' @ x @ ''</label>\<newline>'')\<close>
  shows \<open>includes_str s (''">'' @ x @ ''</label>'')\<close>
proof -
  have \<open>''">'' @ x @ ''</label>\<newline>'' = [] @ (''">'' @ x @ ''</label>'') @ ''\<newline>''\<close>
    by simp
  with assms show ?thesis by (metis inc_shrink)
qed

lemma radioOptions_shape:
  assumes "field_options f = Some os"
  shows \<open>\<exists>g. radioOptions env f = join [] (map g (enumerate 0 os)) \<and>
          (\<forall>i x. includes_str (g (i, x)) (''value="'' @ escapeHtml env x @ ''"'') \<and>
                 includes_str (g (i, x)) (''">'' @ escapeHtml env x @ ''</label>''))\<close>
  apply (simp only: radioOptions_def assms option.case)
  apply (rule exI)
  apply (intro conjI allI)
    apply (rule refl)
   apply (simp only: prod.case)
   apply (rule value_shrink)
   apply ((rule inc_here3 | rule inc_skip)+) [1]
  apply (simp only: prod.case)
  apply (rule radio_label_shrink)
  apply ((rule inc_here3 | rule inc_skip)+) [1]
  done

lemma radio_option_occurs:
  assumes "field_type f = ''radio''" "field_options f = Some os" "x \<in> set os"
  shows \<open>includes_str (generateFieldHTML env f) (''value="'' @ escapeHtml env x @ ''"'')\<close>
    and \<open>includes_str (generateFieldHTML env f) (''">'' @ escapeHtml env x @ ''</label>'')\<close>
proof -
  from assms(3) obtain i where "i < length os" "os ! i = x"
    by (auto simp: in_set_conv_nth)
  then have i: "(i, x) \<in> set (enumerate 0 os)"
    by (simp add: in_set_enumerate_eq)
  from radioOptions_shape [OF assms(2), of env] obtain g where
    g: "radioOptions env f = join [] (map g (enumerate 0 os))"
    and v: \<open>includes_str (g (i, x)) (''value="'' @ escapeHtml env x @ ''"'')\<close>
    and l: \<open>includes_str (g (i, x)) (''">'' @ escapeHtml env x @ ''</label>'')\<close>
    by blast
  have "includes_str (radioOptions env f) (g (i, x))"
    unfolding g using i by (rule join_occurs)
  moreover have "includes_str (radioFieldHTML env f) (radioOptions env f)"
    unfolding radioFieldHTML_def by ((rule inc_here | rule inc_skip)+)
  ultimately have r: "includes_str (radioFieldHTML env f) (g (i, x))"
    by (rule inc_trans)
  from assms(1) have t: "generateFieldHTML env f = radioFieldHTML env f"
    by (rule generateFieldHTML_type)
  from v r show \<open>includes_str (generateFieldHTML env f) (''value="'' @ escapeHtml env x @ ''"'')\<close>
    unfolding t by (rule inc_trans)
  from l r show \<open>includes_str (generateFieldHTML env f) (''">'' @ escapeHtml env x @ ''</label>'')\<close>
    unfolding t by (rule inc_trans)
qed

lemma occurs2: "includes_str s (a @ b) \<Longrightarrow> \<exists>pre post. s = pre @ a @ b @ post"
  by (simp add: includes_str_iff)

lemma occurs3: "includes_str s (a @ b @ c) \<Longrightarrow> \<exists>pre post. s = pre @ a @ b @ c @ post"
  by (simp add: includes_str_iff)

lemma occurs5:
  "includes_str s (a @ b @ c @ d @ e) \<Longrightarrow> \<exists>pre post. s = pre @ a @ b @ c @ d @ e @ post"
  by (simp add: includes_str_iff)

lemma or_else_given: "p \<noteq> [] \<Longrightarrow> or_else (Some p) d = p"
  by (simp add: or_else_def present_def)

lemma escape_form_explicit:
  "escape_form form =
     form\<lparr>fm_title := escapeHtml (browser clock) (fm_title form),
          fm_description := escapeHtml (browser clock) (fm_description form),
          fm_fields :=
            map (\<lambda>f. f\<lparr>field_label := escapeHtml (browser clock) (field_label f),
                        field_placeholder :=
                          map_option (escapeHtml (browser clock)) (field_placeholder f),
                        field_options :=
                          map_option (map (escapeHtml (browser clock))) (field_options f)\<rparr>)
              (fm_fields form)\<rparr>"
proof -
  have "escapeHtml (browser clock) = dom_escape"
    by (rule ext) simp
  then show ?thesis
    by (simp add: escape_form_def escape_field_def [abs_def])
qed

lemma field_occurs_in_page:
  assumes "f \<in> set (fm_fields form)" "includes_str (generateFieldHTML env f) x"
  shows "includes_str (exportAsHTML env txt form options) x"
  unfolding exportAsHTML_def using assms(2) page_field [OF assms(1)] by (rule inc_trans)

text \<open>
  Claim C10. In the HTML string produced by \<open>exportAsHTML\<close>, every occurrence of the
  form title, the description, the field labels, the placeholders and the select and
  radio option values is the HTML-escaped form of the raw string, never the raw string.
  The escaped form of a string, as \<open>escapeHtml\<close> gives it in a browser, replaces each
  \<open>&\<close>, \<open><\<close>, \<open>>\<close> and no-break space by \<open>&amp;\<close>, \<open>&lt;\<close>, \<open>&gt;\<close> and
  \<open>&nbsp;\<close> and keeps every other character; it holds neither \<open><\<close> nor \<open>>\<close>. The
  page is the text that the same templates give when they insert, unchanged, the title,
  the description, the labels, the placeholders and the option values already escaped.
  And these contents are in the page: the escaped title between the \<open>title\<close> tags and
  between the \<open>h1\<close> tags, a non-empty description escaped in its paragraph, and for
  every field of a supported type its escaped label, its escaped placeholder in the
  \<open>placeholder\<close> attribute of a text, e-mail, phone, CEP, CNPJ or textarea field, and
  each escaped option in the \<open>option\<close> element of a select field and in the \<open>value\<close>
  attribute and the label of a radio field.
\<close>

theorem html_export_escapes:
  \<open>escapeHtml (browser clock) s =
     concat (map (\<lambda>c. if c = CHR ''&'' then ''&amp;''
                      else if c = CHR ''<'' then ''&lt;''
                      else if c = CHR ''>'' then ''&gt;''
                      else if c = CHR 0xA0 then ''&nbsp;''
                      else [c]) s) \<and>
   CHR ''<'' \<notin> set (escapeHtml (browser clock) s) \<and>
   CHR ''>'' \<notin> set (escapeHtml (browser clock) s) \<and>
   escapeHtml (verbatim clock) s = s \<and>
   exportAsHTML (browser clock) txt form options =
     exportAsHTML (verbatim clock) txt
       (form\<lparr>fm_title := escapeHtml (browser clock) (fm_title form),
             fm_description := escapeHtml (browser clock) (fm_description form),
             fm_fields :=
               map (\<lambda>f. f\<lparr>field_label := escapeHtml (browser clock) (field_label f),
                           field_placeholder :=
                             map_option (escapeHtml (browser clock)) (field_placeholder f),
                           field_options :=
                             map_option (map (escapeHtml (browser clock))) (field_options f)\<rparr>)
                 (fm_fields form)\<rparr>)
       options \<and>
   (\<exists>pre post. exportAsHTML (browser clock) txt form options =
      pre @ ''<title>'' @ escapeHtml (browser clock) (fm_title form) @ ''</title>'' @ post) \<and>
   (\<exists>pre post. exportAsHTML (browser clock) txt form options =
      pre @ ''<h1>'' @ escapeHtml (browser clock) (fm_title form) @ ''</h1>'' @ post) \<and>
   (fm_description form \<noteq> [] \<longrightarrow>
      (\<exists>pre post. exportAsHTML (browser clock) txt form options =
         pre @ ''<p class="form-description">'' @
         escapeHtml (browser clock) (fm_description form) @ ''</p>'' @ post)) \<and>
   (\<forall>f \<in> set (fm_fields form).
      (field_type f \<in> set [''text'', ''email'', ''phone'', ''cep'', ''cnpj'', ''textarea'',
                            ''select'', ''radio'', ''checkbox'', ''date''] \<longrightarrow>
         (\<exists>pre post. exportAsHTML (browser clock) txt form options =
            pre @ escapeHtml (browser clock) (field_label f) @ requiredLabel f @ post)) \<and>
      (\<forall>p. field_type f \<in> set [''text'', ''email'', ''phone'', ''cep'', ''cnpj'', ''textarea''] \<and>
           field_placeholder f = Some p \<and> p \<noteq> [] \<longrightarrow>
         (\<exists>pre post. exportAsHTML (browser clock) txt form options =
            pre @ ''placeholder="'' @ escapeHtml (browser clock) p @ ''"'' @ post)) \<and>
      (\<forall>os. field_options f = Some os \<longrightarrow>
         (\<forall>x \<in> set os.
            (field_type f = ''select'' \<longrightarrow>
               (\<exists>pre post. exportAsHTML (browser clock) txt form options =
                  pre @ ''<option value="'' @ escapeHtml (browser clock) x @ ''">'' @
                  escapeHtml (browser clock) x @ ''</option>'' @ post)) \<and>
            (field_type f = ''radio'' \<longrightarrow>
               (\<exists>pre post. exportAsHTML (browser clock) txt form options =
                  pre @ ''value="'' @ escapeHtml (browser clock) x @ ''"'' @ post) \<and>
               (\<exists>pre post. exportAsHTML (browser clock) txt form options =
                  pre @ ''">'' @ escapeHtml (browser clock) x @ ''</label>'' @ post)))))\<close>
proof -
  let ?E = "escapeHtml (browser clock)"
  let ?P = "exportAsHTML (browser clock) txt form options"
  have c1: "?E s =
     concat (map (\<lambda>c. if c = CHR ''&'' then ''&amp;''
                      else if c = CHR ''<'' then ''&lt;''
                      else if c = CHR ''>'' then ''&gt;''
                      else if c = CHR 0xA0 then ''&nbsp;''
                      else [c]) s)"
    by (simp add: dom_escape_def escape_char_def [abs_def])
  have c2: "CHR ''<'' \<notin> set (?E s)" and c3: "CHR ''>'' \<notin> set (?E s)"
    using dom_escape_no_angle [of s] by simp_all
  have c4: "escapeHtml (verbatim clock) s = s"
    by simp
  have "?P = exportAsHTML (verbatim clock) txt (escape_form form) options"
    by (simp add: exportAsHTML_def generateHTMLTemplate_escape)
  then have c5: "?P =
     exportAsHTML (verbatim clock) txt
       (form\<lparr>fm_title := ?E (fm_title form),
             fm_description := ?E (fm_description form),
             fm_fields :=
               map (\<lambda>f. f\<lparr>field_label := ?E (field_label f),
                           field_placeholder := map_option ?E (field_placeholder f),
                           field_options := map_option (map ?E) (field_options f)\<rparr>)
                 (fm_fields form)\<rparr>)
       options"
    by (simp only: escape_form_explicit [of form clock])
  have c6: "\<exists>pre post. ?P = pre @ ''<title>'' @ ?E (fm_title form) @ ''</title>'' @ post"
    unfolding exportAsHTML_def by (rule occurs3) (rule page_title)
  have c7: "\<exists>pre post. ?P = pre @ ''<h1>'' @ ?E (fm_title form) @ ''</h1>'' @ post"
    unfolding exportAsHTML_def by (rule occurs3) (rule page_heading)
  have c8: \<open>fm_description form \<noteq> [] \<longrightarrow>
      (\<exists>pre post. ?P = pre @ ''<p class="form-description">'' @
         ?E (fm_description form) @ ''</p>'' @ post)\<close>
    unfolding exportAsHTML_def by (intro impI occurs3 page_description)
  have c9: \<open>\<forall>f \<in> set (fm_fields form).
      (field_type f \<in> set [''text'', ''email'', ''phone'', ''cep'', ''cnpj'', ''textarea'',
                            ''select'', ''radio'', ''checkbox'', ''date''] \<longrightarrow>
         (\<exists>pre post. ?P = pre @ ?E (field_label f) @ requiredLabel f @ post)) \<and>
      (\<forall>p. field_type f \<in> set [''text'', ''email'', ''phone'', ''cep'', ''cnpj'', ''textarea''] \<and>
           field_placeholder f = Some p \<and> p \<noteq> [] \<longrightarrow>
         (\<exists>pre post. ?P = pre @ ''placeholder="'' @ ?E p @ ''"'' @ post)) \<and>
      (\<forall>os. field_options f = Some os \<longrightarrow>
         (\<forall>x \<in> set os.
            (field_type f = ''select'' \<longrightarrow>
               (\<exists>pre post. ?P = pre @ ''<option value="'' @ ?E x @ ''">'' @
                  ?E x @ ''</option>'' @ post)) \<and>
            (field_type f = ''radio'' \<longrightarrow>
               (\<exists>pre post. ?P = pre @ ''value="'' @ ?E x @ ''"'' @ post) \<and>
               (\<exists>pre post. ?P = pre @ ''">'' @ ?E x @ ''</label>'' @ post))))\<close>
  proof (intro ballI conjI allI impI)
    fix f
    assume f: "f \<in> set (fm_fields form)"
    note page = field_occurs_in_page [OF f, of "browser clock" _ "txt" "options"]
    {
      assume "field_type f \<in> set [''text'', ''email'', ''phone'', ''cep'', ''cnpj'', ''textarea'',
                            ''select'', ''radio'', ''checkbox'', ''date'']"
      then have "includes_str (generateFieldHTML (browser clock) f)
          (?E (field_label f) @ requiredLabel f)"
        by (rule field_label_occurs)
      then show "\<exists>pre post. ?P = pre @ ?E (field_label f) @ requiredLabel f @ post"
        by (intro occurs2 page)
    }
    {
      fix p
      assume h: "field_type f \<in> set [''text'', ''email'', ''phone'', ''cep'', ''cnpj'', ''textarea''] \<and>
           field_placeholder f = Some p \<and> p \<noteq> []"
      then have p: "or_else (field_placeholder f) d = p" for d
        by (simp add: or_else_given)
      from h consider "field_type f \<in> set [''text'', ''email'', ''phone'', ''textarea'']"
        | "field_type f = ''cep''" | "field_type f = ''cnpj''"
        by auto
      then have \<open>includes_str (generateFieldHTML (browser clock) f)
          (''placeholder="'' @ ?E p @ ''"'')\<close>
      proof cases
        case 1
        then show ?thesis
          using field_placeholder_occurs [of f "browser clock"] by (simp only: p)
      next
        case 2
        then show ?thesis
          using field_placeholder_cep [of f "browser clock"] by (simp only: p)
      next
        case 3
        then show ?thesis
          using field_placeholder_cnpj [of f "browser clock"] by (simp only: p)
      qed
      then show \<open>\<exists>pre post. ?P = pre @ ''placeholder="'' @ ?E p @ ''"'' @ post\<close>
        by (intro occurs3 page)
    }
    {
      fix os x
      assume os: "field_options f = Some os" and x: "x \<in> set os"
      {
        assume "field_type f = ''select''"
        then have \<open>includes_str (generateFieldHTML (browser clock) f)
            (''<option value="'' @ ?E x @ ''">'' @ ?E x @ ''</option>'')\<close>
          using os x by (rule select_option_occurs)
        then show \<open>\<exists>pre post. ?P = pre @ ''<option value="'' @ ?E x @ ''">'' @
                  ?E x @ ''</option>'' @ post\<close>
          by (intro occurs5 page)
      }
      {
        assume r: "field_type f = ''radio''"
        then have \<open>includes_str (generateFieldHTML (browser clock) f) (''value="'' @ ?E x @ ''"'')\<close>
          using os x by (rule radio_option_occurs)
        then show \<open>\<exists>pre post. ?P = pre @ ''value="'' @ ?E x @ ''"'' @ post\<close>
          by (intro occurs3 page)
        from r have \<open>includes_str (generateFieldHTML (browser clock) f) (''">'' @ ?E x @ ''</label>'')\<close>
          using os x by (rule radio_option_occurs)
        then show \<open>\<exists>pre post. ?P = pre @ ''">'' @ ?E x @ ''</label>'' @ post\<close>
          by (intro occurs3 page)
      }
    }
  qed
  show ?thesis
    by (intro conjI c1 c2 c3 c4 c5 c6 c7 c8 c9)
qed

text \<open>
  The example form, with markup characters in its title, its description, a label, a
  placeholder and an option: what the page holds of each.
\<close>

theorem html_export_escapes_witness:
  \<open>(\<exists>pre post. exportAsHTML (browser ''2024-01-01T00:00:00.000Z'') example_text example_form
        no_html_options = pre @ ''<title>Q&amp;A &lt;b&gt;</title>'' @ post) \<and>
   (\<exists>pre post. exportAsHTML (browser ''2024-01-01T00:00:00.000Z'') example_text example_form
        no_html_options = pre @ ''<h1>Q&amp;A &lt;b&gt;</h1>'' @ post) \<and>
   (\<exists>pre post. exportAsHTML (browser ''2024-01-01T00:00:00.000Z'') example_text example_form
        no_html_options = pre @ ''<p class="form-description">Ask &gt; answer</p>'' @ post) \<and>
   (\<exists>pre post. exportAsHTML (browser ''2024-01-01T00:00:00.000Z'') example_text example_form
        no_html_options = pre @ ''E-mail &lt;you&gt;<span class="required">*</span>'' @ post) \<and>
   (\<exists>pre post. exportAsHTML (browser ''2024-01-01T00:00:00.000Z'') example_text example_form
        no_html_options = pre @ ''placeholder="a&amp;b"'' @ post) \<and>
   (\<exists>pre post. exportAsHTML (browser ''2024-01-01T00:00:00.000Z'') example_text example_form
        no_html_options = pre @ ''value="x&lt;y"'' @ post) \<and>
   (\<exists>pre post. exportAsHTML (browser ''2024-01-01T00:00:00.000Z'') example_text example_form
        no_html_options = pre @ ''">x&lt;y</label>'' @ post) \<and>
   escapeHtml (browser ''2024-01-01T00:00:00.000Z'') ''Q&A <b>'' = ''Q&amp;A &lt;b&gt;'' \<and>
   CHR ''<'' \<notin> set (escapeHtml (browser ''2024-01-01T00:00:00.000Z'') ''Q&A <b>'')\<close>
proof -
  let ?c = "''2024-01-01T00:00:00.000Z''"
  let ?P = "exportAsHTML (browser ?c) example_text example_form no_html_options"
  note t = html_export_escapes [of ?c "''Q&A <b>''" example_text example_form no_html_options]
  note t6 = t [THEN conjunct2, THEN conjunct2, THEN conjunct2, THEN conjunct2, THEN conjunct2]
  note t9 = t6 [THEN conjunct2, THEN conjunct2, THEN conjunct2]
  have title: "fm_title example_form = ''Q&A <b>''"
    and description: "fm_description example_form = ''Ask > answer''"
    and fieldList: "fm_fields example_form =
        [\<lparr>field_id = ''f1'', field_type = ''email'', field_label = ''E-mail <you>'',
          field_placeholder = Some ''a&b'', field_required = True, field_options = None\<rparr>,
         \<lparr>field_id = ''f2'', field_type = ''radio'', field_label = ''Pick'',
          field_placeholder = None, field_required = False,
          field_options = Some [''x<y'', ''z'']\<rparr>]"
    by (simp_all add: example_form_def)
  have e: "escapeHtml (browser ?c) ''Q&A <b>'' = ''Q&amp;A &lt;b&gt;''"
    "escapeHtml (browser ?c) ''Ask > answer'' = ''Ask &gt; answer''"
    "escapeHtml (browser ?c) ''E-mail <you>'' = ''E-mail &lt;you&gt;''"
    "escapeHtml (browser ?c) ''a&b'' = ''a&amp;b''"
    "escapeHtml (browser ?c) ''x<y'' = ''x&lt;y''"
    by (simp_all add: dom_escape_def escape_char_def)
  have w1: "\<exists>pre post. ?P = pre @ ''<title>Q&amp;A &lt;b&gt;</title>'' @ post"
    using t6 [THEN conjunct1] by (simp add: title dom_escape_def escape_char_def)
  have w2: "\<exists>pre post. ?P = pre @ ''<h1>Q&amp;A &lt;b&gt;</h1>'' @ post"
    using t6 [THEN conjunct2, THEN conjunct1] by (simp add: title dom_escape_def escape_char_def)
  have w3: \<open>\<exists>pre post. ?P = pre @ ''<p class="form-description">Ask &gt; answer</p>'' @ post\<close>
    using t6 [THEN conjunct2, THEN conjunct2, THEN conjunct1] by (simp add: description dom_escape_def escape_char_def)
  have w4: \<open>\<exists>pre post. ?P = pre @ ''E-mail &lt;you&gt;<span class="required">*</span>'' @ post\<close>
    using t9 by (simp add: fieldList dom_escape_def escape_char_def requiredLabel_def)
  have w5: \<open>\<exists>pre post. ?P = pre @ ''placeholder="a&amp;b"'' @ post\<close>
    using t9 by (simp add: fieldList dom_escape_def escape_char_def)
  have w6: \<open>\<exists>pre post. ?P = pre @ ''value="x&lt;y"'' @ post\<close>
    and w7: \<open>\<exists>pre post. ?P = pre @ ''">x&lt;y</label>'' @ post\<close>
    using t9 by (simp_all add: fieldList dom_escape_def escape_char_def)
  have w8: "CHR ''<'' \<notin> set (escapeHtml (browser ?c) ''Q&A <b>'')"
    using t [THEN conjunct2, THEN conjunct1] .
  show ?thesis
    by (intro conjI w1 w2 w3 w4 w5 w6 w7 w8 e(1))
qed

subsection \<open>What an export depends on\<close>

lemma less_16_cases:
  "(a :: nat) < 16 \<Longrightarrow>
   a = 0 \<or> a = 1 \<or> a = 2 \<or> a = 3 \<or> a = 4 \<or> a = 5 \<or> a = 6 \<or> a = 7 \<or>
   a = 8 \<or> a = 9 \<or> a = 10 \<or> a = 11 \<or> a = 12 \<or> a = 13 \<or> a = 14 \<or> a = 15"
  by arith

lemma unhex_hex_digit: "a < 16 \<Longrightarrow> unhex (hex_digit a) = a"
  by (drule less_16_cases) (auto simp: unhex_def hex_digit_def)

lemma hex_digit_inj: "a < 16 \<Longrightarrow> b < 16 \<Longrightarrow> hex_digit a = hex_digit b \<Longrightarrow> a = b"
  by (metis unhex_hex_digit)

lemma hex_digit_not_special:
  "a < 16 \<Longrightarrow> hex_digit a \<noteq> CHR 0x22 \<and> hex_digit a \<noteq> CHR 0x5C"
  by (drule less_16_cases) (auto simp: hex_digit_def)

lemma control_hex_inj:
  assumes "(of_char c1 :: nat) < 32" "(of_char c2 :: nat) < 32"
    and "hex_digit (of_char c1 div 16) = hex_digit (of_char c2 div 16)"
    and "hex_digit (of_char c1 mod 16) = hex_digit (of_char c2 mod 16)"
  shows "c1 = c2"
proof -
  have "(of_char c1 :: nat) div 16 = of_char c2 div 16"
    using assms(1,2,3) by (intro hex_digit_inj) auto
  moreover have "(of_char c1 :: nat) mod 16 = of_char c2 mod 16"
    using assms(4) by (intro hex_digit_inj) auto
  ultimately have "(of_char c1 :: nat) = of_char c2"
    by (metis div_mult_mod_eq)
  then show ?thesis by simp
qed

lemma json_escape_char_inj:
  "json_escape_char c1 @ r1 = json_escape_char c2 @ r2 \<Longrightarrow> c1 = c2 \<and> r1 = r2"
  unfolding json_escape_char_def backslash_def
  by (auto split: if_splits dest: control_hex_inj)

lemma concat_escape_inj:
  "concat (map json_escape_char s1) = concat (map json_escape_char s2) \<Longrightarrow> s1 = s2"
proof (induction s1 arbitrary: s2)
  case Nil
  have ne: "\<And>c. json_escape_char c \<noteq> []"
    by (simp add: json_escape_char_def)
  from Nil show ?case by (cases s2) (simp_all add: ne)
next
  case (Cons c s1)
  have ne: "\<And>c. json_escape_char c \<noteq> []"
    by (simp add: json_escape_char_def)
  show ?case
  proof (cases s2)
    case Nil
    with Cons.prems show ?thesis by (simp add: ne)
  next
    case (Cons d s2')
    with Cons.prems have "json_escape_char c @ concat (map json_escape_char s1) =
        json_escape_char d @ concat (map json_escape_char s2')"
      by simp
    then have "c = d \<and> concat (map json_escape_char s1) = concat (map json_escape_char s2')"
      by (rule json_escape_char_inj)
    with Cons.IH Cons show ?thesis by simp
  qed
qed

lemma json_quote_inj: "json_quote s1 = json_quote s2 \<Longrightarrow> s1 = s2"
  by (simp add: json_quote_def concat_escape_inj)

lemma join_Cons: "join sep (x # xs) = x @ (if xs = [] then [] else sep @ join sep xs)"
  by (cases xs) simp_all

lemma stringify_second_property:
  "\<exists>pre post. \<forall>t. stringify gap ind (JObject ((k1, v1) # (k2, JString t) # others)) =
      pre @ json_quote t @ post"
proof (cases "gap = []")
  case True
  show ?thesis
    apply (rule exI [of _ "''{'' @ json_quote k1 @ '':'' @ stringify gap (ind @ gap) v1 @ '','' @
        json_quote k2 @ '':''"])
    apply (rule exI [of _ "(if others = [] then [] else '','' @ join '',''
        (map (\<lambda>kv. json_quote (fst kv) @ '':'' @ stringify gap (ind @ gap) (snd kv)) others)) @ ''}''"])
    using True by (simp add: Let_def join_Cons)
next
  case False
  show ?thesis
    apply (rule exI [of _ "''{'' @ [CHR 0x0A] @ (ind @ gap) @ json_quote k1 @ '': '' @
        stringify gap (ind @ gap) v1 @ '','' @ [CHR 0x0A] @ (ind @ gap) @ json_quote k2 @ '': ''"])
    apply (rule exI [of _ "(if others = [] then [] else '','' @ [CHR 0x0A] @ (ind @ gap) @
        join ('','' @ [CHR 0x0A] @ (ind @ gap))
        (map (\<lambda>kv. json_quote (fst kv) @ '': '' @ stringify gap (ind @ gap) (snd kv)) others)) @
        [CHR 0x0A] @ ind @ ''}''"])
    using False by (simp add: Let_def join_Cons)
qed

lemma exportAsJSON_shape:
  "\<exists>pre post. \<forall>env. exportAsJSON env form options = pre @ json_quote (now_iso env) @ post"
proof -
  obtain pre post where
    "\<forall>t. stringify (if \<not> default_to False (json_minify options) then ''  '' else []) []
       (JObject ((''version'', JString (default_to ''1.0'' (json_version options))) #
          (''exportedAt'', JString t) #
          ([(''form'', JObject
                   [(''id'', JString (fm_id form)),
                    (''title'', JString (fm_title form)),
                    (''description'', JString (fm_description form)),
                    (''fields'', JArray (map (exportField (default_to True (json_includeValidation options)))
                        (fm_fields form)))])] @
               (if default_to True (json_includeMetadata options) then
                  [(''metadata'', JObject
                      [(''status'', JString (fm_status form)),
                       (''createdAt'', JString (fm_created_at form)),
                       (''updatedAt'', JString (fm_updated_at form)),
                       (''fieldCount'', JNumber (int (length (fm_fields form)))),
                       (''requiredFields'',
                          JNumber (int (length (filter field_required (fm_fields form)))))])]
                else [])))) = pre @ json_quote t @ post"
    using stringify_second_property by blast
  then have "\<forall>env. exportAsJSON env form options = pre @ json_quote (now_iso env) @ post"
    by (simp add: exportAsJSON_def Let_def JSON_stringify_def)
  then show ?thesis by blast
qed

lemma exportAsJSON_eq_iff:
  "(exportAsJSON env1 form options = exportAsJSON env2 form options) =
   (now_iso env1 = now_iso env2)"
proof -
  obtain pre post where s: "\<forall>env. exportAsJSON env form options = pre @ json_quote (now_iso env) @ post"
    using exportAsJSON_shape by blast
  show ?thesis
    by (auto simp: s dest: json_quote_inj)
qed

lemma escapeHtml_cong: "text_markup env1 = text_markup env2 \<Longrightarrow> escapeHtml env1 = escapeHtml env2"
  by (rule ext) (simp add: escapeHtml_def)

lemma generateFieldHTML_cong:
  assumes "text_markup env1 = text_markup env2"
  shows "generateFieldHTML env1 = generateFieldHTML env2"
proof (rule ext)
  fix f
  note e = escapeHtml_cong [OF assms]
  show "generateFieldHTML env1 f = generateFieldHTML env2 f"
    unfolding generateFieldHTML_def inputFieldHTML_def cepFieldHTML_def cnpjFieldHTML_def
      textareaFieldHTML_def selectFieldHTML_def selectOptions_def radioFieldHTML_def
      radioOptions_def checkboxFieldHTML_def dateFieldHTML_def e
    by (rule refl)
qed

lemma exportAsHTML_cong:
  assumes "text_markup env1 = text_markup env2"
  shows "exportAsHTML env1 txt form options = exportAsHTML env2 txt form options"
  unfolding exportAsHTML_def generateHTMLTemplate_def generateFormHTML_def
    generateFieldHTML_cong [OF assms] escapeHtml_cong [OF assms]
  by (rule refl)

text \<open>
  Claim C5, as stated, asks that two invocations of the JSON export on the same form
  and options return the identical string. \<open>exportAsJSON\<close> writes the time of the call
  into \<open>exportedAt\<close>: two calls one millisecond apart return different strings.
\<close>

theorem json_export_counterexample:
  "exportAsJSON (browser ''2024-01-01T00:00:00.000Z'') example_form no_json_options \<noteq>
   exportAsJSON (browser ''2024-01-01T00:00:00.001Z'') example_form no_json_options"
  by (simp add: exportAsJSON_eq_iff browser_def)

text \<open>
  Claim C5, amended. The HTML export is deterministic: for every form and every choice
  of options its output is the same in any two invocations, whatever the clock reads,
  as long as the document serialises text the same way. The JSON export embeds the
  time of the invocation: two invocations on the same form and options return the
  identical string exactly when they read the same time.
\<close>

theorem export_determinism:
  "(text_markup env1 = text_markup env2 \<longrightarrow>
      exportAsHTML env1 txt form options = exportAsHTML env2 txt form options) \<and>
   ((exportAsJSON env1 form joptions = exportAsJSON env2 form joptions) =
      (now_iso env1 = now_iso env2))"
  using exportAsHTML_cong exportAsJSON_eq_iff by blast

theorem export_determinism_witness:
  "text_markup (browser ''2024-01-01T00:00:00.000Z'') = text_markup (browser ''2024-06-30T12:00:00.000Z'') \<and>
   exportAsHTML (browser ''2024-01-01T00:00:00.000Z'') example_text example_form no_html_options =
     exportAsHTML (browser ''2024-06-30T12:00:00.000Z'') example_text example_form no_html_options \<and>
   exportAsJSON (browser ''2024-01-01T00:00:00.000Z'') example_form no_json_options =
     exportAsJSON (verbatim ''2024-01-01T00:00:00.000Z'') example_form no_json_options"
proof -
  have m: "text_markup (browser ''2024-01-01T00:00:00.000Z'') =
      text_markup (browser ''2024-06-30T12:00:00.000Z'')"
    by (simp add: browser_def)
  from export_determinism [of "browser ''2024-01-01T00:00:00.000Z''"
      "browser ''2024-06-30T12:00:00.000Z''" example_text example_form no_html_options
      no_json_options] m
  have a: "exportAsHTML (browser ''2024-01-01T00:00:00.000Z'') example_text example_form no_html_options =
     exportAsHTML (browser ''2024-06-30T12:00:00.000Z'') example_text example_form no_html_options"
    by blast
  from export_determinism [of "browser ''2024-01-01T00:00:00.000Z''"
      "verbatim ''2024-01-01T00:00:00.000Z''" example_text example_form no_html_options
      no_json_options]
  have b: "exportAsJSON (browser ''2024-01-01T00:00:00.000Z'') example_form no_json_options =
     exportAsJSON (verbatim ''2024-01-01T00:00:00.000Z'') example_form no_json_options"
    by (simp add: browser_def verbatim_def)
  show ?thesis using m a b by blast
qed

section \<open>Properties of the submissions handler\<close>

lemma db_member_get_run: "\<not> db_member ''get''" "\<not> db_member ''run''"
  by (simp_all add: db_member_def Database_members_def object_prototype_members_def)

text \<open>
  Once the CSRF header and the body have passed, the handler calls \<open>db.get\<close>, which the
  database object does not have: the answer is 500, whatever the forms and the data.
\<close>

lemma POST_after_schema:
  assumes "present (post_headers request ''x-csrf-token'')"
    and "length (the (post_headers request ''x-csrf-token'')) \<ge> 10"
    and "post_body request = Some body" and "safeParse body = Some (formId, submitted)"
  shows "POST pf request now db = (InternalError, db)"
  using assms by (simp add: POST_def db_member_get_run)

lemma POST_unchanged: "snd (POST pf request now db) = db"
  by (simp add: POST_def db_member_get_run Let_def split: option.splits)

lemma example_post_parsed:
  "post_body (example_post csrf formId submitted) =
     Some (JObject [(''formId'', JString formId), (''data'', JObject submitted)])"
  "formId \<noteq> [] \<Longrightarrow>
   safeParse (JObject [(''formId'', JString formId), (''data'', JObject submitted)]) =
     Some (formId, submitted)"
  "present (post_headers (example_post (Some ''0123456789abcdef'') formId submitted) ''x-csrf-token'')"
  "the (post_headers (example_post (Some ''0123456789abcdef'') formId submitted) ''x-csrf-token'') =
     ''0123456789abcdef''"
  by (auto simp: example_post_def safeParse_def present_def Suc_le_eq)

text \<open>
  Claim C7 asks for status 404 when no active form with the given id exists, and for
  status 400 when a required field is missing. The example database has no form 99, and
  its active form 1 requires the field \<open>name\<close>. A request with a CSRF token for form
  99, and a request with a CSRF token for form 1 that submits no data, are both answered
  500: the handler's first query throws. The database is unchanged.
\<close>

theorem submissions_post_internal_error:
  "map row_id (forms example_db) = [1, 2] \<and>
   POST example_platform (example_post (Some ''0123456789abcdef'') ''99'' []) 1000 example_db =
     (InternalError, example_db) \<and>
   map row_status (forms example_db) = [''active'', ''draft''] \<and>
   JSON_parse example_platform (row_fields (hd (forms example_db))) =
     Some (JArray [field_to_json name_field]) \<and>
   field_required name_field \<and> field_id name_field = ''name'' \<and>
   POST example_platform (example_post (Some ''0123456789abcdef'') ''1'' []) 1000 example_db =
     (InternalError, example_db) \<and>
   status_code InternalError = 500"
proof -
  have "POST example_platform (example_post (Some ''0123456789abcdef'') ''99'' []) 1000 example_db =
     (InternalError, example_db)"
    by (rule POST_after_schema [where formId = "''99''" and submitted = "[]"
          and body = "JObject [(''formId'', JString ''99''), (''data'', JObject [])]"])
      (simp_all add: example_post_parsed)
  moreover have "POST example_platform (example_post (Some ''0123456789abcdef'') ''1'' []) 1000 example_db =
     (InternalError, example_db)"
    by (rule POST_after_schema [where formId = "''1''" and submitted = "[]"
          and body = "JObject [(''formId'', JString ''1''), (''data'', JObject [])]"])
      (simp_all add: example_post_parsed)
  ultimately show ?thesis
    by (simp add: example_db_def example_platform_def name_field_def)
qed

end
